theory Spec2Isabelle
  imports Complex_Main "HOL-Library.AList"
begin

section \<open>Decoupled weight decay optimizers: data model\<close>

text \<open>
  This theory embeds \<^verbatim>\<open>composer/optim/decoupled_weight_decay.py\<close>.

  Conventions of the embedding.
  \<^item> A tensor is the list of its elements in flattened order (\<open>real list\<close>); a
    zero-dimensional tensor and a Python float are both a \<open>real\<close>. Arithmetic is
    that of the real numbers: rounding, infinities and NaN of the floating-point
    runtime are not represented. Where the source divides a tensor element-wise by
    a tensor with a zero element it obtains a non-finite tensor and goes on; the model
    has HOL's \<open>x / 0 = 0\<close> there, so every theorem about such a quotient assumes the
    divisor nonzero. Division of a Python float by zero raises \<open>ZeroDivisionError\<close>
    in the source and in the model; so does, in the model, the division of a metric
    scalar by zero, where the source raises if the scalar is a float and stores a
    non-finite value if it is a zero-dimensional tensor.
  \<^item> Exceptions of the source are values of \<open>error\<close>. A function that mutates its
    argument returns the new value; the two \<^verbatim>\<open>step\<close> methods, which can raise after they
    have mutated the optimizer, return the optimizer as it is when they return or raise.
  \<^item> A Python \<open>dict\<close> whose iteration order matters is an association list with
    distinct keys in insertion order.
\<close>

datatype error =
  KeyError | ValueError | IndexError | ZeroDivisionError | TypeError | AttributeError | RuntimeError

type_synonym tensor = "real list"

subsection \<open>Strings\<close>

text \<open>\<^verbatim>\<open>s.startswith(p)\<close>, \<^verbatim>\<open>sub in s\<close> and \<^verbatim>\<open>s.split(sep)\<close> for a one-character separator.\<close>

definition startswith :: "string \<Rightarrow> string \<Rightarrow> bool" where
  "startswith p s = (take (length p) s = p)"

fun contains :: "string \<Rightarrow> string \<Rightarrow> bool" where
  "contains sub [] = (sub = [])"
| "contains sub (c # cs) = (startswith sub (c # cs) \<or> contains sub cs)"

fun split :: "char \<Rightarrow> string \<Rightarrow> string list" where
  "split sep [] = [[]]"
| "split sep (c # cs) =
     (if c = sep then [] # split sep cs
      else (case split sep cs of
              [] \<Rightarrow> [[c]]
            | w # ws \<Rightarrow> (c # w) # ws))"

subsection \<open>Metric records\<close>

text \<open>
  The metrics mapping \<^verbatim>\<open>optimizer_metrics\<close>: a \<open>dict\<close> from compound keys to scalars.
  \<open>getitem\<close> is \<^verbatim>\<open>d[k]\<close> (raising \<open>KeyError\<close>), \<open>setitem\<close> is \<^verbatim>\<open>d[k] = v\<close>, which keeps
  the position of an existing key and appends a new one.
\<close>

type_synonym metrics = "(string \<times> real) list"

definition getitem :: "('k \<times> 'v) list \<Rightarrow> 'k \<Rightarrow> error + 'v" where
  "getitem d k = (case map_of d k of None \<Rightarrow> Inl KeyError | Some v \<Rightarrow> Inr v)"

definition setitem :: "('k \<times> 'v) list \<Rightarrow> 'k \<Rightarrow> 'v \<Rightarrow> ('k \<times> 'v) list" where
  "setitem d k v = AList.update k v d"

definition keys :: "('k \<times> 'v) list \<Rightarrow> 'k list" where
  "keys d = map fst d"

text \<open>\<^verbatim>\<open>math.sqrt\<close> raises \<open>ValueError\<close> (math domain error) on a negative argument.\<close>

definition math_sqrt :: "real \<Rightarrow> error + real" where
  "math_sqrt x = (if x < 0 then Inl ValueError else Inr (sqrt x))"

text \<open>The key \<^verbatim>\<open>f'l2_norm/{A}/{layer}'\<close>.\<close>

definition l2_norm_key :: "string \<Rightarrow> string \<Rightarrow> string" where
  "l2_norm_key A layer = ''l2_norm/'' @ A @ ''/'' @ layer"

section \<open>The distributed reduction protocol\<close>

subsection \<open>\<^verbatim>\<open>DecoupledAdamW.pre_reduce_metrics\<close>\<close>

text \<open>
  The sort key of \<^verbatim>\<open>sorted(metrics, key=lambda metric: 0 if 'l2_norm' in metric else 1)\<close>.
  Python's \<^verbatim>\<open>sorted\<close> is stable, as is \<open>sort_key\<close>.
\<close>

definition sort_rank :: "string \<Rightarrow> nat" where
  "sort_rank metric = (if contains ''l2_norm'' metric then 0 else 1)"

text \<open>The body of the loop \<^verbatim>\<open>for metric in metrics\<close>, and the loop.\<close>

definition pre_reduce_entry :: "string \<Rightarrow> metrics \<Rightarrow> error + metrics" where
  "pre_reduce_entry metric optimizer_metrics =
     (if startswith ''l2_norm'' metric then
        (case getitem optimizer_metrics metric of
           Inl e \<Rightarrow> Inl e
         | Inr v \<Rightarrow> Inr (setitem optimizer_metrics metric (v ^ 2)))
      else if startswith ''cosine'' metric then
        (case split CHR ''/'' metric of
           [_, vectors, layer] \<Rightarrow>
             (case split CHR ''_'' vectors of
                [A, B] \<Rightarrow>
                  (case getitem optimizer_metrics (l2_norm_key A layer) of
                     Inl e \<Rightarrow> Inl e
                   | Inr a2 \<Rightarrow>
                  (case math_sqrt a2 of
                     Inl e \<Rightarrow> Inl e
                   | Inr A_rank_subset_norm \<Rightarrow>
                  (case getitem optimizer_metrics (l2_norm_key B layer) of
                     Inl e \<Rightarrow> Inl e
                   | Inr b2 \<Rightarrow>
                  (case math_sqrt b2 of
                     Inl e \<Rightarrow> Inl e
                   | Inr B_rank_subset_norm \<Rightarrow>
                  (case getitem optimizer_metrics metric of
                     Inl e \<Rightarrow> Inl e
                   | Inr c \<Rightarrow>
                       Inr (setitem optimizer_metrics metric
                              (c * (A_rank_subset_norm * B_rank_subset_norm))))))))
              | _ \<Rightarrow> Inl ValueError)
         | _ \<Rightarrow> Inl ValueError)
      else Inr optimizer_metrics)"

fun pre_reduce_loop :: "string list \<Rightarrow> metrics \<Rightarrow> error + metrics" where
  "pre_reduce_loop [] optimizer_metrics = Inr optimizer_metrics"
| "pre_reduce_loop (metric # rest) optimizer_metrics =
     (case pre_reduce_entry metric optimizer_metrics of
        Inl e \<Rightarrow> Inl e
      | Inr d \<Rightarrow> pre_reduce_loop rest d)"

definition pre_reduce_metrics :: "metrics \<Rightarrow> error + metrics" where
  "pre_reduce_metrics optimizer_metrics =
     pre_reduce_loop (sort_key sort_rank (keys optimizer_metrics)) optimizer_metrics"

subsection \<open>\<^verbatim>\<open>DecoupledAdamW.dist_reduce_metrics\<close>\<close>

text \<open>
  Modelled from the spec: the collective interface of \<^verbatim>\<open>composer.utils.dist\<close>, which is
  not part of the source file. \<^verbatim>\<open>dist.get_world_size()\<close> is the parameter \<open>world_size\<close>;
  \<^verbatim>\<open>dist.all_reduce(reduced, reduce_operation='SUM')\<close> replaces the local scalar by the
  sum over all workers. Every worker runs the same loop over the same keys in the same
  order, so the collective issued at a key adds what the other workers hold at that key:
  \<open>peer_sum metric\<close> is the sum of their contributions.
\<close>

definition all_reduce :: "(string \<Rightarrow> real) \<Rightarrow> string \<Rightarrow> real \<Rightarrow> real" where
  "all_reduce peer_sum metric reduced = reduced + peer_sum metric"

text \<open>
  The three branches share the lines
  \<^verbatim>\<open>reduced = optimizer_metrics[metric]; if dist.get_world_size() > 1: dist.all_reduce(...)\<close>.
  The two quotients of the loop, \<^verbatim>\<open>reduced / (A_reduced_norm * B_reduced_norm)\<close> and
  \<^verbatim>\<open>reduced / dist.get_world_size()\<close>, are \<open>ZeroDivisionError\<close> at a zero divisor.
\<close>

definition reduced_value :: "nat \<Rightarrow> (string \<Rightarrow> real) \<Rightarrow> string \<Rightarrow> metrics \<Rightarrow> error + real" where
  "reduced_value world_size peer_sum metric optimizer_metrics =
     (case getitem optimizer_metrics metric of
        Inl e \<Rightarrow> Inl e
      | Inr reduced \<Rightarrow>
          Inr (if world_size > 1 then all_reduce peer_sum metric reduced else reduced))"

definition dist_reduce_entry ::
  "nat \<Rightarrow> (string \<Rightarrow> real) \<Rightarrow> string \<Rightarrow> metrics \<Rightarrow> error + metrics" where
  "dist_reduce_entry world_size peer_sum metric optimizer_metrics =
     (case reduced_value world_size peer_sum metric optimizer_metrics of
        Inl e \<Rightarrow> Inl e
      | Inr reduced \<Rightarrow>
     (if startswith ''l2_norm'' metric then
        (case math_sqrt reduced of
           Inl e \<Rightarrow> Inl e
         | Inr r \<Rightarrow> Inr (setitem optimizer_metrics metric r))
      else if startswith ''cosine'' metric then
        (case split CHR ''/'' metric of
           [_, vectors, layer] \<Rightarrow>
             (case split CHR ''_'' vectors of
                [A, B] \<Rightarrow>
                  (case getitem optimizer_metrics (l2_norm_key A layer) of
                     Inl e \<Rightarrow> Inl e
                   | Inr A_reduced_norm \<Rightarrow>
                  (case getitem optimizer_metrics (l2_norm_key B layer) of
                     Inl e \<Rightarrow> Inl e
                   | Inr B_reduced_norm \<Rightarrow>
                       if A_reduced_norm * B_reduced_norm = 0 then Inl ZeroDivisionError
                       else Inr (setitem optimizer_metrics metric
                                   (reduced / (A_reduced_norm * B_reduced_norm)))))
              | _ \<Rightarrow> Inl ValueError)
         | _ \<Rightarrow> Inl ValueError)
      else if world_size = 0 then Inl ZeroDivisionError
      else Inr (setitem optimizer_metrics metric (reduced / real world_size))))"

fun dist_reduce_loop ::
  "nat \<Rightarrow> (string \<Rightarrow> real) \<Rightarrow> string list \<Rightarrow> metrics \<Rightarrow> error + metrics" where
  "dist_reduce_loop world_size peer_sum [] optimizer_metrics = Inr optimizer_metrics"
| "dist_reduce_loop world_size peer_sum (metric # rest) optimizer_metrics =
     (case dist_reduce_entry world_size peer_sum metric optimizer_metrics of
        Inl e \<Rightarrow> Inl e
      | Inr d \<Rightarrow> dist_reduce_loop world_size peer_sum rest d)"

definition dist_reduce_metrics :: "nat \<Rightarrow> (string \<Rightarrow> real) \<Rightarrow> metrics \<Rightarrow> error + metrics" where
  "dist_reduce_metrics world_size peer_sum optimizer_metrics =
     dist_reduce_loop world_size peer_sum (keys optimizer_metrics) optimizer_metrics"

text \<open>
  What a worker contributes to the collective at a key: the value its mapping holds there
  after its own pre-reduce pass (\<open>0\<close> stands for a worker that failed or lacks the key;
  the theorems below only use it on workers that succeed and hold the key).
\<close>

definition contribution :: "error + metrics \<Rightarrow> string \<Rightarrow> real" where
  "contribution r metric =
     (case r of
        Inl e \<Rightarrow> 0
      | Inr d \<Rightarrow> (case map_of d metric of None \<Rightarrow> 0 | Some v \<Rightarrow> v))"

text \<open>The protocol on one worker: pre-reduce, then reduce and reconstruct.\<close>

definition reduce_protocol :: "nat \<Rightarrow> (string \<Rightarrow> real) \<Rightarrow> metrics \<Rightarrow> error + metrics" where
  "reduce_protocol world_size peer_sum optimizer_metrics =
     (case pre_reduce_metrics optimizer_metrics of
        Inl e \<Rightarrow> Inl e
      | Inr d \<Rightarrow> dist_reduce_metrics world_size peer_sum d)"

section \<open>Tensors, parameters and parameter groups\<close>

text \<open>
  The tensor operations the source uses, element by element. The runtime pairs tensors
  of one shape only (a gradient, a moment estimate and a momentum buffer always have
  the shape of their parameter), and so do the lists here.
\<close>

definition tensor_mul :: "tensor \<Rightarrow> real \<Rightarrow> tensor" where
  \<comment> \<open>\<^verbatim>\<open>t.mul_(c)\<close>\<close>
  "tensor_mul t c = map (\<lambda>x. x * c) t"

definition tensor_add :: "tensor \<Rightarrow> tensor \<Rightarrow> real \<Rightarrow> tensor" where
  \<comment> \<open>\<^verbatim>\<open>t.add_(other, alpha=alpha)\<close>\<close>
  "tensor_add t other alpha = map2 (\<lambda>x y. x + alpha * y) t other"

definition tensor_addcmul :: "tensor \<Rightarrow> tensor \<Rightarrow> tensor \<Rightarrow> real \<Rightarrow> tensor" where
  \<comment> \<open>\<^verbatim>\<open>t.addcmul_(t1, t2, value=value)\<close>\<close>
  "tensor_addcmul t t1 t2 val = map2 (\<lambda>x (y, z). x + val * y * z) t (zip t1 t2)"

definition tensor_addcdiv :: "tensor \<Rightarrow> tensor \<Rightarrow> tensor \<Rightarrow> real \<Rightarrow> tensor" where
  \<comment> \<open>\<^verbatim>\<open>t.addcdiv_(t1, t2, value=value)\<close>\<close>
  "tensor_addcdiv t t1 t2 val = map2 (\<lambda>x (y, z). x + val * (y / z)) t (zip t1 t2)"

definition tensor_maximum :: "tensor \<Rightarrow> tensor \<Rightarrow> tensor" where
  "tensor_maximum a b = map2 max a b"

definition tensor_sqrt :: "tensor \<Rightarrow> tensor" where
  "tensor_sqrt t = map sqrt t"

definition tensor_div :: "tensor \<Rightarrow> tensor \<Rightarrow> tensor" where
  "tensor_div a b = map2 (\<lambda>x y. x / y) a b"

definition tensor_div_scalar :: "tensor \<Rightarrow> real \<Rightarrow> tensor" where
  "tensor_div_scalar t c = map (\<lambda>x. x / c) t"

definition tensor_add_scalar :: "tensor \<Rightarrow> real \<Rightarrow> tensor" where
  "tensor_add_scalar t c = map (\<lambda>x. x + c) t"

definition zeros_like :: "tensor \<Rightarrow> tensor" where
  "zeros_like t = map (\<lambda>_. 0) t"

definition dot :: "tensor \<Rightarrow> tensor \<Rightarrow> real" where
  "dot x y = sum_list (map2 (\<lambda>a b. a * b) x y)"

text \<open>\<^verbatim>\<open>torch.linalg.vector_norm\<close> with its default order 2.\<close>

definition vector_norm :: "tensor \<Rightarrow> real" where
  "vector_norm x = sqrt (sum_list (map (\<lambda>v. v ^ 2) x))"

text \<open>
  \<^verbatim>\<open>torch.nn.functional.cosine_similarity(x, y, dim=0)\<close>. The runtime clamps the
  denominator from below at \<open>1e-8\<close>; the model leaves the clamp out, which changes the
  value only for vectors of norm below that bound, and agrees with it (\<open>0\<close>) on a zero
  vector.
\<close>

definition cosine_similarity :: "tensor \<Rightarrow> tensor \<Rightarrow> real" where
  "cosine_similarity x y = dot x y / (vector_norm x * vector_norm y)"

text \<open>
  A gradient is dense or sparse (\<^verbatim>\<open>p.grad.is_sparse\<close>); either way it has the elements
  \<open>to_dense\<close>. A parameter is a tensor with an optional gradient and the flag
  \<^verbatim>\<open>requires_grad\<close>. Parameters are objects with identity: the optimizer refers to them
  by an address (\<open>nat\<close>) into the store \<open>tensors\<close>.
\<close>

datatype gradient = Dense tensor | Sparse tensor

fun is_sparse :: "gradient \<Rightarrow> bool" where
  "is_sparse (Dense t) = False"
| "is_sparse (Sparse t) = True"

fun to_dense :: "gradient \<Rightarrow> tensor" where
  "to_dense (Dense t) = t"
| "to_dense (Sparse t) = t"

record param =
  data :: tensor
  grad :: "gradient option"
  requires_grad :: bool

text \<open>
  A parameter group is a \<open>dict\<close> of hyperparameters with the list of its parameters.
  The key \<^verbatim>\<open>'initial_lr'\<close> may be missing (the Adam step tests for it), the others are
  set by the constructors of the base classes.
\<close>

record group =
  params :: "nat list"
  lr :: real
  weight_decay :: real
  initial_lr :: "real option"

record sgd_group = group +
  momentum :: real
  dampening :: real
  nesterov :: bool

record adam_group = group +
  betas :: "real \<times> real"
  eps :: real
  amsgrad :: bool

text \<open>
  The optimizer: its parameter groups, the per-parameter state \<^verbatim>\<open>self.state\<close> (a
  \<open>defaultdict\<close> keyed by parameter), and the parameters it refers to. The base class
  rejects a parameter that occurs in two groups, so the addresses in the groups are
  taken to be distinct; the lists that \<^verbatim>\<open>step\<close> builds then hold distinct objects, and
  in-place updates through them are updates of list elements.
\<close>

record ('g, 's) optimizer =
  param_groups :: "'g list"
  state :: "nat \<rightharpoonup> 's"
  tensors :: "nat \<Rightarrow> param"

text \<open>\<^verbatim>\<open>decay_factor = (lr / initial_lr) if initial_lr else 1.0\<close>\<close>

definition decay_factor :: "real \<Rightarrow> real \<Rightarrow> real" where
  "decay_factor lr0 initial_lr0 = (if initial_lr0 \<noteq> 0 then lr0 / initial_lr0 else 1)"

section \<open>\<^verbatim>\<open>DecoupledSGDW\<close>\<close>

subsection \<open>\<^verbatim>\<open>DecoupledSGDW.sgdw\<close>\<close>

text \<open>
  One iteration of \<^verbatim>\<open>for i, param in enumerate(params)\<close>, on the parameter, its gradient
  and its momentum buffer slot (\<open>None\<close> is Python's \<^verbatim>\<open>None\<close>). The slot is read and
  written only when \<^verbatim>\<open>momentum != 0\<close>.
\<close>

definition sgdw_entry ::
  "real \<Rightarrow> real \<Rightarrow> real \<Rightarrow> real \<Rightarrow> real \<Rightarrow> bool \<Rightarrow>
   tensor \<Rightarrow> tensor \<Rightarrow> tensor option \<Rightarrow> tensor \<times> tensor option" where
  "sgdw_entry weight_decay' momentum' lr' initial_lr' dampening' nesterov' param' d_p slot =
     (let (d_p1, slot1) =
            (if momentum' \<noteq> 0 then
               (let buf = (case slot of
                             None \<Rightarrow> d_p
                           | Some b \<Rightarrow> tensor_add (tensor_mul b momentum') d_p (1 - dampening'))
                in (if nesterov' then tensor_add d_p buf momentum' else buf, Some buf))
             else (d_p, slot));
          param1 =
            (if weight_decay' \<noteq> 0
             then tensor_mul param' (1 - decay_factor lr' initial_lr' * weight_decay')
             else param')
      in (tensor_add param1 d_p1 (- lr'), slot1))"

text \<open>
  The loop over the indices of \<open>params\<close>. Reading \<^verbatim>\<open>d_p_list[i]\<close> or
  \<^verbatim>\<open>momentum_buffer_list[i]\<close> beyond the end of a list raises \<open>IndexError\<close>; the lists are
  returned as they are at that point.
\<close>

fun sgdw_loop ::
  "real \<Rightarrow> real \<Rightarrow> real \<Rightarrow> real \<Rightarrow> real \<Rightarrow> bool \<Rightarrow> tensor list \<Rightarrow> nat list \<Rightarrow>
   tensor list \<times> tensor option list \<Rightarrow> error option \<times> tensor list \<times> tensor option list" where
  "sgdw_loop weight_decay' momentum' lr' initial_lr' dampening' nesterov' d_p_list []
     (ps, bufs) = (None, ps, bufs)"
| "sgdw_loop weight_decay' momentum' lr' initial_lr' dampening' nesterov' d_p_list (i # rest)
     (ps, bufs) =
     (if length d_p_list \<le> i then (Some IndexError, ps, bufs)
      else if momentum' \<noteq> 0 \<and> length bufs \<le> i then (Some IndexError, ps, bufs)
      else
        (let (p1, slot1) =
               sgdw_entry weight_decay' momentum' lr' initial_lr' dampening' nesterov'
                 (ps ! i) (d_p_list ! i) (if momentum' \<noteq> 0 then bufs ! i else None)
         in sgdw_loop weight_decay' momentum' lr' initial_lr' dampening' nesterov' d_p_list rest
              (ps[i := p1], if momentum' \<noteq> 0 then bufs[i := slot1] else bufs)))"

definition sgdw ::
  "tensor list \<Rightarrow> tensor list \<Rightarrow> tensor option list \<Rightarrow>
   real \<Rightarrow> real \<Rightarrow> real \<Rightarrow> real \<Rightarrow> real \<Rightarrow> bool \<Rightarrow>
   error option \<times> tensor list \<times> tensor option list" where
  "sgdw params' d_p_list momentum_buffer_list
        weight_decay' momentum' lr' initial_lr' dampening' nesterov' =
     sgdw_loop weight_decay' momentum' lr' initial_lr' dampening' nesterov' d_p_list
       [0..<length params'] (params', momentum_buffer_list)"

subsection \<open>\<^verbatim>\<open>DecoupledSGDW.step\<close>\<close>

text \<open>
  The state \<open>dict\<close> of one parameter has the single key \<^verbatim>\<open>'momentum_buffer'\<close>:
  \<open>None\<close> when the key is absent, \<open>Some None\<close> when it holds Python's \<^verbatim>\<open>None\<close>,
  \<open>Some (Some t)\<close> when it holds a tensor.
\<close>

record sgd_state =
  momentum_buffer :: "tensor option option"

type_synonym sgd_optimizer = "(sgd_group, sgd_state) optimizer"

text \<open>\<^verbatim>\<open>self.state[p]\<close>: a \<open>defaultdict\<close> inserts an empty \<open>dict\<close> for a missing key.\<close>

definition sgd_state_of :: "(nat \<rightharpoonup> sgd_state) \<Rightarrow> nat \<Rightarrow> sgd_state" where
  "sgd_state_of st p = (case st p of None \<Rightarrow> \<lparr>momentum_buffer = None\<rparr> | Some s \<Rightarrow> s)"

text \<open>
  The loop \<^verbatim>\<open>for p in group['params']\<close>: it returns \<open>params_with_grad\<close>, \<open>d_p_list\<close>,
  \<open>momentum_buffer_list\<close> and the state store (an entry is created for every parameter
  that has a gradient).
\<close>

fun sgd_collect ::
  "(nat \<Rightarrow> param) \<Rightarrow> nat list \<Rightarrow> (nat \<rightharpoonup> sgd_state) \<Rightarrow>
   (nat list \<times> tensor list \<times> tensor option list) \<times> (nat \<rightharpoonup> sgd_state)" where
  "sgd_collect ts [] st = (([], [], []), st)"
| "sgd_collect ts (p # ps) st =
     (case grad (ts p) of
        None \<Rightarrow> sgd_collect ts ps st
      | Some g \<Rightarrow>
          (let s = sgd_state_of st p;
               slot = (case momentum_buffer s of None \<Rightarrow> None | Some b \<Rightarrow> b);
               ((params_with_grad, d_p_list, momentum_buffer_list), st1) =
                  sgd_collect ts ps (st(p \<mapsto> s))
           in ((p # params_with_grad, to_dense g # d_p_list, slot # momentum_buffer_list), st1)))"

text \<open>The parameters updated in place by \<open>sgdw\<close>, written to the store.\<close>

fun store_data :: "(nat \<times> tensor) list \<Rightarrow> (nat \<Rightarrow> param) \<Rightarrow> (nat \<Rightarrow> param)" where
  "store_data [] ts = ts"
| "store_data ((p, v) # rest) ts = store_data rest (ts(p := (ts p)\<lparr>data := v\<rparr>))"

text \<open>
  \<^verbatim>\<open>for p, momentum_buffer in zip(params_with_grad, momentum_buffer_list):
      state = self.state[p]; state['momentum_buffer'] = momentum_buffer\<close>
\<close>

fun store_buffers ::
  "(nat \<times> tensor option) list \<Rightarrow> (nat \<rightharpoonup> sgd_state) \<Rightarrow> (nat \<rightharpoonup> sgd_state)" where
  "store_buffers [] st = st"
| "store_buffers ((p, momentum_buffer') # rest) st =
     store_buffers rest (st(p \<mapsto> (sgd_state_of st p)\<lparr>momentum_buffer := Some momentum_buffer'\<rparr>))"

text \<open>
  The body of \<^verbatim>\<open>for group in self.param_groups\<close>. \<^verbatim>\<open>group['initial_lr']\<close> raises
  \<open>KeyError\<close> when the key is missing, before anything is read or written. When \<open>sgdw\<close>
  raises, the state is not written back; \<open>sgdw\<close> is called with three lists of one length
  here, so that it does not raise.
\<close>

definition sgd_group_step :: "sgd_group \<Rightarrow> sgd_optimizer \<Rightarrow> error option \<times> sgd_optimizer" where
  "sgd_group_step g opt =
     (case initial_lr g of
        None \<Rightarrow> (Some KeyError, opt)
      | Some initial_lr' \<Rightarrow>
          (let ((params_with_grad, d_p_list, momentum_buffer_list), st1) =
                 sgd_collect (tensors opt) (params g) (state opt);
               (err, ps1, bufs1) =
                 sgdw (map (\<lambda>p. data (tensors opt p)) params_with_grad) d_p_list
                   momentum_buffer_list (weight_decay g) (momentum g) (lr g) initial_lr'
                   (dampening g) (nesterov g);
               ts1 = store_data (zip params_with_grad ps1) (tensors opt)
           in (case err of
                 Some e \<Rightarrow> (Some e, opt\<lparr>state := st1, tensors := ts1\<rparr>)
               | None \<Rightarrow>
                   (None, opt\<lparr>state := store_buffers (zip params_with_grad bufs1) st1,
                              tensors := ts1\<rparr>))))"

fun sgd_groups_step :: "sgd_group list \<Rightarrow> sgd_optimizer \<Rightarrow> error option \<times> sgd_optimizer" where
  "sgd_groups_step [] opt = (None, opt)"
| "sgd_groups_step (g # gs) opt =
     (case sgd_group_step g opt of
        (Some e, opt1) \<Rightarrow> (Some e, opt1)
      | (None, opt1) \<Rightarrow> sgd_groups_step gs opt1)"

text \<open>
  The closure, when there is one, is code of the caller: it returns the loss and may
  change the optimizer and its parameters (it usually computes the gradients).
\<close>

definition run_closure ::
  "(('g, 's) optimizer \<Rightarrow> real \<times> ('g, 's) optimizer) option \<Rightarrow> ('g, 's) optimizer \<Rightarrow>
   real option \<times> ('g, 's) optimizer" where
  "run_closure closure opt =
     (case closure of
        None \<Rightarrow> (None, opt)
      | Some c \<Rightarrow> (let (loss, opt1) = c opt in (Some loss, opt1)))"

definition DecoupledSGDW_step ::
  "(sgd_optimizer \<Rightarrow> real \<times> sgd_optimizer) option \<Rightarrow> sgd_optimizer \<Rightarrow>
   (error + real option) \<times> sgd_optimizer" where
  "DecoupledSGDW_step closure opt =
     (let (loss, opt1) = run_closure closure opt
      in (case sgd_groups_step (param_groups opt1) opt1 of
            (Some e, opt2) \<Rightarrow> (Inl e, opt2)
          | (None, opt2) \<Rightarrow> (Inr loss, opt2)))"

section \<open>\<^verbatim>\<open>DecoupledAdamW\<close>\<close>

subsection \<open>\<^verbatim>\<open>DecoupledAdamW.adamw\<close>\<close>

text \<open>
  One iteration of \<^verbatim>\<open>for i, param in enumerate(params)\<close> works on the parameter, its two
  moment estimates and, for \<^verbatim>\<open>amsgrad\<close>, the entry of \<^verbatim>\<open>max_exp_avg_sqs\<close> (\<open>None\<close> when
  that list has no entry \<open>i\<close>). All of them are updated in place, so an iteration that
  raises returns them as they are at that point. \<open>adamw_finish\<close> is the part from
  \<^verbatim>\<open>denom = ...\<close> on, which both branches of \<^verbatim>\<open>if amsgrad\<close> share; \<open>v\<close> is the second
  moment that normalises.
\<close>

type_synonym adam_slot = "tensor \<times> tensor \<times> tensor \<times> tensor option"

definition adamw_finish ::
  "real \<Rightarrow> real \<Rightarrow> real \<Rightarrow> real \<Rightarrow> tensor \<Rightarrow> adam_slot \<Rightarrow> error option \<times> adam_slot" where
  "adamw_finish lr' eps' bias_correction1 bias_correction2 v slot =
     (case slot of (param1, exp_avg1, exp_avg_sq1, max1) \<Rightarrow>
        (case math_sqrt bias_correction2 of
           Inl e \<Rightarrow> (Some e, slot)
         | Inr r \<Rightarrow>
             (let denom = tensor_add_scalar (tensor_div_scalar (tensor_sqrt v) r) eps'
              in if bias_correction1 = 0 then (Some ZeroDivisionError, slot)
                 else
                   (let step_size = lr' / bias_correction1
                    in (None, (tensor_addcdiv param1 exp_avg1 denom (- step_size),
                               exp_avg1, exp_avg_sq1, max1))))))"

definition adamw_entry ::
  "bool \<Rightarrow> real \<Rightarrow> real \<Rightarrow> real \<Rightarrow> real \<Rightarrow> real \<Rightarrow> real \<Rightarrow> tensor \<Rightarrow> nat \<Rightarrow> adam_slot \<Rightarrow>
   error option \<times> adam_slot" where
  "adamw_entry amsgrad' beta1 beta2 lr' initial_lr' weight_decay' eps' grad' step' slot =
     (case slot of (param', exp_avg', exp_avg_sq', max') \<Rightarrow>
        (let param1 =
               (if weight_decay' \<noteq> 0
                then tensor_mul param' (1 - decay_factor lr' initial_lr' * weight_decay')
                else param');
             bias_correction1 = 1 - beta1 ^ step';
             bias_correction2 = 1 - beta2 ^ step';
             exp_avg1 = tensor_add (tensor_mul exp_avg' beta1) grad' (1 - beta1);
             exp_avg_sq1 = tensor_addcmul (tensor_mul exp_avg_sq' beta2) grad' grad' (1 - beta2)
         in if amsgrad' then
              (case max' of
                 None \<Rightarrow> (Some IndexError, (param1, exp_avg1, exp_avg_sq1, None))
               | Some m \<Rightarrow>
                   (let m1 = tensor_maximum m exp_avg_sq1
                    in adamw_finish lr' eps' bias_correction1 bias_correction2 m1
                         (param1, exp_avg1, exp_avg_sq1, Some m1)))
            else adamw_finish lr' eps' bias_correction1 bias_correction2 exp_avg_sq1
                   (param1, exp_avg1, exp_avg_sq1, max')))"

type_synonym adam_lists = "tensor list \<times> tensor list \<times> tensor list \<times> tensor list"

fun adamw_loop ::
  "bool \<Rightarrow> real \<Rightarrow> real \<Rightarrow> real \<Rightarrow> real \<Rightarrow> real \<Rightarrow> real \<Rightarrow> tensor list \<Rightarrow> nat list \<Rightarrow>
   nat list \<Rightarrow> adam_lists \<Rightarrow> error option \<times> adam_lists" where
  "adamw_loop amsgrad' beta1 beta2 lr' initial_lr' weight_decay' eps' grads state_steps []
     acc = (None, acc)"
| "adamw_loop amsgrad' beta1 beta2 lr' initial_lr' weight_decay' eps' grads state_steps
     (i # rest) (ps, exp_avgs, exp_avg_sqs, max_exp_avg_sqs) =
     (if length grads \<le> i \<or> length exp_avgs \<le> i \<or> length exp_avg_sqs \<le> i
         \<or> length state_steps \<le> i
      then (Some IndexError, (ps, exp_avgs, exp_avg_sqs, max_exp_avg_sqs))
      else
        (case adamw_entry amsgrad' beta1 beta2 lr' initial_lr' weight_decay' eps'
                (grads ! i) (state_steps ! i)
                (ps ! i, exp_avgs ! i, exp_avg_sqs ! i,
                 if amsgrad' \<and> i < length max_exp_avg_sqs
                 then Some (max_exp_avg_sqs ! i) else None) of
           (err, (p1, exp_avg1, exp_avg_sq1, max1)) \<Rightarrow>
             (let acc1 =
                    (ps[i := p1], exp_avgs[i := exp_avg1], exp_avg_sqs[i := exp_avg_sq1],
                     (case max1 of
                        None \<Rightarrow> max_exp_avg_sqs
                      | Some m \<Rightarrow> max_exp_avg_sqs[i := m]))
              in (case err of
                    Some e \<Rightarrow> (Some e, acc1)
                  | None \<Rightarrow>
                      adamw_loop amsgrad' beta1 beta2 lr' initial_lr' weight_decay' eps'
                        grads state_steps rest acc1))))"

definition adamw ::
  "tensor list \<Rightarrow> tensor list \<Rightarrow> tensor list \<Rightarrow> tensor list \<Rightarrow> tensor list \<Rightarrow> nat list \<Rightarrow>
   bool \<Rightarrow> real \<Rightarrow> real \<Rightarrow> real \<Rightarrow> real \<Rightarrow> real \<Rightarrow> real \<Rightarrow> error option \<times> adam_lists" where
  "adamw params' grads exp_avgs exp_avg_sqs max_exp_avg_sqs state_steps
         amsgrad' beta1 beta2 lr' initial_lr' weight_decay' eps' =
     adamw_loop amsgrad' beta1 beta2 lr' initial_lr' weight_decay' eps' grads state_steps
       [0..<length params'] (params', exp_avgs, exp_avg_sqs, max_exp_avg_sqs)"

subsection \<open>\<^verbatim>\<open>DecoupledAdamW.step\<close>\<close>

text \<open>
  The state \<open>dict\<close> of one parameter: \<^verbatim>\<open>'step'\<close>, \<^verbatim>\<open>'exp_avg'\<close>, \<^verbatim>\<open>'exp_avg_sq'\<close> and, when it
  was created under \<^verbatim>\<open>amsgrad\<close>, \<^verbatim>\<open>'max_exp_avg_sq'\<close>. The step creates and fills an entry
  at once, so a parameter has a state exactly when its state has the key \<^verbatim>\<open>'step'\<close>.
\<close>

record adam_state =
  step :: nat
  exp_avg :: tensor
  exp_avg_sq :: tensor
  max_exp_avg_sq :: "tensor option"

type_synonym adam_optimizer = "(adam_group, adam_state) optimizer"

text \<open>The state initialization under \<^verbatim>\<open>if 'step' not in state\<close>.\<close>

definition adam_state_of :: "bool \<Rightarrow> (nat \<rightharpoonup> adam_state) \<Rightarrow> tensor \<Rightarrow> nat \<Rightarrow> adam_state" where
  "adam_state_of amsgrad' st v p =
     (case st p of
        None \<Rightarrow>
          \<lparr>step = 0, exp_avg = zeros_like v, exp_avg_sq = zeros_like v,
           max_exp_avg_sq = (if amsgrad' then Some (zeros_like v) else None)\<rparr>
      | Some s \<Rightarrow> s)"

text \<open>
  The lists \<open>params_with_grad\<close>, \<open>grads\<close>, \<open>exp_avgs\<close>, \<open>exp_avg_sqs\<close>,
  \<open>max_exp_avg_sqs\<close> and \<open>state_steps\<close> that the loop \<^verbatim>\<open>for p in group['params']\<close> builds.
\<close>

type_synonym adam_collected =
  "nat list \<times> tensor list \<times> tensor list \<times> tensor list \<times> tensor list \<times> nat list"

text \<open>
  The loop raises \<open>RuntimeError\<close> at a sparse gradient, and \<open>KeyError\<close> at
  \<^verbatim>\<open>state['max_exp_avg_sq']\<close> when \<^verbatim>\<open>amsgrad\<close> is set and the state was created without it.
  In both cases the state store is returned as the earlier iterations have left it.
\<close>

fun adam_collect ::
  "bool \<Rightarrow> (nat \<Rightarrow> param) \<Rightarrow> nat list \<Rightarrow> (nat \<rightharpoonup> adam_state) \<Rightarrow>
   (error + adam_collected) \<times> (nat \<rightharpoonup> adam_state)" where
  "adam_collect amsgrad' ts [] st = (Inr ([], [], [], [], [], []), st)"
| "adam_collect amsgrad' ts (p # ps) st =
     (case grad (ts p) of
        None \<Rightarrow> adam_collect amsgrad' ts ps st
      | Some g \<Rightarrow>
          if \<not> requires_grad (ts p) then adam_collect amsgrad' ts ps st
          else if is_sparse g then (Inl RuntimeError, st)
          else
            (let s = adam_state_of amsgrad' st (data (ts p)) p
             in if amsgrad' \<and> max_exp_avg_sq s = None then (Inl KeyError, st(p \<mapsto> s))
                else
                  (let s1 = s\<lparr>step := step s + 1\<rparr>
                   in (case adam_collect amsgrad' ts ps (st(p \<mapsto> s1)) of
                         (Inl e, st1) \<Rightarrow> (Inl e, st1)
                       | (Inr (params_with_grad, grads, exp_avgs, exp_avg_sqs,
                               max_exp_avg_sqs, state_steps), st1) \<Rightarrow>
                           (Inr (p # params_with_grad, to_dense g # grads,
                                 exp_avg s # exp_avgs, exp_avg_sq s # exp_avg_sqs,
                                 (case max_exp_avg_sq s of
                                    Some m \<Rightarrow> if amsgrad' then m # max_exp_avg_sqs
                                              else max_exp_avg_sqs
                                  | None \<Rightarrow> max_exp_avg_sqs),
                                 step s1 # state_steps), st1)))))"

text \<open>
  The moment estimates are tensors of the state that \<open>adamw\<close> updates in place: entry \<open>i\<close>
  of the lists goes to the state of parameter \<open>i\<close> of \<open>params_with_grad\<close>.
\<close>

fun store_moments ::
  "bool \<Rightarrow> nat list \<Rightarrow> nat \<Rightarrow> adam_lists \<Rightarrow> (nat \<rightharpoonup> adam_state) \<Rightarrow> (nat \<rightharpoonup> adam_state)" where
  "store_moments amsgrad' [] i acc st = st"
| "store_moments amsgrad' (p # rest) i (ps, exp_avgs, exp_avg_sqs, max_exp_avg_sqs) st =
     store_moments amsgrad' rest (i + 1) (ps, exp_avgs, exp_avg_sqs, max_exp_avg_sqs)
       (case st p of
          None \<Rightarrow> st
        | Some s \<Rightarrow>
            st(p \<mapsto> s\<lparr>exp_avg := exp_avgs ! i, exp_avg_sq := exp_avg_sqs ! i,
                       max_exp_avg_sq := (if amsgrad' \<and> i < length max_exp_avg_sqs
                                          then Some (max_exp_avg_sqs ! i)
                                          else max_exp_avg_sq s)\<rparr>))"

text \<open>
  The body of \<^verbatim>\<open>for group in self.param_groups\<close>, for the group at index \<open>n\<close>. It sets
  the group's \<^verbatim>\<open>'initial_lr'\<close> when the key is missing.
\<close>

definition adam_group_step :: "nat \<Rightarrow> adam_optimizer \<Rightarrow> error option \<times> adam_optimizer" where
  "adam_group_step n opt =
     (let g = param_groups opt ! n;
          (beta1, beta2) = betas g;
          initial_lr' = (case initial_lr g of None \<Rightarrow> lr g | Some x \<Rightarrow> x);
          opt1 = opt\<lparr>param_groups := (param_groups opt)[n := g\<lparr>initial_lr := Some initial_lr'\<rparr>]\<rparr>
      in (case adam_collect (amsgrad g) (tensors opt1) (params g) (state opt1) of
            (Inl e, st1) \<Rightarrow> (Some e, opt1\<lparr>state := st1\<rparr>)
          | (Inr (params_with_grad, grads, exp_avgs, exp_avg_sqs, max_exp_avg_sqs,
                  state_steps), st1) \<Rightarrow>
              (case adamw (map (\<lambda>p. data (tensors opt1 p)) params_with_grad) grads exp_avgs
                      exp_avg_sqs max_exp_avg_sqs state_steps (amsgrad g) beta1 beta2 (lr g)
                      initial_lr' (weight_decay g) (eps g) of
                 (err, (ps1, exp_avgs1, exp_avg_sqs1, max_exp_avg_sqs1)) \<Rightarrow>
                   (err,
                    opt1\<lparr>state := store_moments (amsgrad g) params_with_grad 0
                                      (ps1, exp_avgs1, exp_avg_sqs1, max_exp_avg_sqs1) st1,
                         tensors := store_data (zip params_with_grad ps1) (tensors opt1)\<rparr>))))"

fun adam_groups_step :: "nat list \<Rightarrow> adam_optimizer \<Rightarrow> error option \<times> adam_optimizer" where
  "adam_groups_step [] opt = (None, opt)"
| "adam_groups_step (n # rest) opt =
     (case adam_group_step n opt of
        (Some e, opt1) \<Rightarrow> (Some e, opt1)
      | (None, opt1) \<Rightarrow> adam_groups_step rest opt1)"

definition DecoupledAdamW_step ::
  "(adam_optimizer \<Rightarrow> real \<times> adam_optimizer) option \<Rightarrow> adam_optimizer \<Rightarrow>
   (error + real option) \<times> adam_optimizer" where
  "DecoupledAdamW_step closure opt =
     (let (loss, opt1) = run_closure closure opt
      in (case adam_groups_step [0..<length (param_groups opt1)] opt1 of
            (Some e, opt2) \<Rightarrow> (Inl e, opt2)
          | (None, opt2) \<Rightarrow> (Inr loss, opt2)))"

subsection \<open>\<^verbatim>\<open>DecoupledAdamW.metric_functions\<close>\<close>

text \<open>
  The catalogue, in the order of the \<open>dict\<close> literal. Each entry is a function of the
  parameter, its optimizer state and the step tensor. An entry that reads \<^verbatim>\<open>param.grad\<close>
  raises when the parameter has no gradient.
\<close>

type_synonym metric_function = "param \<Rightarrow> adam_state \<Rightarrow> tensor \<Rightarrow> error + real"

definition l2_norm_moment :: metric_function where
  "l2_norm_moment param' optim_state step_tensor = Inr (vector_norm (exp_avg optim_state))"

definition l2_norm_param :: metric_function where
  "l2_norm_param param' optim_state step_tensor = Inr (vector_norm (data param'))"

definition l2_norm_second_moment_sqrt :: metric_function where
  "l2_norm_second_moment_sqrt param' optim_state step_tensor =
     Inr (sqrt (vector_norm (exp_avg_sq optim_state)))"

definition l2_norm_update :: metric_function where
  "l2_norm_update param' optim_state step_tensor = Inr (vector_norm step_tensor)"

definition l2_norm_grad :: metric_function where
  "l2_norm_grad param' optim_state step_tensor =
     (case grad param' of
        None \<Rightarrow> Inl TypeError
      | Some g \<Rightarrow> Inr (vector_norm (to_dense g)))"

definition cosine_update_grad :: metric_function where
  "cosine_update_grad param' optim_state step_tensor =
     (case grad param' of
        None \<Rightarrow> Inl AttributeError
      | Some g \<Rightarrow> Inr (cosine_similarity (to_dense g) step_tensor))"

definition cosine_moment_grad :: metric_function where
  "cosine_moment_grad param' optim_state step_tensor =
     (case grad param' of
        None \<Rightarrow> Inl AttributeError
      | Some g \<Rightarrow> Inr (cosine_similarity (to_dense g) (exp_avg optim_state)))"

definition metric_functions :: "(string \<times> metric_function) list" where
  "metric_functions =
     [(''l2_norm/moment'', l2_norm_moment),
      (''l2_norm/param'', l2_norm_param),
      (''l2_norm/second_moment_sqrt'', l2_norm_second_moment_sqrt),
      (''l2_norm/update'', l2_norm_update),
      (''l2_norm/grad'', l2_norm_grad),
      (''cosine/update_grad'', cosine_update_grad),
      (''cosine/moment_grad'', cosine_moment_grad)]"

subsection \<open>\<^verbatim>\<open>DecoupledAdamW.report_per_parameter_metrics\<close>\<close>

text \<open>
  The step tensor that the method derives from the hyperparameters of
  \<^verbatim>\<open>self.param_groups[0]\<close>, the state of the parameter and the parameter's current value.
\<close>

definition step_tensor_of :: "adam_group \<Rightarrow> real \<Rightarrow> adam_state \<Rightarrow> tensor \<Rightarrow> error + tensor" where
  "step_tensor_of g initial_lr' param_optim_state param' =
     (let (beta1, beta2) = betas g;
          step' = step param_optim_state;
          bias_correction1 = 1 - beta1 ^ step';
          bias_correction2 = 1 - beta2 ^ step'
      in (case math_sqrt bias_correction2 of
            Inl e \<Rightarrow> Inl e
          | Inr r \<Rightarrow>
              (let denom = tensor_add_scalar
                             (tensor_div_scalar (tensor_sqrt (exp_avg_sq param_optim_state)) r)
                             (eps g)
               in if bias_correction1 = 0 then Inl ZeroDivisionError
                  else
                    (let step_size = lr g / bias_correction1;
                         step_tensor =
                           tensor_mul (tensor_div (exp_avg param_optim_state) denom) step_size;
                         decay_factor' = decay_factor (lr g) initial_lr'
                     in Inr (tensor_add step_tensor param'
                               (- weight_decay g * decay_factor'))))))"

text \<open>\<^verbatim>\<open>for metric in self.metric_functions: optimizer_metrics[f'{metric}/{name}'] = ...\<close>\<close>

fun report_loop ::
  "(string \<times> metric_function) list \<Rightarrow> param \<Rightarrow> adam_state \<Rightarrow> tensor \<Rightarrow> string \<Rightarrow>
   metrics \<Rightarrow> error + metrics" where
  "report_loop [] param' optim_state step_tensor name optimizer_metrics =
     Inr optimizer_metrics"
| "report_loop ((metric, f) # rest) param' optim_state step_tensor name optimizer_metrics =
     (case f param' optim_state step_tensor of
        Inl e \<Rightarrow> Inl e
      | Inr v \<Rightarrow>
          report_loop rest param' optim_state step_tensor name
            (setitem optimizer_metrics (metric @ ''/'' @ name) v))"

definition report_per_parameter_metrics ::
  "adam_optimizer \<Rightarrow> nat \<Rightarrow> string \<Rightarrow> metrics \<Rightarrow> error + metrics" where
  "report_per_parameter_metrics opt p name optimizer_metrics =
     (case param_groups opt of
        [] \<Rightarrow> Inl IndexError
      | g # _ \<Rightarrow>
          (case initial_lr g of
             None \<Rightarrow> Inl KeyError
           | Some initial_lr' \<Rightarrow>
               (case state opt p of
                  None \<Rightarrow> Inr optimizer_metrics
                | Some param_optim_state \<Rightarrow>
                    (case step_tensor_of g initial_lr' param_optim_state
                            (data (tensors opt p)) of
                       Inl e \<Rightarrow> Inl e
                     | Inr step_tensor \<Rightarrow>
                         report_loop metric_functions (tensors opt p) param_optim_state
                           step_tensor name optimizer_metrics))))"

text \<open>
  What the metric functions report, in the order of the catalogue, on a worker that holds
  the shards \<open>u\<close> of the step tensor and \<open>g\<close> of the gradient of a layer \<open>w\<close> (the three
  entries that the cosine between update and gradient involves).
\<close>

definition local_metrics :: "tensor \<Rightarrow> tensor \<Rightarrow> metrics" where
  "local_metrics u g =
     [(''l2_norm/update/w'', vector_norm u), (''l2_norm/grad/w'', vector_norm g),
      (''cosine/update_grad/w'', cosine_similarity g u)]"

section \<open>Training runs and example optimizers\<close>

text \<open>
  A run of the momentum-SGD variant: before each call of \<^verbatim>\<open>step()\<close> the host changes the
  parameters (it computes new gradients); \<open>backward\<close> stands for what it does.
\<close>

fun sgd_run :: "((nat \<Rightarrow> param) \<Rightarrow> (nat \<Rightarrow> param)) list \<Rightarrow> sgd_optimizer \<Rightarrow> sgd_optimizer" where
  "sgd_run [] opt = opt"
| "sgd_run (backward # rest) opt =
     sgd_run rest (snd (DecoupledSGDW_step None (opt\<lparr>tensors := backward (tensors opt)\<rparr>)))"

text \<open>
  A \<^verbatim>\<open>DecoupledSGDW\<close> with \<^verbatim>\<open>momentum = 0\<close> on two parameters, of which the first has a
  gradient, before its first step.
\<close>

definition sgd_example :: sgd_optimizer where
  "sgd_example =
     \<lparr>param_groups =
        [\<lparr>params = [0, 1], lr = 1, weight_decay = 0, initial_lr = Some 1,
          momentum = 0, dampening = 0, nesterov = False\<rparr>],
      state = Map.empty,
      tensors = (\<lambda>_. \<lparr>data = [5], grad = None, requires_grad = True\<rparr>)
                  (0 := \<lparr>data = [2], grad = Some (Dense [1]), requires_grad = True\<rparr>)\<rparr>"

text \<open>
  A \<^verbatim>\<open>DecoupledAdamW\<close> with two groups before its first step: parameter \<open>0\<close> in the first
  group, parameters \<open>1\<close> and \<open>2\<close> in the second; all have a gradient, that of parameter \<open>2\<close>
  is sparse.
\<close>

definition adam_sparse_example :: adam_optimizer where
  "adam_sparse_example =
     \<lparr>param_groups =
        [\<lparr>params = [0], lr = 1, weight_decay = 1 / 2, initial_lr = Some 1,
          betas = (1 / 2, 3 / 4), eps = 1, amsgrad = False\<rparr>,
         \<lparr>params = [1, 2], lr = 1, weight_decay = 1 / 2, initial_lr = Some 1,
          betas = (1 / 2, 3 / 4), eps = 1, amsgrad = False\<rparr>],
      state = Map.empty,
      tensors = (\<lambda>_. \<lparr>data = [4], grad = Some (Sparse [1]), requires_grad = True\<rparr>)
                  (0 := \<lparr>data = [2], grad = Some (Dense [1]), requires_grad = True\<rparr>,
                   1 := \<lparr>data = [3], grad = Some (Dense [1]), requires_grad = True\<rparr>)\<rparr>"


text \<open>
  A closure that computes a gradient for parameter \<open>1\<close> and returns the loss \<open>0\<close>.
\<close>

definition gradient_closure :: "sgd_optimizer \<Rightarrow> real \<times> sgd_optimizer" where
  "gradient_closure opt =
     (0, opt\<lparr>tensors := (tensors opt)(1 := (tensors opt 1)\<lparr>grad := Some (Dense [1])\<rparr>)\<rparr>)"

text \<open>
  A \<^verbatim>\<open>DecoupledSGDW\<close> with two groups before its first step: parameter \<open>0\<close> in a group with
  \<^verbatim>\<open>momentum = 0\<close>, parameter \<open>1\<close> in a group with \<^verbatim>\<open>momentum = 1 / 2\<close>; both have a
  gradient.
\<close>

definition sgd_mixed_example :: sgd_optimizer where
  "sgd_mixed_example =
     \<lparr>param_groups =
        [\<lparr>params = [0], lr = 1, weight_decay = 0, initial_lr = Some 1,
          momentum = 0, dampening = 0, nesterov = False\<rparr>,
         \<lparr>params = [1], lr = 1, weight_decay = 0, initial_lr = Some 1,
          momentum = 1 / 2, dampening = 0, nesterov = False\<rparr>],
      state = Map.empty,
      tensors = (\<lambda>_. \<lparr>data = [5], grad = Some (Dense [1]), requires_grad = True\<rparr>)
                  (0 := \<lparr>data = [2], grad = Some (Dense [1]), requires_grad = True\<rparr>)\<rparr>"
section \<open>Properties of the reduction protocol\<close>

subsection \<open>Dictionaries\<close>

lemma map_of_setitem: "map_of (setitem d k v) k' = (if k' = k then Some v else map_of d k')"
  by (simp add: setitem_def update_conv')

lemma getitem_Inr: "getitem d k = Inr v \<longleftrightarrow> map_of d k = Some v"
  by (simp add: getitem_def split: option.splits)

lemma map_of_in_keys: "map_of d k = Some v \<Longrightarrow> k \<in> set (keys d)"
  by (auto simp: keys_def dest: map_of_SomeD intro: rev_image_eqI)

lemma keys_setitem: "k \<in> set (keys d) \<Longrightarrow> keys (setitem d k v) = keys d"
  by (simp add: setitem_def keys_def update_keys)

lemma sqrt_25: "sqrt 25 = 5"
  using real_sqrt_abs [of 5] by simp

subsection \<open>The pre-reduce pass changes the entry it visits, and no other\<close>

lemma pre_reduce_entry_other:
  "pre_reduce_entry metric d = Inr d' \<Longrightarrow> k \<noteq> metric \<Longrightarrow> map_of d' k = map_of d k"
  by (auto simp: pre_reduce_entry_def map_of_setitem split: if_splits sum.splits list.splits)

lemma pre_reduce_entry_l2:
  "pre_reduce_entry metric d = Inr d' \<Longrightarrow> startswith ''l2_norm'' metric \<Longrightarrow>
   map_of d metric = Some v \<Longrightarrow> map_of d' metric = Some (v ^ 2)"
  by (auto simp: pre_reduce_entry_def map_of_setitem getitem_Inr split: if_splits sum.splits)

lemma pre_reduce_entry_keys: "pre_reduce_entry metric d = Inr d' \<Longrightarrow> keys d' = keys d"
  by (auto simp: pre_reduce_entry_def getitem_Inr keys_setitem
      split: if_splits sum.splits list.splits dest!: map_of_in_keys)

lemma pre_reduce_loop_other:
  "pre_reduce_loop ks d = Inr d' \<Longrightarrow> k \<notin> set ks \<Longrightarrow> map_of d' k = map_of d k"
proof (induction ks arbitrary: d)
  case Nil
  then show ?case by simp
next
  case (Cons m ks)
  then show ?case
    by (auto split: sum.splits dest: pre_reduce_entry_other)
qed

lemma pre_reduce_loop_keys: "pre_reduce_loop ks d = Inr d' \<Longrightarrow> keys d' = keys d"
  by (induction ks arbitrary: d) (auto split: sum.splits dest: pre_reduce_entry_keys)

lemma pre_reduce_loop_l2:
  "pre_reduce_loop ks d = Inr d' \<Longrightarrow> distinct ks \<Longrightarrow> k \<in> set ks \<Longrightarrow>
   startswith ''l2_norm'' k \<Longrightarrow> map_of d k = Some v \<Longrightarrow> map_of d' k = Some (v ^ 2)"
proof (induction ks arbitrary: d)
  case Nil
  then show ?case by simp
next
  case (Cons m ks)
  from Cons.prems(1) obtain d1 where e: "pre_reduce_entry m d = Inr d1"
    and l: "pre_reduce_loop ks d1 = Inr d'"
    by (auto split: sum.splits)
  show ?case
  proof (cases "k = m")
    case True
    with e Cons.prems have "map_of d1 k = Some (v ^ 2)"
      by (auto dest: pre_reduce_entry_l2)
    moreover from Cons.prems True have "k \<notin> set ks" by simp
    ultimately show ?thesis using l by (simp add: pre_reduce_loop_other)
  next
    case False
    with e have "map_of d1 k = map_of d k" by (rule pre_reduce_entry_other)
    with Cons.IH [OF l] Cons.prems False show ?thesis by simp
  qed
qed

lemma pre_reduce_metrics_l2:
  assumes "distinct (keys m)" "pre_reduce_metrics m = Inr m'"
    "startswith ''l2_norm'' k" "map_of m k = Some v"
  shows "map_of m' k = Some (v ^ 2)"
  using assms pre_reduce_loop_l2 [of "sort_key sort_rank (keys m)" m m' k v]
  by (simp add: pre_reduce_metrics_def map_of_in_keys)

lemma pre_reduce_metrics_keys: "pre_reduce_metrics m = Inr m' \<Longrightarrow> keys m' = keys m"
  by (auto simp: pre_reduce_metrics_def dest: pre_reduce_loop_keys)

subsection \<open>The post-reduce pass changes the entry it visits, and no other\<close>

lemma dist_reduce_entry_other:
  "dist_reduce_entry ws peer metric d = Inr d' \<Longrightarrow> k \<noteq> metric \<Longrightarrow> map_of d' k = map_of d k"
  by (auto simp: dist_reduce_entry_def map_of_setitem split: if_splits sum.splits list.splits)

lemma dist_reduce_entry_l2:
  "dist_reduce_entry ws peer metric d = Inr d' \<Longrightarrow> startswith ''l2_norm'' metric \<Longrightarrow>
   map_of d metric = Some v \<Longrightarrow>
   map_of d' metric = Some (sqrt (if 1 < ws then v + peer metric else v))"
  by (auto simp: dist_reduce_entry_def reduced_value_def all_reduce_def math_sqrt_def
      map_of_setitem getitem_Inr split: if_splits sum.splits)

lemma dist_reduce_loop_other:
  "dist_reduce_loop ws peer ks d = Inr d' \<Longrightarrow> k \<notin> set ks \<Longrightarrow> map_of d' k = map_of d k"
proof (induction ks arbitrary: d)
  case Nil
  then show ?case by simp
next
  case (Cons m ks)
  then show ?case
    by (auto split: sum.splits dest: dist_reduce_entry_other)
qed

lemma dist_reduce_loop_l2:
  "dist_reduce_loop ws peer ks d = Inr d' \<Longrightarrow> distinct ks \<Longrightarrow> k \<in> set ks \<Longrightarrow>
   startswith ''l2_norm'' k \<Longrightarrow> map_of d k = Some v \<Longrightarrow>
   map_of d' k = Some (sqrt (if 1 < ws then v + peer k else v))"
proof (induction ks arbitrary: d)
  case Nil
  then show ?case by simp
next
  case (Cons m ks)
  from Cons.prems(1) obtain d1 where e: "dist_reduce_entry ws peer m d = Inr d1"
    and l: "dist_reduce_loop ws peer ks d1 = Inr d'"
    by (auto split: sum.splits)
  show ?case
  proof (cases "k = m")
    case True
    with e Cons.prems have "map_of d1 k = Some (sqrt (if 1 < ws then v + peer k else v))"
      by (auto dest: dist_reduce_entry_l2)
    moreover from Cons.prems True have "k \<notin> set ks" by simp
    ultimately show ?thesis using l by (simp add: dist_reduce_loop_other)
  next
    case False
    with e have "map_of d1 k = map_of d k" by (rule dist_reduce_entry_other)
    with Cons.IH [OF l] Cons.prems False show ?thesis by simp
  qed
qed

lemma dist_reduce_metrics_l2:
  assumes "distinct (keys m)" "dist_reduce_metrics ws peer m = Inr m'"
    "startswith ''l2_norm'' k" "map_of m k = Some v"
  shows "map_of m' k = Some (sqrt (if 1 < ws then v + peer k else v))"
  using assms dist_reduce_loop_l2 [of ws peer "keys m" m m' k v]
  by (simp add: dist_reduce_metrics_def map_of_in_keys)

subsection \<open>Mappings without cosine entries: both passes return\<close>

lemma in_keys_getitem: "k \<in> set (keys d) \<Longrightarrow> \<exists>v. getitem d k = Inr v"
proof -
  assume "k \<in> set (keys d)"
  then have "map_of d k \<noteq> None"
    by (simp add: keys_def map_of_eq_None_iff)
  then show ?thesis by (auto simp: getitem_def)
qed

lemma pre_reduce_entry_returns:
  assumes "k \<in> set (keys d)" and "\<not> startswith ''cosine'' k"
  shows "\<exists>d'. pre_reduce_entry k d = Inr d'"
proof -
  from in_keys_getitem [OF assms(1)] obtain v where "getitem d k = Inr v" ..
  with assms(2) show ?thesis by (simp add: pre_reduce_entry_def)
qed

lemma pre_reduce_loop_returns:
  "set ks \<subseteq> set (keys d) \<Longrightarrow> \<forall>k \<in> set ks. \<not> startswith ''cosine'' k \<Longrightarrow>
   \<exists>d'. pre_reduce_loop ks d = Inr d'"
proof (induction ks arbitrary: d)
  case Nil
  then show ?case by simp
next
  case (Cons k ks)
  from Cons.prems obtain d1 where e: "pre_reduce_entry k d = Inr d1"
    using pre_reduce_entry_returns [of k d] by auto
  then have "keys d1 = keys d" by (rule pre_reduce_entry_keys)
  with Cons.prems have "set ks \<subseteq> set (keys d1)" by simp
  from Cons.IH [OF this] Cons.prems(2) e show ?case by simp
qed

lemma pre_reduce_metrics_returns:
  "\<forall>k \<in> set (keys m). \<not> startswith ''cosine'' k \<Longrightarrow> \<exists>m'. pre_reduce_metrics m = Inr m'"
  unfolding pre_reduce_metrics_def by (rule pre_reduce_loop_returns) simp_all

lemma dist_reduce_entry_keys: "dist_reduce_entry ws peer k d = Inr d' \<Longrightarrow> keys d' = keys d"
  by (auto simp: dist_reduce_entry_def reduced_value_def getitem_Inr keys_setitem
      split: if_splits sum.splits list.splits dest!: map_of_in_keys)

lemma dist_reduce_entry_returns:
  assumes "map_of d k = Some v" and "\<not> startswith ''cosine'' k"
    and "startswith ''l2_norm'' k \<longrightarrow> 0 \<le> (if 1 < ws then v + peer k else v)"
    and "0 < ws"
  shows "\<exists>d'. dist_reduce_entry ws peer k d = Inr d'"
  using assms
  by (auto simp: dist_reduce_entry_def reduced_value_def all_reduce_def getitem_def
      math_sqrt_def)

lemma dist_reduce_loop_returns:
  assumes "distinct ks"
    and "\<forall>k \<in> set ks. \<not> startswith ''cosine'' k \<and> (\<exists>v. map_of d k = Some v
           \<and> (startswith ''l2_norm'' k \<longrightarrow> 0 \<le> (if 1 < ws then v + peer k else v)))"
    and "0 < ws"
  shows "\<exists>d'. dist_reduce_loop ws peer ks d = Inr d'"
  using assms
proof (induction ks arbitrary: d)
  case Nil
  then show ?case by simp
next
  case (Cons k ks)
  from Cons.prems(2) obtain v where v: "map_of d k = Some v" "\<not> startswith ''cosine'' k"
    "startswith ''l2_norm'' k \<longrightarrow> 0 \<le> (if 1 < ws then v + peer k else v)"
    by auto
  from dist_reduce_entry_returns [of d k v ws peer] v Cons.prems(3) obtain d1
    where e: "dist_reduce_entry ws peer k d = Inr d1" by blast
  have "\<forall>j \<in> set ks. \<not> startswith ''cosine'' j \<and> (\<exists>v. map_of d1 j = Some v
           \<and> (startswith ''l2_norm'' j \<longrightarrow> 0 \<le> (if 1 < ws then v + peer j else v)))"
  proof
    fix j assume j: "j \<in> set ks"
    with Cons.prems(1) have "j \<noteq> k" by auto
    with e have "map_of d1 j = map_of d j" by (rule dist_reduce_entry_other)
    with Cons.prems(2) j
    show "\<not> startswith ''cosine'' j \<and> (\<exists>v. map_of d1 j = Some v
           \<and> (startswith ''l2_norm'' j \<longrightarrow> 0 \<le> (if 1 < ws then v + peer j else v)))"
      by simp
  qed
  moreover from Cons.prems(1) have "distinct ks" by simp
  ultimately have "\<exists>d'. dist_reduce_loop ws peer ks d1 = Inr d'"
    using Cons.prems(3) by (intro Cons.IH)
  with e show ?case by simp
qed

lemma dist_reduce_metrics_returns:
  assumes "distinct (keys m)"
    and "\<forall>k \<in> set (keys m). \<not> startswith ''cosine'' k"
    and "\<forall>k v. map_of m k = Some v \<and> startswith ''l2_norm'' k \<longrightarrow>
           0 \<le> (if 1 < ws then v + peer k else v)"
    and "0 < ws"
  shows "\<exists>m'. dist_reduce_metrics ws peer m = Inr m'"
  unfolding dist_reduce_metrics_def
proof (rule dist_reduce_loop_returns [OF assms(1) _ assms(4)], intro ballI)
  fix k assume k: "k \<in> set (keys m)"
  then have "map_of m k \<noteq> None" by (simp add: keys_def map_of_eq_None_iff)
  then obtain v where "map_of m k = Some v" by auto
  with assms(2,3) k
  show "\<not> startswith ''cosine'' k \<and> (\<exists>v. map_of m k = Some v
           \<and> (startswith ''l2_norm'' k \<longrightarrow> 0 \<le> (if 1 < ws then v + peer k else v)))"
    by auto
qed

subsection \<open>Norms of concatenated shards\<close>

lemma sum_squares_nonneg: "0 \<le> sum_list (map (\<lambda>v::real. v ^ 2) x)"
  by (rule sum_list_nonneg) auto

lemma vector_norm_nonneg: "0 \<le> vector_norm x"
  by (simp add: vector_norm_def sum_squares_nonneg)

lemma vector_norm_squared: "(vector_norm x)\<^sup>2 = sum_list (map (\<lambda>v. v ^ 2) x)"
  by (simp add: vector_norm_def sum_squares_nonneg)

lemma vector_norm_append:
  "vector_norm (x @ y) = sqrt ((vector_norm x)\<^sup>2 + (vector_norm y)\<^sup>2)"
  by (simp add: vector_norm_squared) (simp add: vector_norm_def)

lemma pre_reduce_single:
  "pre_reduce_metrics [(''l2_norm/param/w'', v)] = Inr [(''l2_norm/param/w'', v\<^sup>2)]"
  by (simp add: pre_reduce_metrics_def keys_def pre_reduce_entry_def startswith_def
      getitem_def setitem_def)

text \<open>
  Claim C2. The pre-reduce pass replaces every \<open>l2_norm\<close> entry by its square and the
  post-reduce pass replaces the sum of the local entry and of what the other workers
  contribute by its square root, whenever the passes return. Hence, on two workers that
  hold the norms of two shards of a vector under one key, the protocol ends with the
  norm of the whole vector. (The passes return on every mapping without cosine entries
  whose summed squares are not negative, for at least one worker:
  \<open>pre_reduce_metrics_returns\<close>, \<open>dist_reduce_metrics_returns\<close>; a cosine entry raises
  when its key does not parse, when a norm that it refers to is missing, or when the
  product of the two norms it is divided by is zero.)
\<close>

theorem l2_norm_squared_summed_rooted:
  assumes "distinct (keys m)" and "startswith ''l2_norm'' k" and "map_of m k = Some v"
  shows "(\<forall>m'. pre_reduce_metrics m = Inr m' \<longrightarrow> map_of m' k = Some (v\<^sup>2))
       \<and> (\<forall>m'. dist_reduce_metrics world_size peer_sum m = Inr m' \<longrightarrow>
             map_of m' k = Some (sqrt (if 1 < world_size then v + peer_sum k else v)))
       \<and> (\<forall>other x y p r.
             v = vector_norm x \<and> map_of other k = Some (vector_norm y) \<and> distinct (keys other)
             \<and> pre_reduce_metrics other = Inr p
             \<and> reduce_protocol 2 (contribution (Inr p)) m = Inr r \<longrightarrow>
             map_of r k = Some (vector_norm (x @ y)))"
proof (intro conjI allI impI)
  fix m' assume "pre_reduce_metrics m = Inr m'"
  with assms show "map_of m' k = Some (v\<^sup>2)" by (simp add: pre_reduce_metrics_l2)
next
  fix m' assume "dist_reduce_metrics world_size peer_sum m = Inr m'"
  with assms show "map_of m' k = Some (sqrt (if 1 < world_size then v + peer_sum k else v))"
    by (simp add: dist_reduce_metrics_l2)
next
  fix other x y p r
  assume h: "v = vector_norm x \<and> map_of other k = Some (vector_norm y) \<and> distinct (keys other)
             \<and> pre_reduce_metrics other = Inr p
             \<and> reduce_protocol 2 (contribution (Inr p)) m = Inr r"
  then obtain q where q: "pre_reduce_metrics m = Inr q"
    and r: "dist_reduce_metrics 2 (contribution (Inr p)) q = Inr r"
    by (auto simp: reduce_protocol_def split: sum.splits)
  from q assms have "map_of q k = Some (v\<^sup>2)" by (simp add: pre_reduce_metrics_l2)
  moreover from q assms have "distinct (keys q)" by (simp add: pre_reduce_metrics_keys)
  moreover from h assms(2) have "map_of p k = Some ((vector_norm y)\<^sup>2)"
    using pre_reduce_metrics_l2 [of other p k "vector_norm y"] by simp
  ultimately have "map_of r k = Some (sqrt (v\<^sup>2 + (vector_norm y)\<^sup>2))"
    using r assms(2) dist_reduce_metrics_l2 [of q 2 "contribution (Inr p)" r k "v\<^sup>2"]
    by (simp add: contribution_def)
  with h show "map_of r k = Some (vector_norm (x @ y))"
    by (simp add: vector_norm_append)
qed

theorem l2_norm_squared_summed_rooted_witness:
  "pre_reduce_metrics [(''l2_norm/param/w'', 3)] = Inr [(''l2_norm/param/w'', 9)]
   \<and> pre_reduce_metrics [(''l2_norm/param/w'', 4)] = Inr [(''l2_norm/param/w'', 16)]
   \<and> reduce_protocol 2 (contribution (Inr [(''l2_norm/param/w'', 16)]))
        [(''l2_norm/param/w'', 3)] = Inr [(''l2_norm/param/w'', 5)]
   \<and> map_of [(''l2_norm/param/w'', 5::real)] ''l2_norm/param/w'' = Some (vector_norm ([3] @ [4]))"
proof -
  let ?k = "''l2_norm/param/w''"
  have p3: "pre_reduce_metrics [(?k, 3)] = Inr [(?k, 9)]"
    using pre_reduce_single [of 3] by simp
  have p4: "pre_reduce_metrics [(?k, 4)] = Inr [(?k, 16)]"
    using pre_reduce_single [of 4] by simp
  have run: "reduce_protocol 2 (contribution (Inr [(?k, 16)])) [(?k, 3)] = Inr [(?k, 5)]"
    by (simp add: reduce_protocol_def p3 dist_reduce_metrics_def keys_def dist_reduce_entry_def
        reduced_value_def all_reduce_def contribution_def math_sqrt_def startswith_def
        getitem_def setitem_def sqrt_25)
  have n3: "(3::real) = vector_norm [3]" and n4: "(4::real) = vector_norm [4]"
    by (simp_all add: vector_norm_def)
  have d: "distinct (keys [(?k, 3::real)])" and d': "distinct (keys [(?k, 4::real)])"
    and s: "startswith ''l2_norm'' ?k"
    and m3: "map_of [(?k, 3::real)] ?k = Some 3"
    and m4: "map_of [(?k, 4::real)] ?k = Some (vector_norm [4])"
    by (simp_all add: keys_def startswith_def vector_norm_def)
  from l2_norm_squared_summed_rooted [OF d s m3, of 2 "\<lambda>_. 0"]
  have "\<forall>other x y p r.
          3 = vector_norm x \<and> map_of other ?k = Some (vector_norm y) \<and> distinct (keys other)
          \<and> pre_reduce_metrics other = Inr p
          \<and> reduce_protocol 2 (contribution (Inr p)) [(?k, 3)] = Inr r \<longrightarrow>
          map_of r ?k = Some (vector_norm (x @ y))"
    by (elim conjE)
  from this [rule_format, of "[3]" "[(?k, 4)]" "[4]" "[(?k, 16)]" "[(?k, 5)]"] n3 m4 d' p4 run
  have "map_of [(?k, 5::real)] ?k = Some (vector_norm ([3] @ [4]))"
    by blast
  with p3 p4 run show ?thesis by simp
qed



subsection \<open>The cosine entries: evaluation on the keys of one layer\<close>

lemma evals:
  "sort_key sort_rank [''cosine/update_grad/w'', ''l2_norm/update/w'', ''l2_norm/grad/w'']
     = [''l2_norm/update/w'', ''l2_norm/grad/w'', ''cosine/update_grad/w'']"
  "sort_key sort_rank [''l2_norm/update/w'', ''l2_norm/grad/w'', ''cosine/update_grad/w'']
     = [''l2_norm/update/w'', ''l2_norm/grad/w'', ''cosine/update_grad/w'']"
  "split CHR ''/'' ''cosine/update_grad/w'' = [''cosine'', ''update_grad'', ''w'']"
  "split CHR ''_'' ''update_grad'' = [''update'', ''grad'']"
  by (simp_all add: sort_rank_def startswith_def)

lemma pre_reduce_cosine_first:
  "pre_reduce_metrics
     [(''cosine/update_grad/w'', c), (''l2_norm/update/w'', a), (''l2_norm/grad/w'', b)]
   = Inr [(''cosine/update_grad/w'', c * (sqrt (a\<^sup>2) * sqrt (b\<^sup>2))),
          (''l2_norm/update/w'', a\<^sup>2), (''l2_norm/grad/w'', b\<^sup>2)]"
  apply (simp only: pre_reduce_metrics_def keys_def list.map fst_conv evals)
  apply (simp add: pre_reduce_entry_def evals startswith_def getitem_def setitem_def
      math_sqrt_def l2_norm_key_def)
  done

lemma pre_reduce_norms_first:
  "pre_reduce_metrics
     [(''l2_norm/update/w'', a), (''l2_norm/grad/w'', b), (''cosine/update_grad/w'', c)]
   = Inr [(''l2_norm/update/w'', a\<^sup>2), (''l2_norm/grad/w'', b\<^sup>2),
          (''cosine/update_grad/w'', c * (sqrt (a\<^sup>2) * sqrt (b\<^sup>2)))]"
  apply (simp only: pre_reduce_metrics_def keys_def list.map fst_conv evals)
  apply (simp add: pre_reduce_entry_def evals startswith_def getitem_def setitem_def
      math_sqrt_def l2_norm_key_def)
  done

lemma dist_reduce_cosine_first:
  "0 \<le> a + peer_sum ''l2_norm/update/w'' \<Longrightarrow> 0 \<le> b + peer_sum ''l2_norm/grad/w'' \<Longrightarrow>
   a * b \<noteq> 0 \<Longrightarrow>
   dist_reduce_metrics 2 peer_sum
     [(''cosine/update_grad/w'', c), (''l2_norm/update/w'', a), (''l2_norm/grad/w'', b)]
   = Inr [(''cosine/update_grad/w'', (c + peer_sum ''cosine/update_grad/w'') / (a * b)),
          (''l2_norm/update/w'', sqrt (a + peer_sum ''l2_norm/update/w'')),
          (''l2_norm/grad/w'', sqrt (b + peer_sum ''l2_norm/grad/w''))]"
  by (simp add: keys_def evals dist_reduce_metrics_def dist_reduce_entry_def reduced_value_def
      all_reduce_def startswith_def getitem_def setitem_def math_sqrt_def l2_norm_key_def)

lemma dist_reduce_norms_first:
  "0 < a + peer_sum ''l2_norm/update/w'' \<Longrightarrow> 0 < b + peer_sum ''l2_norm/grad/w'' \<Longrightarrow>
   dist_reduce_metrics 2 peer_sum
     [(''l2_norm/update/w'', a), (''l2_norm/grad/w'', b), (''cosine/update_grad/w'', c)]
   = Inr [(''l2_norm/update/w'', sqrt (a + peer_sum ''l2_norm/update/w'')),
          (''l2_norm/grad/w'', sqrt (b + peer_sum ''l2_norm/grad/w'')),
          (''cosine/update_grad/w'', (c + peer_sum ''cosine/update_grad/w'') /
             (sqrt (a + peer_sum ''l2_norm/update/w'') * sqrt (b + peer_sum ''l2_norm/grad/w'')))]"
  by (simp add: keys_def evals dist_reduce_metrics_def dist_reduce_entry_def reduced_value_def
      all_reduce_def startswith_def getitem_def setitem_def math_sqrt_def l2_norm_key_def)

lemma vector_norm_zero_iff: "vector_norm x = 0 \<longleftrightarrow> (\<forall>v \<in> set x. v = 0)"
proof -
  have "sum_list (map (\<lambda>v::real. v ^ 2) x) = 0 \<longleftrightarrow> (\<forall>v \<in> set x. v = 0)"
    by (induction x) (auto simp: add_nonneg_eq_0_iff sum_squares_nonneg)
  then show ?thesis by (simp add: vector_norm_def)
qed

lemma dot_zero_left: "\<forall>v \<in> set x. v = 0 \<Longrightarrow> dot x y = 0"
  unfolding dot_def by (induction x arbitrary: y) (auto simp: zip_Cons1 split: list.splits) 

lemma dot_zero_right: "\<forall>v \<in> set y. v = 0 \<Longrightarrow> dot x y = 0"
  unfolding dot_def by (induction y arbitrary: x) (auto simp: zip_Cons split: list.splits) 

lemma cosine_times_norms:
  "cosine_similarity x y * (vector_norm x * vector_norm y) = dot x y"
  by (auto simp: cosine_similarity_def vector_norm_zero_iff dot_zero_left dot_zero_right)

lemma dot_append: "length a = length b \<Longrightarrow> dot (a @ a') (b @ b') = dot a b + dot a' b'"
  by (simp add: dot_def)

lemma pre_reduce_local_metrics:
  "pre_reduce_metrics (local_metrics u g)
   = Inr [(''l2_norm/update/w'', (vector_norm u)\<^sup>2), (''l2_norm/grad/w'', (vector_norm g)\<^sup>2),
          (''cosine/update_grad/w'', dot g u)]"
proof -
  have "cosine_similarity g u * (vector_norm u * vector_norm g) = dot g u"
    using cosine_times_norms [of g u] by (simp add: mult.commute)
  then show ?thesis
    by (simp add: local_metrics_def pre_reduce_norms_first vector_norm_nonneg)
qed

lemma cosine_protocol_norms_first:
  assumes "length g = length u" and "vector_norm (u @ u') \<noteq> 0" and "vector_norm (g @ g') \<noteq> 0"
  shows "reduce_protocol 2 (contribution (pre_reduce_metrics (local_metrics u' g')))
           (local_metrics u g)
         = Inr [(''l2_norm/update/w'', vector_norm (u @ u')),
                (''l2_norm/grad/w'', vector_norm (g @ g')),
                (''cosine/update_grad/w'', cosine_similarity (g @ g') (u @ u'))]"
proof -
  let ?peer = "contribution (pre_reduce_metrics (local_metrics u' g'))"
  have peer: "?peer ''l2_norm/update/w'' = (vector_norm u')\<^sup>2"
    "?peer ''l2_norm/grad/w'' = (vector_norm g')\<^sup>2"
    "?peer ''cosine/update_grad/w'' = dot g' u'"
    by (simp_all add: pre_reduce_local_metrics contribution_def)
  have pos: "0 < (vector_norm u)\<^sup>2 + (vector_norm u')\<^sup>2"
    "0 < (vector_norm g)\<^sup>2 + (vector_norm g')\<^sup>2"
    using assms(2,3) by (simp_all add: vector_norm_append less_le)
  have "dist_reduce_metrics 2 ?peer
          [(''l2_norm/update/w'', (vector_norm u)\<^sup>2), (''l2_norm/grad/w'', (vector_norm g)\<^sup>2),
           (''cosine/update_grad/w'', dot g u)]
        = Inr [(''l2_norm/update/w'', vector_norm (u @ u')),
               (''l2_norm/grad/w'', vector_norm (g @ g')),
               (''cosine/update_grad/w'',
                  dot (g @ g') (u @ u') / (vector_norm (u @ u') * vector_norm (g @ g')))]"
    using assms(1) pos
    by (subst dist_reduce_norms_first) (simp_all add: peer vector_norm_append dot_append)
  then show ?thesis
    by (simp add: reduce_protocol_def pre_reduce_local_metrics cosine_similarity_def
        mult.commute)
qed

lemma single_worker_norms_first:
  assumes "0 < a" "0 < b"
  shows "reduce_protocol 1 peer_sum
           [(''l2_norm/update/w'', a), (''l2_norm/grad/w'', b), (''cosine/update_grad/w'', c)]
         = Inr [(''l2_norm/update/w'', a), (''l2_norm/grad/w'', b), (''cosine/update_grad/w'', c)]"
  using assms
  by (simp add: reduce_protocol_def pre_reduce_norms_first keys_def evals
      dist_reduce_metrics_def dist_reduce_entry_def reduced_value_def
      startswith_def getitem_def setitem_def math_sqrt_def l2_norm_key_def)

text \<open>
  Claim C1. The pre-reduce pass sorts the keys, the post-reduce pass visits them in the
  order of the mapping. On a mapping that holds the cosine key before its two norm keys,
  the post-reduce pass divides the summed dot product by the product of the local squared
  norms, which it has not yet summed and rooted. With the update \<open>[1, 0]\<close> and the gradient
  \<open>[1, 1]\<close> split over two workers, worker one ends with the cosine \<open>1\<close>; the cosine of
  the whole vectors is \<open>1 / sqrt 2\<close>. (With the norm keys first the protocol returns the
  cosine of the whole vectors: \<open>cosine_protocol_norms_first\<close>.)
\<close>

theorem two_workers_cosine_before_norms:
  "vector_norm [1] = 1 \<and> vector_norm [0] = 0 \<and> cosine_similarity [1] [1] = 1
   \<and> cosine_similarity [1] [0] = 0
   \<and> reduce_protocol 2
        (contribution (pre_reduce_metrics
           [(''cosine/update_grad/w'', 0), (''l2_norm/update/w'', 0), (''l2_norm/grad/w'', 1)]))
        [(''cosine/update_grad/w'', 1), (''l2_norm/update/w'', 1), (''l2_norm/grad/w'', 1)]
      = Inr [(''cosine/update_grad/w'', 1), (''l2_norm/update/w'', 1),
             (''l2_norm/grad/w'', sqrt 2)]
   \<and> cosine_similarity ([1] @ [1]) ([1] @ [0]) = 1 / sqrt 2
   \<and> 1 \<noteq> 1 / sqrt (2::real)"
  apply (simp add: reduce_protocol_def pre_reduce_cosine_first)
  apply (simp add: dist_reduce_cosine_first contribution_def)
  apply (simp add: vector_norm_def cosine_similarity_def dot_def)
  done


text \<open>
  Claim C7. On one worker the two passes are the identity on a mapping that holds the
  norm keys before the cosine key (\<open>single_worker_norms_first\<close>), and not on a mapping
  that holds the cosine key first: the post-reduce pass then divides by the product of
  the squared norms, and the cosine \<open>1 / 2\<close> between vectors of norm \<open>2\<close> comes back as
  \<open>1 / 8\<close>.
\<close>

theorem single_worker_cosine_before_norms:
  "reduce_protocol 1 peer_sum
     [(''cosine/update_grad/w'', 1 / 2), (''l2_norm/update/w'', 2), (''l2_norm/grad/w'', 2)]
   = Inr [(''cosine/update_grad/w'', 1 / 8), (''l2_norm/update/w'', 2), (''l2_norm/grad/w'', 2)]"
  by (simp add: reduce_protocol_def pre_reduce_cosine_first keys_def evals
      dist_reduce_metrics_def dist_reduce_entry_def reduced_value_def
      startswith_def getitem_def setitem_def math_sqrt_def l2_norm_key_def)


section \<open>Properties of the metric catalogue\<close>

lemma sqrt_singleton: "0 \<le> v \<Longrightarrow> sqrt (vector_norm [v]) = vector_norm (tensor_sqrt [v])"
  by (simp add: vector_norm_def tensor_sqrt_def)

text \<open>
  Claim C4. The catalogue entry \<open>l2_norm/second_moment_sqrt\<close> is the square root of the
  norm of the second-moment estimate, not the norm of its element-wise square root: on
  the estimate \<open>[3, 4]\<close> it is \<open>sqrt 5\<close>, while the norm of \<open>[sqrt 3, sqrt 4]\<close> is
  \<open>sqrt 7\<close>. The two agree on a tensor of one element.
\<close>

theorem second_moment_sqrt_metric_is_root_of_norm:
  "l2_norm_second_moment_sqrt \<lparr>data = [1, 1], grad = Some (Dense [1, 1]), requires_grad = True\<rparr>
     \<lparr>step = 1, exp_avg = [0, 0], exp_avg_sq = [3, 4], max_exp_avg_sq = None\<rparr> [0, 0]
   = Inr (sqrt 5)
   \<and> vector_norm (tensor_sqrt [3, 4]) = sqrt 7
   \<and> sqrt 5 \<noteq> sqrt (7::real)"
  by (simp add: l2_norm_second_moment_sqrt_def vector_norm_def tensor_sqrt_def sqrt_25)


section \<open>Properties of the update engine\<close>

lemma decay_factor_same_lr: "decay_factor lr' lr' = 1"
  by (simp add: decay_factor_def)

lemma sgdw_entry_decay:
  "weight_decay' \<noteq> 0 \<Longrightarrow>
   sgdw_entry weight_decay' momentum' lr' initial_lr' dampening' nesterov' param' d_p slot
   = sgdw_entry 0 momentum' lr' initial_lr' dampening' nesterov'
       (tensor_mul param' (1 - decay_factor lr' initial_lr' * weight_decay')) d_p slot"
  by (simp add: sgdw_entry_def Let_def)

lemma adamw_entry_decay:
  "weight_decay' \<noteq> 0 \<Longrightarrow>
   adamw_entry amsgrad' beta1 beta2 lr' initial_lr' weight_decay' eps' grad' step'
     (param', exp_avg', exp_avg_sq', max')
   = adamw_entry amsgrad' beta1 beta2 lr' initial_lr' 0 eps' grad' step'
       (tensor_mul param' (1 - decay_factor lr' initial_lr' * weight_decay'),
        exp_avg', exp_avg_sq', max')"
  by (simp add: adamw_entry_def Let_def)

lemma sgdw_singleton:
  "sgdw [param'] [d_p] [slot] weight_decay' momentum' lr' initial_lr' dampening' nesterov'
   = (case sgdw_entry weight_decay' momentum' lr' initial_lr' dampening' nesterov' param' d_p
             (if momentum' \<noteq> 0 then slot else None) of
        (p1, slot1) \<Rightarrow> (None, [p1], [if momentum' \<noteq> 0 then slot1 else slot]))"
  by (simp add: sgdw_def split: prod.splits)

lemma adamw_entry_no_amsgrad:
  "snd (snd (snd (snd (adamw_entry False beta1 beta2 lr' initial_lr' weight_decay' eps' grad'
     step' (param', exp_avg', exp_avg_sq', max'))))) = max'"
  by (simp add: adamw_entry_def adamw_finish_def Let_def split: sum.splits)

lemma adamw_singleton:
  "adamw [param'] [grad'] [exp_avg'] [exp_avg_sq'] [] [step'] False beta1 beta2 lr' initial_lr'
     weight_decay' eps'
   = (case adamw_entry False beta1 beta2 lr' initial_lr' weight_decay' eps' grad' step'
             (param', exp_avg', exp_avg_sq', None) of
        (err, (p1, exp_avg1, exp_avg_sq1, max1)) \<Rightarrow>
          (err, [p1], [exp_avg1], [exp_avg_sq1], []))"
  using adamw_entry_no_amsgrad [of beta1 beta2 lr' initial_lr' weight_decay' eps' grad' step'
      param' exp_avg' exp_avg_sq' None]
  by (auto simp: adamw_def Let_def split: prod.splits option.splits)

lemma sgdw_loop_returns:
  "\<forall>i \<in> set ns. i < length ds \<and> (mom \<noteq> 0 \<longrightarrow> i < length bufs) \<Longrightarrow>
   fst (sgdw_loop wd mom l il damp nest ds ns (ps, bufs)) = None"
proof (induction ns arbitrary: ps bufs)
  case Nil
  then show ?case by simp
next
  case (Cons i rest)
  obtain p1 slot1 where e: "sgdw_entry wd mom l il damp nest (ps ! i) (ds ! i)
      (if mom \<noteq> 0 then bufs ! i else None) = (p1, slot1)"
    by (cases "sgdw_entry wd mom l il damp nest (ps ! i) (ds ! i)
      (if mom \<noteq> 0 then bufs ! i else None)") auto
  let ?bufs = "if mom \<noteq> 0 then bufs[i := slot1] else bufs"
  from Cons.prems have "\<forall>k \<in> set rest. k < length ds \<and> (mom \<noteq> 0 \<longrightarrow> k < length ?bufs)"
    by simp
  from Cons.IH [OF this, of "ps[i := p1]"] Cons.prems e show ?case
    by (cases "mom = 0") (simp_all add: Let_def)
qed

lemma sgdw_loop_decay:
  assumes "wd \<noteq> 0" and "distinct ns"
    and "\<forall>i \<in> set ns. i < length ps \<and> i < length ds \<and> (mom \<noteq> 0 \<longrightarrow> i < length bufs)"
    and "length ps' = length ps"
    and "\<forall>j < length ps. ps' ! j = (if j \<in> set ns
           then tensor_mul (ps ! j) (1 - decay_factor l il * wd) else ps ! j)"
  shows "sgdw_loop wd mom l il damp nest ds ns (ps, bufs)
       = sgdw_loop 0 mom l il damp nest ds ns (ps', bufs)"
  using assms(2-)
proof (induction ns arbitrary: ps ps' bufs)
  case Nil
  then have "ps' = ps" by (intro nth_equalityI) simp_all
  then show ?case by simp
next
  case (Cons i rest)
  let ?slot = "if mom \<noteq> 0 then bufs ! i else None"
  from Cons.prems have i: "i < length ps" "i < length ds" "mom \<noteq> 0 \<longrightarrow> i < length bufs"
    and ni: "i \<notin> set rest" and d: "distinct rest"
    by simp_all
  from Cons.prems(4) i(1) have "ps' ! i = tensor_mul (ps ! i) (1 - decay_factor l il * wd)"
    by simp
  then have same: "sgdw_entry wd mom l il damp nest (ps ! i) (ds ! i) ?slot
      = sgdw_entry 0 mom l il damp nest (ps' ! i) (ds ! i) ?slot"
    using sgdw_entry_decay [OF assms(1), of mom l il damp nest "ps ! i" "ds ! i" ?slot]
    by simp
  obtain p1 slot1 where e: "sgdw_entry wd mom l il damp nest (ps ! i) (ds ! i) ?slot
      = (p1, slot1)"
    by (cases "sgdw_entry wd mom l il damp nest (ps ! i) (ds ! i) ?slot") auto
  let ?bufs = "if mom \<noteq> 0 then bufs[i := slot1] else bufs"
  have "\<forall>k \<in> set rest. k < length (ps[i := p1]) \<and> k < length ds
      \<and> (mom \<noteq> 0 \<longrightarrow> k < length ?bufs)"
    using Cons.prems(2) by simp
  moreover have "length (ps'[i := p1]) = length (ps[i := p1])"
    using Cons.prems(3) by simp
  moreover have "\<forall>j < length (ps[i := p1]). ps'[i := p1] ! j = (if j \<in> set rest
           then tensor_mul (ps[i := p1] ! j) (1 - decay_factor l il * wd) else ps[i := p1] ! j)"
  proof (intro allI impI)
    fix j assume j: "j < length (ps[i := p1])"
    show "ps'[i := p1] ! j = (if j \<in> set rest
           then tensor_mul (ps[i := p1] ! j) (1 - decay_factor l il * wd) else ps[i := p1] ! j)"
    proof (cases "j = i")
      case True
      with ni i(1) Cons.prems(3) show ?thesis by simp
    next
      case False
      with j Cons.prems(4) show ?thesis by simp
    qed
  qed
  ultimately have tails: "sgdw_loop wd mom l il damp nest ds rest (ps[i := p1], ?bufs)
       = sgdw_loop 0 mom l il damp nest ds rest (ps'[i := p1], ?bufs)"
    using d by (intro Cons.IH)
  from e same have e0: "sgdw_entry 0 mom l il damp nest (ps' ! i) (ds ! i) ?slot = (p1, slot1)"
    by simp
  have lhs: "sgdw_loop wd mom l il damp nest ds (i # rest) (ps, bufs)
      = sgdw_loop wd mom l il damp nest ds rest (ps[i := p1], ?bufs)"
    using i e by (cases "mom = 0") (simp_all add: Let_def)
  have rhs: "sgdw_loop 0 mom l il damp nest ds (i # rest) (ps', bufs)
      = sgdw_loop 0 mom l il damp nest ds rest (ps'[i := p1], ?bufs)"
    using i e0 by (cases "mom = 0") (simp_all add: Let_def)
  show ?case by (simp only: lhs rhs tails)
qed

lemma sgdw_decay:
  assumes "wd \<noteq> 0" and "length ps \<le> length ds" and "mom \<noteq> 0 \<longrightarrow> length ps \<le> length bufs"
  shows "sgdw ps ds bufs wd mom l il damp nest
       = sgdw (map (\<lambda>p. tensor_mul p (1 - decay_factor l il * wd)) ps) ds bufs 0 mom l il
           damp nest"
    and "fst (sgdw ps ds bufs wd mom l il damp nest) = None"
proof -
  show "sgdw ps ds bufs wd mom l il damp nest
       = sgdw (map (\<lambda>p. tensor_mul p (1 - decay_factor l il * wd)) ps) ds bufs 0 mom l il
           damp nest"
    unfolding sgdw_def length_map
    using assms by (intro sgdw_loop_decay) auto
  show "fst (sgdw ps ds bufs wd mom l il damp nest) = None"
    unfolding sgdw_def using assms by (intro sgdw_loop_returns) auto
qed

lemma adamw_loop_decay:
  assumes "wd \<noteq> 0" and "distinct ns"
    and "\<forall>i \<in> set ns. i < length ps"
    and "length ps' = length ps"
    and "\<forall>j < length ps. ps' ! j = (if j \<in> set ns
           then tensor_mul (ps ! j) (1 - decay_factor l il * wd) else ps ! j)"
    and "fst (adamw_loop a b1 b2 l il wd e gs sts ns (ps, eas, eass, ms)) = None"
  shows "adamw_loop a b1 b2 l il wd e gs sts ns (ps, eas, eass, ms)
       = adamw_loop a b1 b2 l il 0 e gs sts ns (ps', eas, eass, ms)"
  using assms(2-)
proof (induction ns arbitrary: ps ps' eas eass ms)
  case Nil
  then have "ps' = ps" by (intro nth_equalityI) simp_all
  then show ?case by simp
next
  case (Cons i rest)
  let ?m = "if a \<and> i < length ms then Some (ms ! i) else None"
  from Cons.prems have i: "i < length ps" and ni: "i \<notin> set rest" and d: "distinct rest"
    by simp_all
  from Cons.prems(5) have ok: "\<not> (length gs \<le> i \<or> length eas \<le> i \<or> length eass \<le> i
      \<or> length sts \<le> i)"
    by (auto split: if_splits)
  from Cons.prems(4) i have "ps' ! i = tensor_mul (ps ! i) (1 - decay_factor l il * wd)"
    by simp
  then have same: "adamw_entry a b1 b2 l il wd e (gs ! i) (sts ! i)
        (ps ! i, eas ! i, eass ! i, ?m)
      = adamw_entry a b1 b2 l il 0 e (gs ! i) (sts ! i) (ps' ! i, eas ! i, eass ! i, ?m)"
    using adamw_entry_decay [OF assms(1), of a b1 b2 l il e "gs ! i" "sts ! i" "ps ! i"
        "eas ! i" "eass ! i" ?m]
    by simp
  obtain err p1 ea1 eas1 m1 where en: "adamw_entry a b1 b2 l il wd e (gs ! i) (sts ! i)
        (ps ! i, eas ! i, eass ! i, ?m) = (err, (p1, ea1, eas1, m1))"
    by (cases "adamw_entry a b1 b2 l il wd e (gs ! i) (sts ! i)
        (ps ! i, eas ! i, eass ! i, ?m)") auto
  let ?ms = "case m1 of None \<Rightarrow> ms | Some m \<Rightarrow> ms[i := m]"
  from same en have en0: "adamw_entry a b1 b2 l il 0 e (gs ! i) (sts ! i)
        (ps' ! i, eas ! i, eass ! i, ?m) = (err, (p1, ea1, eas1, m1))"
    by simp
  have step: "adamw_loop a b1 b2 l il wd e gs sts (i # rest) (ps, eas, eass, ms)
      = (case err of
           Some x \<Rightarrow> (Some x, (ps[i := p1], eas[i := ea1], eass[i := eas1], ?ms))
         | None \<Rightarrow> adamw_loop a b1 b2 l il wd e gs sts rest
             (ps[i := p1], eas[i := ea1], eass[i := eas1], ?ms))"
    using ok en by (simp add: Let_def)
  have step0: "adamw_loop a b1 b2 l il 0 e gs sts (i # rest) (ps', eas, eass, ms)
      = (case err of
           Some x \<Rightarrow> (Some x, (ps'[i := p1], eas[i := ea1], eass[i := eas1], ?ms))
         | None \<Rightarrow> adamw_loop a b1 b2 l il 0 e gs sts rest
             (ps'[i := p1], eas[i := ea1], eass[i := eas1], ?ms))"
    using ok en0 by (simp add: Let_def)
  from Cons.prems(5) have err: "err = None"
    unfolding step by (cases err) simp_all
  from Cons.prems(5)
  have tail: "fst (adamw_loop a b1 b2 l il wd e gs sts rest
      (ps[i := p1], eas[i := ea1], eass[i := eas1], ?ms)) = None"
    unfolding step err by simp
  have "\<forall>k \<in> set rest. k < length (ps[i := p1])"
    using Cons.prems(2) by simp
  moreover have "length (ps'[i := p1]) = length (ps[i := p1])"
    using Cons.prems(3) by simp
  moreover have "\<forall>j < length (ps[i := p1]). ps'[i := p1] ! j = (if j \<in> set rest
           then tensor_mul (ps[i := p1] ! j) (1 - decay_factor l il * wd) else ps[i := p1] ! j)"
  proof (intro allI impI)
    fix j assume j: "j < length (ps[i := p1])"
    show "ps'[i := p1] ! j = (if j \<in> set rest
           then tensor_mul (ps[i := p1] ! j) (1 - decay_factor l il * wd) else ps[i := p1] ! j)"
    proof (cases "j = i")
      case True
      with ni i Cons.prems(3) show ?thesis by simp
    next
      case False
      with j Cons.prems(4) show ?thesis by simp
    qed
  qed
  ultimately have "adamw_loop a b1 b2 l il wd e gs sts rest
         (ps[i := p1], eas[i := ea1], eass[i := eas1], ?ms)
       = adamw_loop a b1 b2 l il 0 e gs sts rest
         (ps'[i := p1], eas[i := ea1], eass[i := eas1], ?ms)"
    using d tail by (intro Cons.IH)
  then show ?case by (simp only: step step0 err option.case)
qed

lemma adamw_decay:
  assumes "wd \<noteq> 0" and "fst (adamw ps gs eas eass ms sts a b1 b2 l il wd e) = None"
  shows "adamw ps gs eas eass ms sts a b1 b2 l il wd e
       = adamw (map (\<lambda>p. tensor_mul p (1 - decay_factor l il * wd)) ps) gs eas eass ms sts
           a b1 b2 l il 0 e"
  unfolding adamw_def length_map
  using assms by (intro adamw_loop_decay) (auto simp: adamw_def)

lemma adamw_singleton_decay:
  "weight_decay' \<noteq> 0 \<Longrightarrow>
   adamw [param'] [grad'] [exp_avg'] [exp_avg_sq'] max_exp_avg_sqs [step'] amsgrad' beta1 beta2
     lr' initial_lr' weight_decay' eps'
   = adamw [tensor_mul param' (1 - decay_factor lr' initial_lr' * weight_decay')] [grad']
       [exp_avg'] [exp_avg_sq'] max_exp_avg_sqs [step'] amsgrad' beta1 beta2 lr' initial_lr' 0
       eps'"
  by (simp add: adamw_def adamw_entry_decay Let_def split: prod.splits option.splits)

text \<open>
  Claim C6. With a nonzero weight decay, one iteration of either update variant is the
  iteration without weight decay on the parameter scaled by
  \<open>1 - decay_factor * weight_decay\<close>: the scaling comes before the gradient step, and its
  factor has no gradient in it. The decay factor is \<open>lr / initial_lr\<close>, and \<open>1\<close> for a zero
  \<open>initial_lr\<close>; for \<open>lr = initial_lr\<close> the parameter is scaled by \<open>1 - weight_decay\<close>. A call
  of \<open>sgdw\<close> or of \<open>adamw\<close> on one parameter is one such iteration, and a call on a list of
  parameters that raises no error is the call without weight decay on the list of the
  scaled parameters; \<open>sgdw\<close> raises no error when it has a gradient and, with momentum, a
  buffer slot for every parameter.
\<close>

theorem decoupled_decay_scales_parameter_first:
  assumes "weight_decay' \<noteq> 0"
  shows "sgdw_entry weight_decay' momentum' lr' initial_lr' dampening' nesterov' param' d_p slot
         = sgdw_entry 0 momentum' lr' initial_lr' dampening' nesterov'
             (tensor_mul param' (1 - decay_factor lr' initial_lr' * weight_decay')) d_p slot
       \<and> adamw_entry amsgrad' beta1 beta2 lr' initial_lr' weight_decay' eps' grad' step'
           (param', exp_avg', exp_avg_sq', max')
         = adamw_entry amsgrad' beta1 beta2 lr' initial_lr' 0 eps' grad' step'
             (tensor_mul param' (1 - decay_factor lr' initial_lr' * weight_decay'),
              exp_avg', exp_avg_sq', max')
       \<and> fst (sgdw_entry weight_decay' 0 lr' initial_lr' dampening' nesterov' param' d_p slot)
         = tensor_add (tensor_mul param' (1 - decay_factor lr' initial_lr' * weight_decay'))
             d_p (- lr')
       \<and> decay_factor lr' initial_lr' = (if initial_lr' = 0 then 1 else lr' / initial_lr')
       \<and> (lr' = initial_lr' \<longrightarrow>
            tensor_mul param' (1 - decay_factor lr' initial_lr' * weight_decay')
            = tensor_mul param' (1 - weight_decay'))
       \<and> fst (snd (sgdw [param'] [d_p] [slot] weight_decay' momentum' lr' initial_lr'
                     dampening' nesterov'))
         = [fst (sgdw_entry 0 momentum' lr' initial_lr' dampening' nesterov'
                   (tensor_mul param' (1 - decay_factor lr' initial_lr' * weight_decay')) d_p
                   (if momentum' \<noteq> 0 then slot else None))]
       \<and> adamw [param'] [grad'] [exp_avg'] [exp_avg_sq'] max_exp_avg_sqs [step'] amsgrad'
           beta1 beta2 lr' initial_lr' weight_decay' eps'
         = adamw [tensor_mul param' (1 - decay_factor lr' initial_lr' * weight_decay')] [grad']
             [exp_avg'] [exp_avg_sq'] max_exp_avg_sqs [step'] amsgrad' beta1 beta2 lr'
             initial_lr' 0 eps'
       \<and> (length params' \<le> length d_p_list
            \<and> (momentum' \<noteq> 0 \<longrightarrow> length params' \<le> length momentum_buffer_list) \<longrightarrow>
            fst (sgdw params' d_p_list momentum_buffer_list weight_decay' momentum' lr'
                   initial_lr' dampening' nesterov') = None
            \<and> sgdw params' d_p_list momentum_buffer_list weight_decay' momentum' lr'
                   initial_lr' dampening' nesterov'
              = sgdw (map (\<lambda>p. tensor_mul p (1 - decay_factor lr' initial_lr' * weight_decay'))
                        params')
                  d_p_list momentum_buffer_list 0 momentum' lr' initial_lr' dampening' nesterov')
       \<and> (fst (adamw aparams grads exp_avgs exp_avg_sqs max_exp_avg_sqs state_steps amsgrad'
                  beta1 beta2 lr' initial_lr' weight_decay' eps') = None \<longrightarrow>
            adamw aparams grads exp_avgs exp_avg_sqs max_exp_avg_sqs state_steps amsgrad'
              beta1 beta2 lr' initial_lr' weight_decay' eps'
            = adamw (map (\<lambda>p. tensor_mul p (1 - decay_factor lr' initial_lr' * weight_decay'))
                       aparams)
                grads exp_avgs exp_avg_sqs max_exp_avg_sqs state_steps amsgrad'
                beta1 beta2 lr' initial_lr' 0 eps')"
proof (intro conjI impI)
  show "sgdw_entry weight_decay' momentum' lr' initial_lr' dampening' nesterov' param' d_p slot
         = sgdw_entry 0 momentum' lr' initial_lr' dampening' nesterov'
             (tensor_mul param' (1 - decay_factor lr' initial_lr' * weight_decay')) d_p slot"
    using assms by (rule sgdw_entry_decay)
next
  show "adamw_entry amsgrad' beta1 beta2 lr' initial_lr' weight_decay' eps' grad' step'
           (param', exp_avg', exp_avg_sq', max')
         = adamw_entry amsgrad' beta1 beta2 lr' initial_lr' 0 eps' grad' step'
             (tensor_mul param' (1 - decay_factor lr' initial_lr' * weight_decay'),
              exp_avg', exp_avg_sq', max')"
    using assms by (rule adamw_entry_decay)
next
  show "fst (sgdw_entry weight_decay' 0 lr' initial_lr' dampening' nesterov' param' d_p slot)
         = tensor_add (tensor_mul param' (1 - decay_factor lr' initial_lr' * weight_decay'))
             d_p (- lr')"
    using assms by (simp add: sgdw_entry_def)
next
  show "decay_factor lr' initial_lr' = (if initial_lr' = 0 then 1 else lr' / initial_lr')"
    by (simp add: decay_factor_def)
next
  assume "lr' = initial_lr'"
  then show "tensor_mul param' (1 - decay_factor lr' initial_lr' * weight_decay')
            = tensor_mul param' (1 - weight_decay')"
    by (simp add: decay_factor_def)
next
  show "fst (snd (sgdw [param'] [d_p] [slot] weight_decay' momentum' lr' initial_lr'
                     dampening' nesterov'))
         = [fst (sgdw_entry 0 momentum' lr' initial_lr' dampening' nesterov'
                   (tensor_mul param' (1 - decay_factor lr' initial_lr' * weight_decay')) d_p
                   (if momentum' \<noteq> 0 then slot else None))]"
    using assms by (simp add: sgdw_singleton sgdw_entry_decay split: prod.splits)
next
  show "adamw [param'] [grad'] [exp_avg'] [exp_avg_sq'] max_exp_avg_sqs [step'] amsgrad'
           beta1 beta2 lr' initial_lr' weight_decay' eps'
         = adamw [tensor_mul param' (1 - decay_factor lr' initial_lr' * weight_decay')] [grad']
             [exp_avg'] [exp_avg_sq'] max_exp_avg_sqs [step'] amsgrad' beta1 beta2 lr'
             initial_lr' 0 eps'"
    using assms by (rule adamw_singleton_decay)
next
  assume h: "length params' \<le> length d_p_list
            \<and> (momentum' \<noteq> 0 \<longrightarrow> length params' \<le> length momentum_buffer_list)"
  then show "fst (sgdw params' d_p_list momentum_buffer_list weight_decay' momentum' lr'
                   initial_lr' dampening' nesterov') = None"
    using assms by (intro sgdw_decay(2)) simp_all
  from h show "sgdw params' d_p_list momentum_buffer_list weight_decay' momentum' lr'
                   initial_lr' dampening' nesterov'
              = sgdw (map (\<lambda>p. tensor_mul p (1 - decay_factor lr' initial_lr' * weight_decay'))
                        params')
                  d_p_list momentum_buffer_list 0 momentum' lr' initial_lr' dampening' nesterov'"
    using assms by (intro sgdw_decay(1)) simp_all
next
  assume "fst (adamw aparams grads exp_avgs exp_avg_sqs max_exp_avg_sqs state_steps amsgrad'
                  beta1 beta2 lr' initial_lr' weight_decay' eps') = None"
  with assms show "adamw aparams grads exp_avgs exp_avg_sqs max_exp_avg_sqs state_steps amsgrad'
              beta1 beta2 lr' initial_lr' weight_decay' eps'
            = adamw (map (\<lambda>p. tensor_mul p (1 - decay_factor lr' initial_lr' * weight_decay'))
                       aparams)
                grads exp_avgs exp_avg_sqs max_exp_avg_sqs state_steps amsgrad'
                beta1 beta2 lr' initial_lr' 0 eps'"
    by (rule adamw_decay)
qed

theorem decoupled_decay_scales_parameter_first_witness:
  "(1 / 2 :: real) \<noteq> 0
   \<and> fst (sgdw_entry (1 / 2) 0 1 1 0 False [2] [1] None) = [0]
   \<and> tensor_mul [2] (1 - decay_factor 1 1 * (1 / 2)) = [1]
   \<and> adamw_entry False 0 0 1 1 (1 / 2) 1 [1] 1 ([2], [0], [0], None)
     = (None, ([1 / 2], [1], [1], None))
   \<and> sgdw [[2], [4]] [[1], [1]] [None, None] (1 / 2) 0 1 1 0 False
     = (None, [[0], [1]], [None, None])
   \<and> sgdw [[1], [2]] [[1], [1]] [None, None] 0 0 1 1 0 False
     = (None, [[0], [1]], [None, None])
   \<and> adamw [[2], [4]] [[1], [1]] [[0], [0]] [[0], [0]] [] [1, 1] False 0 0 1 1 (1 / 2) 1
     = (None, [[1 / 2], [3 / 2]], [[1], [1]], [[1], [1]], [])
   \<and> adamw [[1], [2]] [[1], [1]] [[0], [0]] [[0], [0]] [] [1, 1] False 0 0 1 1 0 1
     = (None, [[1 / 2], [3 / 2]], [[1], [1]], [[1], [1]], [])"
proof -
  have s: "sgdw [[2], [4]] [[1], [1]] [None, None] (1 / 2) 0 1 1 0 False
     = (None, [[0], [1]], [None, None])"
    by (simp add: sgdw_def sgdw_entry_def tensor_mul_def tensor_add_def decay_factor_def
        Let_def)
  have a: "adamw [[2], [4]] [[1], [1]] [[0], [0]] [[0], [0]] [] [1, 1] False 0 0 1 1 (1 / 2) 1
     = (None, [[1 / 2], [3 / 2]], [[1], [1]], [[1], [1]], [])"
    by (simp add: adamw_def adamw_entry_def adamw_finish_def math_sqrt_def decay_factor_def
        tensor_mul_def tensor_add_def tensor_addcmul_def tensor_sqrt_def tensor_div_scalar_def
        tensor_add_scalar_def tensor_addcdiv_def Let_def)
  have m: "map (\<lambda>p. tensor_mul p (1 - decay_factor 1 1 * (1 / 2))) [[2], [4]] = [[1], [2]]"
    by (simp add: tensor_mul_def decay_factor_def)
  note T = decoupled_decay_scales_parameter_first
    [where weight_decay' = "1 / 2" and momentum' = 0 and lr' = 1 and initial_lr' = 1
      and dampening' = 0 and nesterov' = False and param' = "[2]" and d_p = "[1]"
      and slot = None and amsgrad' = False and ?beta1.0 = 0 and ?beta2.0 = 0 and eps' = 1
      and grad' = "[1]" and step' = 1 and exp_avg' = "[0]" and exp_avg_sq' = "[0]"
      and max' = None and params' = "[[2], [4]]" and d_p_list = "[[1], [1]]"
      and momentum_buffer_list = "[None, None]" and aparams = "[[2], [4]]"
      and grads = "[[1], [1]]" and exp_avgs = "[[0], [0]]" and exp_avg_sqs = "[[0], [0]]"
      and max_exp_avg_sqs = "[]" and state_steps = "[1, 1]"]
  have nz: "(1 / 2 :: real) \<noteq> 0" by simp
  have "sgdw [[1], [2]] [[1], [1]] [None, None] 0 0 1 1 0 False
     = (None, [[0], [1]], [None, None])"
    using T [OF nz] s m by simp
  moreover have "adamw [[1], [2]] [[1], [1]] [[0], [0]] [[0], [0]] [] [1, 1] False 0 0 1 1 0 1
     = (None, [[1 / 2], [3 / 2]], [[1], [1]], [[1], [1]], [])"
    using T [OF nz] a m by simp
  moreover have "fst (sgdw_entry (1 / 2) 0 1 1 0 False [2] [1] None) = [0]"
    and "tensor_mul [2] (1 - decay_factor 1 1 * (1 / 2)) = [1]"
    and "adamw_entry False 0 0 1 1 (1 / 2) 1 [1] 1 ([2], [0], [0], None)
     = (None, ([1 / 2], [1], [1], None))"
    by (simp_all add: sgdw_entry_def tensor_mul_def tensor_add_def decay_factor_def
      adamw_entry_def adamw_finish_def math_sqrt_def tensor_addcmul_def tensor_sqrt_def
      tensor_div_scalar_def tensor_add_scalar_def tensor_addcdiv_def Let_def)
  ultimately show ?thesis using s a by simp
qed


section \<open>Properties of the metric report\<close>

lemma sqrt_quarter: "sqrt (1 / 4) = 1 / 2"
  by (simp add: real_sqrt_divide)

lemma adam_step_example:
  "DecoupledAdamW_step None
     \<lparr>param_groups =
        [\<lparr>params = [0], lr = 1, weight_decay = 1 / 2, initial_lr = Some 1,
          betas = (1 / 2, 3 / 4), eps = 1, amsgrad = False\<rparr>],
      state = Map.empty,
      tensors = (\<lambda>_. \<lparr>data = [2], grad = Some (Dense [1]), requires_grad = True\<rparr>)\<rparr>
   = (Inr None,
      \<lparr>param_groups =
        [\<lparr>params = [0], lr = 1, weight_decay = 1 / 2, initial_lr = Some 1,
          betas = (1 / 2, 3 / 4), eps = 1, amsgrad = False\<rparr>],
      state = [0 \<mapsto> \<lparr>step = 1, exp_avg = [1 / 2], exp_avg_sq = [1 / 4], max_exp_avg_sq = None\<rparr>],
      tensors = (\<lambda>_. \<lparr>data = [2], grad = Some (Dense [1]), requires_grad = True\<rparr>)
                  (0 := \<lparr>data = [1 / 2], grad = Some (Dense [1]), requires_grad = True\<rparr>)\<rparr>)"
  by (simp add: DecoupledAdamW_step_def run_closure_def adam_group_step_def adam_state_of_def
      zeros_like_def adamw_def adamw_entry_def adamw_finish_def math_sqrt_def decay_factor_def
      tensor_mul_def tensor_add_def tensor_addcmul_def tensor_sqrt_def tensor_div_scalar_def
      tensor_add_scalar_def tensor_addcdiv_def sqrt_quarter Let_def)


lemma vector_norm_singleton: "vector_norm [v] = \<bar>v\<bar>"
  by (simp add: vector_norm_def)

lemma step_tensor_example:
  "step_tensor_of
     \<lparr>params = [0], lr = 1, weight_decay = 1 / 2, initial_lr = Some 1,
      betas = (1 / 2, 3 / 4), eps = 1, amsgrad = False\<rparr> 1
     \<lparr>step = Suc 0, exp_avg = [1 / 2], exp_avg_sq = [1 / 4], max_exp_avg_sq = None\<rparr> [1 / 2]
   = Inr [1 / 4]"
  by (simp add: step_tensor_of_def math_sqrt_def decay_factor_def tensor_mul_def tensor_add_def
      tensor_div_def tensor_sqrt_def tensor_div_scalar_def tensor_add_scalar_def sqrt_quarter)

text \<open>
  Claim C5. The step tensor that the method hands to the metric functions is
  \<open>step_size * exp_avg / denom - weight_decay * decay_factor * param\<close>, with the value of the
  parameter at the time of the report; the step subtracts
  \<open>step_size * exp_avg / denom + decay_factor * weight_decay * param\<close> from the parameter,
  with its value before the step. After one step of a parameter \<open>[2]\<close> with gradient \<open>[1]\<close>
  (\<open>lr = initial_lr = 1\<close>, \<open>weight_decay = 1/2\<close>, \<open>betas = (1/2, 3/4)\<close>, \<open>eps = 1\<close>) the
  parameter is \<open>[1/2]\<close>, so that \<open>[3/2]\<close> has been subtracted, and the step tensor is
  \<open>[1/4]\<close>.
\<close>

theorem step_tensor_is_not_the_applied_update:
  "(let before =
         \<lparr>param_groups =
            [\<lparr>params = [0], lr = 1, weight_decay = 1 / 2, initial_lr = Some 1,
              betas = (1 / 2, 3 / 4), eps = 1, amsgrad = False\<rparr>],
          state = Map.empty,
          tensors = (\<lambda>_. \<lparr>data = [2], grad = Some (Dense [1]), requires_grad = True\<rparr>)\<rparr>;
        after = snd (DecoupledAdamW_step None before)
    in fst (DecoupledAdamW_step None before) = Inr None
     \<and> data (tensors before 0) = [2]
     \<and> data (tensors after 0) = [1 / 2]
     \<and> map_option
          (\<lambda>s. step_tensor_of (hd (param_groups after)) 1 s (data (tensors after 0)))
          (state after 0) = Some (Inr [1 / 4])
     \<and> (case report_per_parameter_metrics after 0 ''w'' [] of
          Inl e \<Rightarrow> None
        | Inr d \<Rightarrow> map_of d ''l2_norm/update/w'') = Some (1 / 4)
     \<and> tensor_add [2] [1 / 2] (- 1) = [3 / 2]
     \<and> tensor_add [2] [1 / 4] (- 1) \<noteq> [1 / 2])"
  apply (simp only: Let_def adam_step_example snd_conv fst_conv)
  apply (simp add: step_tensor_example report_per_parameter_metrics_def metric_functions_def
      l2_norm_moment_def l2_norm_param_def l2_norm_second_moment_sqrt_def l2_norm_update_def
      l2_norm_grad_def cosine_update_grad_def cosine_moment_grad_def setitem_def
      vector_norm_singleton tensor_add_def)
  done


lemma step_tensor_of_params:
  "step_tensor_of (g\<lparr>params := ps\<rparr>) i s v = step_tensor_of g i s v"
  by (simp add: step_tensor_of_def Let_def split: prod.splits sum.splits)

lemma step_tensor_first_group:
  "step_tensor_of
     \<lparr>params = [0], lr = 1, weight_decay = 0, initial_lr = Some 1,
      betas = (1 / 2, 3 / 4), eps = 1, amsgrad = False\<rparr> 1
     \<lparr>step = Suc 0, exp_avg = [1 / 2], exp_avg_sq = [1 / 4], max_exp_avg_sq = None\<rparr> [2]
   = Inr [1 / 2]"
  by (simp add: step_tensor_of_def math_sqrt_def decay_factor_def tensor_mul_def tensor_add_def
      tensor_div_def tensor_sqrt_def tensor_div_scalar_def tensor_add_scalar_def
      real_sqrt_divide)

text \<open>
  Claim C10. The method reads every hyperparameter from the first parameter group: its
  result stays the same when the other groups, and the parameter lists of all groups,
  change, so it does not depend on the group that holds the parameter. For a parameter
  with a state it is the catalogue evaluated on the step tensor built from the first
  group; for a parameter without a state it is the given mapping (the first group holds
  an \<open>initial_lr\<close>, which the constructor sets).
\<close>

theorem report_reads_first_group:
  "report_per_parameter_metrics (opt\<lparr>param_groups := g\<lparr>params := ps\<rparr> # gs\<rparr>) p name m
   = report_per_parameter_metrics (opt\<lparr>param_groups := g\<lparr>params := ps'\<rparr> # gs'\<rparr>) p name m
   \<and> (\<forall>i s. initial_lr g = Some i \<and> state opt p = Some s \<longrightarrow>
         report_per_parameter_metrics (opt\<lparr>param_groups := g # gs\<rparr>) p name m
         = (case step_tensor_of g i s (data (tensors opt p)) of
              Inl e \<Rightarrow> Inl e
            | Inr step_tensor \<Rightarrow>
                report_loop metric_functions (tensors opt p) s step_tensor name m))
   \<and> (initial_lr g \<noteq> None \<and> state opt p = None \<longrightarrow>
         report_per_parameter_metrics (opt\<lparr>param_groups := g # gs\<rparr>) p name m = Inr m)"
  by (simp add: report_per_parameter_metrics_def step_tensor_of_params
      split: option.splits sum.splits)

theorem report_reads_first_group_witness:
  "report_per_parameter_metrics
     \<lparr>param_groups =
        [\<lparr>params = [0], lr = 1, weight_decay = 0, initial_lr = Some 1,
          betas = (1 / 2, 3 / 4), eps = 1, amsgrad = False\<rparr>,
         \<lparr>params = [1, 2], lr = 100, weight_decay = 1 / 2, initial_lr = Some 1,
          betas = (1 / 2, 3 / 4), eps = 1, amsgrad = False\<rparr>],
      state = [1 \<mapsto> \<lparr>step = 1, exp_avg = [1 / 2], exp_avg_sq = [1 / 4],
                      max_exp_avg_sq = None\<rparr>],
      tensors = (\<lambda>_. \<lparr>data = [2], grad = Some (Dense [1]), requires_grad = True\<rparr>)\<rparr>
     2 ''w'' [(''l2_norm/grad/v'', 1)]
   = Inr [(''l2_norm/grad/v'', 1)]
   \<and> (case report_per_parameter_metrics
        \<lparr>param_groups =
           [\<lparr>params = [0], lr = 1, weight_decay = 0, initial_lr = Some 1,
             betas = (1 / 2, 3 / 4), eps = 1, amsgrad = False\<rparr>,
            \<lparr>params = [1, 2], lr = 100, weight_decay = 1 / 2, initial_lr = Some 1,
             betas = (1 / 2, 3 / 4), eps = 1, amsgrad = False\<rparr>],
         state = [1 \<mapsto> \<lparr>step = 1, exp_avg = [1 / 2], exp_avg_sq = [1 / 4],
                         max_exp_avg_sq = None\<rparr>],
         tensors = (\<lambda>_. \<lparr>data = [2], grad = Some (Dense [1]), requires_grad = True\<rparr>)\<rparr>
        1 ''w'' [] of
          Inl e \<Rightarrow> None
        | Inr d \<Rightarrow> map_of d ''l2_norm/update/w'') = Some (1 / 2)"
proof -
  let ?g = "\<lparr>params = [0], lr = 1, weight_decay = 0, initial_lr = Some 1,
          betas = (1 / 2, 3 / 4), eps = 1, amsgrad = False\<rparr>"
  let ?h = "\<lparr>params = [1, 2], lr = 100, weight_decay = 1 / 2, initial_lr = Some 1,
          betas = (1 / 2, 3 / 4), eps = 1, amsgrad = False\<rparr>"
  let ?s = "\<lparr>step = 1, exp_avg = [1 / 2], exp_avg_sq = [1 / 4], max_exp_avg_sq = None\<rparr>"
  let ?opt = "\<lparr>param_groups = [], state = [1 \<mapsto> ?s],
      tensors = (\<lambda>_. \<lparr>data = [2], grad = Some (Dense [1]), requires_grad = True\<rparr>)\<rparr>
      :: adam_optimizer"
  have none: "initial_lr ?g \<noteq> None \<and> state ?opt 2 = None"
    and some: "initial_lr ?g = Some 1 \<and> state ?opt 1 = Some ?s" by simp_all
  from none report_reads_first_group [where opt = ?opt and g = ?g and gs = "[?h]" and p = 2
      and name = "''w''" and m = "[(''l2_norm/grad/v'', 1)]"]
  have "report_per_parameter_metrics (?opt\<lparr>param_groups := ?g # [?h]\<rparr>) 2 ''w''
          [(''l2_norm/grad/v'', 1)] = Inr [(''l2_norm/grad/v'', 1)]"
    by blast
  moreover
  from some report_reads_first_group [where opt = ?opt and g = ?g and gs = "[?h]" and p = 1
      and name = "''w''" and m = "[]"]
  have "report_per_parameter_metrics (?opt\<lparr>param_groups := ?g # [?h]\<rparr>) 1 ''w'' []
        = (case step_tensor_of ?g 1 ?s (data (tensors ?opt 1)) of
             Inl e \<Rightarrow> Inl e
           | Inr step_tensor \<Rightarrow>
               report_loop metric_functions (tensors ?opt 1) ?s step_tensor ''w'' [])"
    by blast
  ultimately show ?thesis
    by (simp add: step_tensor_first_group metric_functions_def
      l2_norm_moment_def l2_norm_param_def l2_norm_second_moment_sqrt_def l2_norm_update_def
      l2_norm_grad_def cosine_update_grad_def cosine_moment_grad_def setitem_def
      vector_norm_def)
qed


section \<open>Frame properties of the step\<close>

subsection \<open>Writing back\<close>

lemma store_data_other: "p \<notin> fst ` set zs \<Longrightarrow> store_data zs ts p = ts p"
  by (induction zs arbitrary: ts) auto

lemma store_data_grad: "grad (store_data zs ts q) = grad (ts q)"
  by (induction zs arbitrary: ts) auto

lemma store_data_requires_grad: "requires_grad (store_data zs ts q) = requires_grad (ts q)"
proof (induction zs arbitrary: ts)
  case Nil
  show ?case by simp
next
  case (Cons z zs)
  obtain p v where z: "z = (p, v)" by (cases z)
  show ?case unfolding z store_data.simps Cons.IH by simp
qed

lemma store_buffers_other: "p \<notin> fst ` set zs \<Longrightarrow> store_buffers zs st p = st p"
  by (induction zs arbitrary: st) auto

lemma store_moments_other: "p \<notin> set ps \<Longrightarrow> store_moments a ps i acc st p = st p"
proof (induction ps arbitrary: i st)
  case Nil
  then show ?case by simp
next
  case (Cons q ps)
  obtain xs ys zs ms where acc: "acc = (xs, ys, zs, ms)" by (cases acc)
  from Cons show ?case by (auto simp: acc split: option.splits)
qed

lemma store_data_zip_other: "p \<notin> set xs \<Longrightarrow> store_data (zip xs ys) ts p = ts p"
  by (rule store_data_other) (auto dest: set_zip_leftD)

lemma store_buffers_zip_other: "p \<notin> set xs \<Longrightarrow> store_buffers (zip xs ys) st p = st p"
  by (rule store_buffers_other) (auto dest: set_zip_leftD)

subsection \<open>The momentum-SGD variant\<close>

lemma sgd_collect_skip:
  "sgd_collect ts ps st = sgd_collect ts (filter (\<lambda>p. grad (ts p) \<noteq> None) ps) st"
  by (induction ps arbitrary: st) (auto simp: Let_def split: option.splits)

lemma sgd_collect_frame:
  "sgd_collect ts ps st = ((pw, ds, bs), st1) \<Longrightarrow>
   set pw \<subseteq> {p \<in> set ps. grad (ts p) \<noteq> None} \<and> (\<forall>q. q \<notin> set pw \<longrightarrow> st1 q = st q)"
proof (induction ps arbitrary: st pw ds bs st1)
  case Nil
  then show ?case by simp
next
  case (Cons p ps)
  show ?case
  proof (cases "grad (ts p)")
    case None
    with Cons.IH [of st pw ds bs st1] Cons.prems show ?thesis by auto
  next
    case (Some g)
    obtain pw' ds' bs' st' where r:
      "sgd_collect ts ps (st(p \<mapsto> sgd_state_of st p)) = ((pw', ds', bs'), st')"
      by (cases "sgd_collect ts ps (st(p \<mapsto> sgd_state_of st p))") auto
    with Cons.prems Some have pw: "pw = p # pw'" and st1: "st1 = st'"
      by (auto simp: Let_def)
    from Cons.IH [OF r]
    have "set pw' \<subseteq> {p \<in> set ps. grad (ts p) \<noteq> None}
       \<and> (\<forall>q. q \<notin> set pw' \<longrightarrow> st' q = (st(p \<mapsto> sgd_state_of st p)) q)" .
    with pw st1 Some show ?thesis by auto
  qed
qed

lemma sgd_group_step_unfold:
  assumes "initial_lr g = Some i"
    and "sgd_collect (tensors opt) (params g) (state opt) = ((pw, ds, bs), st1)"
    and "sgdw (map (\<lambda>p. data (tensors opt p)) pw) ds bs (weight_decay g) (momentum g) (lr g) i
           (dampening g) (nesterov g) = (err, ps1, bufs1)"
  shows "sgd_group_step g opt =
           (err, opt\<lparr>state := (case err of None \<Rightarrow> store_buffers (zip pw bufs1) st1
                                   | Some e \<Rightarrow> st1),
                     tensors := store_data (zip pw ps1) (tensors opt)\<rparr>)"
  using assms by (cases err) (simp_all add: sgd_group_step_def)

lemma sgd_group_step_frame:
  assumes "grad (tensors opt p) = None"
  shows "tensors (snd (sgd_group_step g opt)) p = tensors opt p
       \<and> state (snd (sgd_group_step g opt)) p = state opt p"
proof (cases "initial_lr g")
  case None
  then show ?thesis by (simp add: sgd_group_step_def)
next
  case (Some i)
  obtain pw ds bs st1 where c:
    "sgd_collect (tensors opt) (params g) (state opt) = ((pw, ds, bs), st1)"
    by (cases "sgd_collect (tensors opt) (params g) (state opt)") auto
  obtain err ps1 bufs1 where s:
    "sgdw (map (\<lambda>p. data (tensors opt p)) pw) ds bs (weight_decay g) (momentum g) (lr g) i
           (dampening g) (nesterov g) = (err, ps1, bufs1)"
    by (rule prod_cases3)
  from sgd_collect_frame [OF c] assms have p: "p \<notin> set pw" and st: "st1 p = state opt p"
    by auto
  show ?thesis
    by (cases err)
      (simp_all add: sgd_group_step_unfold [OF Some c s] store_data_zip_other
        store_buffers_zip_other p st)
qed

lemma sgd_group_step_grad:
  "grad (tensors (snd (sgd_group_step g opt)) q) = grad (tensors opt q)"
proof (cases "initial_lr g")
  case None
  then show ?thesis by (simp add: sgd_group_step_def)
next
  case (Some i)
  obtain pw ds bs st1 where c:
    "sgd_collect (tensors opt) (params g) (state opt) = ((pw, ds, bs), st1)"
    by (cases "sgd_collect (tensors opt) (params g) (state opt)") auto
  obtain err ps1 bufs1 where s:
    "sgdw (map (\<lambda>p. data (tensors opt p)) pw) ds bs (weight_decay g) (momentum g) (lr g) i
           (dampening g) (nesterov g) = (err, ps1, bufs1)"
    by (rule prod_cases3)
  show ?thesis by (simp add: sgd_group_step_unfold [OF Some c s] store_data_grad)
qed

lemma sgd_groups_step_frame:
  "grad (tensors opt p) = None \<Longrightarrow>
   tensors (snd (sgd_groups_step gs opt)) p = tensors opt p
   \<and> state (snd (sgd_groups_step gs opt)) p = state opt p"
proof (induction gs arbitrary: opt)
  case Nil
  then show ?case by simp
next
  case (Cons g gs)
  obtain e opt1 where s: "sgd_group_step g opt = (e, opt1)" by (cases "sgd_group_step g opt")
  from sgd_group_step_frame [OF Cons.prems, of g] s
  have f: "tensors opt1 p = tensors opt p" "state opt1 p = state opt p" by simp_all
  show ?case
  proof (cases e)
    case None
    from f Cons.prems have "grad (tensors opt1 p) = None" by simp
    from Cons.IH [OF this] f s None show ?thesis by simp
  next
    case (Some a)
    with s f show ?thesis by simp
  qed
qed

lemma DecoupledSGDW_step_frame:
  assumes "run_closure closure opt = (loss, opt1)" and "grad (tensors opt1 p) = None"
  shows "tensors (snd (DecoupledSGDW_step closure opt)) p = tensors opt1 p
       \<and> state (snd (DecoupledSGDW_step closure opt)) p = state opt1 p"
  using sgd_groups_step_frame [OF assms(2), of "param_groups opt1"] assms(1)
  by (cases "sgd_groups_step (param_groups opt1) opt1")
    (simp add: DecoupledSGDW_step_def split: option.splits)

subsection \<open>The Adam variant\<close>

lemma adam_collect_skip:
  "adam_collect a ts ps st
   = adam_collect a ts (filter (\<lambda>p. grad (ts p) \<noteq> None \<and> requires_grad (ts p)) ps) st"
  by (induction ps arbitrary: st) (auto simp: Let_def split: option.splits prod.splits sum.splits)

lemma adam_collect_state_frame:
  "q \<notin> set ps \<or> grad (ts q) = None \<or> \<not> requires_grad (ts q) \<Longrightarrow>
   snd (adam_collect a ts ps st) q = st q"
proof (induction ps arbitrary: st)
  case Nil
  then show ?case by simp
next
  case (Cons p ps)
  from Cons.prems have q: "q \<notin> set ps \<or> grad (ts q) = None \<or> \<not> requires_grad (ts q)"
    by auto
  note ih = Cons.IH [OF q]
  show ?case
  proof (cases "grad (ts p) = None \<or> \<not> requires_grad (ts p)")
    case True
    then show ?thesis using ih by (auto split: option.splits)
  next
    case False
    with Cons.prems have ne: "q \<noteq> p" by auto
    from False obtain g where g: "grad (ts p) = Some g" and r: "requires_grad (ts p)" by auto
    let ?s = "adam_state_of a st (data (ts p)) p"
    show ?thesis
    proof (cases "is_sparse g \<or> (a \<and> max_exp_avg_sq ?s = None)")
      case True
      with g r ne show ?thesis by (auto simp: Let_def)
    next
      case False
      let ?st = "st(p \<mapsto> ?s\<lparr>step := step ?s + 1\<rparr>)"
      obtain res st' where rec: "adam_collect a ts ps ?st = (res, st')"
        by (cases "adam_collect a ts ps ?st")
      have "snd (adam_collect a ts ps ?st) q = ?st q" by (rule ih)
      then have "st' q = ?st q" unfolding rec snd_conv .
      with ne have "st' q = st q" by simp
      with g r False rec ne show ?thesis
        by (cases res) (simp_all add: Let_def split: prod.splits)
    qed
  qed
qed

lemma adam_collect_list_frame:
  "adam_collect a ts ps st = (Inr (pw, gs, eas, eass, ms, steps), st1) \<Longrightarrow>
   set pw \<subseteq> {p \<in> set ps. grad (ts p) \<noteq> None \<and> requires_grad (ts p)}"
proof (induction ps arbitrary: st pw gs eas eass ms steps st1)
  case Nil
  then show ?case by simp
next
  case (Cons p ps)
  show ?case
  proof (cases "grad (ts p) = None \<or> \<not> requires_grad (ts p)")
    case True
    with Cons.prems have "adam_collect a ts ps st = (Inr (pw, gs, eas, eass, ms, steps), st1)"
      by (auto split: option.splits)
    from Cons.IH [OF this] show ?thesis by auto
  next
    case False
    then obtain g where g: "grad (ts p) = Some g" and r: "requires_grad (ts p)" by auto
    let ?s = "adam_state_of a st (data (ts p)) p"
    let ?st = "st(p \<mapsto> ?s\<lparr>step := step ?s + 1\<rparr>)"
    from Cons.prems g r obtain pw' gs' eas' eass' ms' steps' where
      rec: "adam_collect a ts ps ?st = (Inr (pw', gs', eas', eass', ms', steps'), st1)"
      and pw: "pw = p # pw'"
      by (auto simp: Let_def split: if_splits prod.splits sum.splits)
    from Cons.IH [OF rec] pw g r show ?thesis by auto
  qed
qed

lemma adam_group_step_raise:
  assumes "adam_collect (amsgrad (param_groups opt ! n)) (tensors opt)
             (params (param_groups opt ! n)) (state opt) = (Inl e, st1)"
  shows "fst (adam_group_step n opt) = Some e
       \<and> tensors (snd (adam_group_step n opt)) = tensors opt
       \<and> state (snd (adam_group_step n opt)) = st1"
  using assms by (simp add: adam_group_step_def Let_def split: prod.splits)

lemma adam_group_step_update:
  assumes "adam_collect (amsgrad (param_groups opt ! n)) (tensors opt)
             (params (param_groups opt ! n)) (state opt)
           = (Inr (pw, gs, eas, eass, ms, steps), st1)"
  shows "\<exists>acc ps1.
           state (snd (adam_group_step n opt))
           = store_moments (amsgrad (param_groups opt ! n)) pw 0 acc st1
         \<and> tensors (snd (adam_group_step n opt)) = store_data (zip pw ps1) (tensors opt)"
  using assms by (auto simp: adam_group_step_def Let_def split: prod.splits)

lemma adam_group_step_frame:
  assumes "grad (tensors opt p) = None \<or> \<not> requires_grad (tensors opt p)"
  shows "tensors (snd (adam_group_step n opt)) p = tensors opt p
       \<and> state (snd (adam_group_step n opt)) p = state opt p"
proof -
  let ?g = "param_groups opt ! n"
  let ?c = "adam_collect (amsgrad ?g) (tensors opt) (params ?g) (state opt)"
  obtain res st1 where c: "?c = (res, st1)" by (cases ?c)
  have "snd ?c p = state opt p"
    using assms by (intro adam_collect_state_frame) simp
  with c have st1: "st1 p = state opt p" by simp
  show ?thesis
  proof (cases res)
    case (Inl e)
    with c adam_group_step_raise [of opt n e st1] st1 show ?thesis by simp
  next
    case (Inr lists)
    obtain pw gs eas eass ms steps where l: "lists = (pw, gs, eas, eass, ms, steps)"
      by (cases lists)
    from c Inr l have c': "?c = (Inr (pw, gs, eas, eass, ms, steps), st1)" by simp
    from adam_collect_list_frame [OF c'] assms have p: "p \<notin> set pw" by auto
    from adam_group_step_update [OF c'] p st1 show ?thesis
      by (auto simp: store_moments_other store_data_zip_other)
  qed
qed

lemma adam_group_step_flags:
  "grad (tensors (snd (adam_group_step n opt)) q) = grad (tensors opt q)
   \<and> requires_grad (tensors (snd (adam_group_step n opt)) q) = requires_grad (tensors opt q)"
proof -
  let ?g = "param_groups opt ! n"
  let ?c = "adam_collect (amsgrad ?g) (tensors opt) (params ?g) (state opt)"
  obtain res st1 where c: "?c = (res, st1)" by (cases ?c)
  show ?thesis
  proof (cases res)
    case (Inl e)
    with c adam_group_step_raise [of opt n e st1] show ?thesis by simp
  next
    case (Inr lists)
    obtain pw gs eas eass ms steps where l: "lists = (pw, gs, eas, eass, ms, steps)"
      by (cases lists)
    from c Inr l have c': "?c = (Inr (pw, gs, eas, eass, ms, steps), st1)" by simp
    from adam_group_step_update [OF c'] show ?thesis
      by (auto simp: store_data_grad store_data_requires_grad)
  qed
qed

lemma adam_groups_step_frame:
  "grad (tensors opt p) = None \<or> \<not> requires_grad (tensors opt p) \<Longrightarrow>
   tensors (snd (adam_groups_step ns opt)) p = tensors opt p
   \<and> state (snd (adam_groups_step ns opt)) p = state opt p"
proof (induction ns arbitrary: opt)
  case Nil
  then show ?case by simp
next
  case (Cons n ns)
  obtain e opt1 where s: "adam_group_step n opt = (e, opt1)" by (cases "adam_group_step n opt")
  from adam_group_step_frame [OF Cons.prems, of n] s
  have f: "tensors opt1 p = tensors opt p" "state opt1 p = state opt p" by simp_all
  show ?case
  proof (cases e)
    case None
    from f Cons.prems have "grad (tensors opt1 p) = None \<or> \<not> requires_grad (tensors opt1 p)"
      by simp
    from Cons.IH [OF this] f s None show ?thesis by simp
  next
    case (Some a)
    with s f show ?thesis by simp
  qed
qed

lemma DecoupledAdamW_step_frame:
  assumes "run_closure closure opt = (loss, opt1)"
    and "grad (tensors opt1 p) = None \<or> \<not> requires_grad (tensors opt1 p)"
  shows "tensors (snd (DecoupledAdamW_step closure opt)) p = tensors opt1 p
       \<and> state (snd (DecoupledAdamW_step closure opt)) p = state opt1 p"
  using adam_groups_step_frame [OF assms(2), of "[0..<length (param_groups opt1)]"] assms(1)
  by (cases "adam_groups_step [0..<length (param_groups opt1)] opt1")
    (simp add: DecoupledAdamW_step_def split: option.splits)

subsection \<open>A step that skips every parameter\<close>

lemma sgdw_nil: "sgdw [] [] [] wd mom l il damp nest = (None, [], [])"
  by (simp add: sgdw_def)

lemma adamw_nil: "adamw [] [] [] [] [] [] a b1 b2 l il wd e = (None, [], [], [], [])"
  by (simp add: adamw_def)

lemma sgd_collect_all_skipped:
  "\<forall>p \<in> set ps. grad (ts p) = None \<Longrightarrow> sgd_collect ts ps st = (([], [], []), st)"
  by (induction ps) auto

lemma adam_collect_all_skipped:
  "\<forall>p \<in> set ps. grad (ts p) = None \<or> \<not> requires_grad (ts p) \<Longrightarrow>
   adam_collect a ts ps st = (Inr ([], [], [], [], [], []), st)"
  by (induction ps) (auto split: option.splits)

lemma sgd_group_step_all_skipped:
  assumes "\<forall>p \<in> set (params g). grad (tensors opt p) = None" and "initial_lr g \<noteq> None"
  shows "sgd_group_step g opt = (None, opt)"
  using assms by (auto simp: sgd_group_step_def sgd_collect_all_skipped sgdw_nil)

lemma sgd_groups_step_all_skipped:
  assumes "\<forall>g \<in> set gs. initial_lr g \<noteq> None \<and> (\<forall>p \<in> set (params g). grad (tensors opt p) = None)"
  shows "sgd_groups_step gs opt = (None, opt)"
  using assms by (induction gs) (simp_all add: sgd_group_step_all_skipped)

lemma map_update_same: "(map f xs)[n := f (xs ! n)] = map f xs"
  by (metis list_update_id map_update)

lemma adam_group_step_all_skipped:
  assumes "\<forall>p \<in> set (params (param_groups opt ! n)).
             grad (tensors opt p) = None \<or> \<not> requires_grad (tensors opt p)"
  shows "fst (adam_group_step n opt) = None
       \<and> tensors (snd (adam_group_step n opt)) = tensors opt
       \<and> state (snd (adam_group_step n opt)) = state opt
       \<and> map params (param_groups (snd (adam_group_step n opt))) = map params (param_groups opt)"
  using assms
  by (simp add: adam_group_step_def Let_def adam_collect_all_skipped adamw_nil map_update
      map_update_same split: prod.splits)

lemma adam_groups_step_all_skipped:
  assumes "\<forall>ps \<in> set (map params (param_groups opt)). \<forall>p \<in> set ps.
             grad (tensors opt p) = None \<or> \<not> requires_grad (tensors opt p)"
    and "\<forall>n \<in> set ns. n < length (param_groups opt)"
  shows "fst (adam_groups_step ns opt) = None
       \<and> tensors (snd (adam_groups_step ns opt)) = tensors opt
       \<and> state (snd (adam_groups_step ns opt)) = state opt"
  using assms
proof (induction ns arbitrary: opt)
  case Nil
  then show ?case by simp
next
  case (Cons n ns)
  obtain e opt1 where s: "adam_group_step n opt = (e, opt1)" by (cases "adam_group_step n opt")
  from Cons.prems have n: "n < length (param_groups opt)" by simp
  then have "params (param_groups opt ! n) \<in> set (map params (param_groups opt))"
    by (metis length_map nth_map nth_mem)
  with Cons.prems(1)
  have "\<forall>p \<in> set (params (param_groups opt ! n)).
          grad (tensors opt p) = None \<or> \<not> requires_grad (tensors opt p)"
    by blast
  from adam_group_step_all_skipped [OF this] s
  have e: "e = None" and t: "tensors opt1 = tensors opt" and st: "state opt1 = state opt"
    and ps: "map params (param_groups opt1) = map params (param_groups opt)"
    by simp_all
  from ps have len: "length (param_groups opt1) = length (param_groups opt)"
    by (metis length_map)
  have "fst (adam_groups_step ns opt1) = None
       \<and> tensors (snd (adam_groups_step ns opt1)) = tensors opt1
       \<and> state (snd (adam_groups_step ns opt1)) = state opt1"
    using Cons.prems by (intro Cons.IH) (simp_all add: ps t len)
  with s e t st show ?case by simp
qed

lemma run_closure_None: "run_closure None opt = (None, opt)"
  by (simp add: run_closure_def)

lemma DecoupledSGDW_step_all_skipped:
  assumes "\<forall>g \<in> set (param_groups opt).
             initial_lr g \<noteq> None \<and> (\<forall>p \<in> set (params g). grad (tensors opt p) = None)"
  shows "DecoupledSGDW_step None opt = (Inr None, opt)"
  using assms
  by (simp add: DecoupledSGDW_step_def run_closure_None sgd_groups_step_all_skipped)

lemma DecoupledAdamW_step_all_skipped:
  assumes "\<forall>g \<in> set (param_groups opt). \<forall>p \<in> set (params g).
             grad (tensors opt p) = None \<or> \<not> requires_grad (tensors opt p)"
  shows "fst (DecoupledAdamW_step None opt) = Inr None"
proof -
  let ?r = "adam_groups_step [0..<length (param_groups opt)] opt"
  from assms have "fst ?r = None"
    by (intro adam_groups_step_all_skipped [THEN conjunct1]) auto
  then show ?thesis
    by (cases ?r) (simp add: DecoupledAdamW_step_def run_closure_None)
qed

lemma sgd_step_example:
  "DecoupledSGDW_step None
     \<lparr>param_groups =
        [\<lparr>params = [0, 1], lr = 1, weight_decay = 0, initial_lr = Some 1,
          momentum = 0, dampening = 0, nesterov = False\<rparr>],
      state = Map.empty,
      tensors = (\<lambda>_. \<lparr>data = [5], grad = None, requires_grad = True\<rparr>)
                  (0 := \<lparr>data = [2], grad = Some (Dense [1]), requires_grad = True\<rparr>)\<rparr>
   = (Inr None,
      \<lparr>param_groups =
        [\<lparr>params = [0, 1], lr = 1, weight_decay = 0, initial_lr = Some 1,
          momentum = 0, dampening = 0, nesterov = False\<rparr>],
      state = [0 \<mapsto> \<lparr>momentum_buffer = Some None\<rparr>],
      tensors = (\<lambda>_. \<lparr>data = [5], grad = None, requires_grad = True\<rparr>)
                  (0 := \<lparr>data = [1], grad = Some (Dense [1]), requires_grad = True\<rparr>)\<rparr>)"
  by (simp add: DecoupledSGDW_step_def run_closure_def sgd_group_step_def sgd_state_of_def
      sgdw_def sgdw_entry_def tensor_add_def Let_def)

lemma adam_step_skip_example:
  "DecoupledAdamW_step None
     \<lparr>param_groups =
        [\<lparr>params = [0, 1], lr = 1, weight_decay = 1 / 2, initial_lr = Some 1,
          betas = (1 / 2, 3 / 4), eps = 1, amsgrad = False\<rparr>],
      state = Map.empty,
      tensors = (\<lambda>_. \<lparr>data = [5], grad = Some (Sparse [1]), requires_grad = False\<rparr>)
                  (0 := \<lparr>data = [2], grad = Some (Dense [1]), requires_grad = True\<rparr>)\<rparr>
   = (Inr None,
      \<lparr>param_groups =
        [\<lparr>params = [0, 1], lr = 1, weight_decay = 1 / 2, initial_lr = Some 1,
          betas = (1 / 2, 3 / 4), eps = 1, amsgrad = False\<rparr>],
      state = [0 \<mapsto> \<lparr>step = 1, exp_avg = [1 / 2], exp_avg_sq = [1 / 4], max_exp_avg_sq = None\<rparr>],
      tensors = (\<lambda>_. \<lparr>data = [5], grad = Some (Sparse [1]), requires_grad = False\<rparr>)
                  (0 := \<lparr>data = [1 / 2], grad = Some (Dense [1]), requires_grad = True\<rparr>)\<rparr>)"
  by (simp add: DecoupledAdamW_step_def run_closure_def adam_group_step_def adam_state_of_def
      zeros_like_def adamw_def adamw_entry_def adamw_finish_def math_sqrt_def decay_factor_def
      tensor_mul_def tensor_add_def tensor_addcmul_def tensor_sqrt_def tensor_div_scalar_def
      tensor_add_scalar_def tensor_addcdiv_def real_sqrt_divide Let_def)

text \<open>
  Claim C8, as it stands, fails. The closure of a step call runs before the parameters
  are visited, and it usually computes the gradients: a parameter that has no gradient
  at the time of the call and receives one from the closure is updated. Parameter \<open>1\<close> of
  \<open>sgd_example\<close> has no gradient and no state; under a closure that gives it the
  gradient \<open>[1]\<close>, the step moves it from \<open>[5]\<close> to \<open>[4]\<close> and creates its state.
\<close>

theorem gradient_from_closure_is_applied:
  "grad (tensors sgd_example 1) = None
   \<and> data (tensors sgd_example 1) = [5]
   \<and> state sgd_example 1 = None
   \<and> fst (DecoupledSGDW_step (Some gradient_closure) sgd_example) = Inr (Some 0)
   \<and> data (tensors (snd (DecoupledSGDW_step (Some gradient_closure) sgd_example)) 1) = [4]
   \<and> state (snd (DecoupledSGDW_step (Some gradient_closure) sgd_example)) 1
     = Some \<lparr>momentum_buffer = Some None\<rparr>"
  by (simp add: sgd_example_def gradient_closure_def DecoupledSGDW_step_def run_closure_def
      sgd_group_step_def sgd_state_of_def sgdw_def sgdw_entry_def tensor_add_def Let_def)

text \<open>
  Claim C8, amended. A parameter that has no gradient once the closure, if any, has run
  (for the Adam variant also: one that then does not require gradients) keeps through
  the step the value and the optimizer state that the closure has left, whether the step
  returns or raises; without a closure these are its value and state at the time of the
  call. The skip is silent: the loop over a group behaves as on the group without the
  skipped parameters, and a step that skips every parameter returns without an error.
\<close>

theorem parameters_without_gradient_are_skipped:
  "(grad (tensors sopt p) = None \<longrightarrow>
      tensors (snd (DecoupledSGDW_step None sopt)) p = tensors sopt p
      \<and> state (snd (DecoupledSGDW_step None sopt)) p = state sopt p)
   \<and> (grad (tensors aopt p) = None \<or> \<not> requires_grad (tensors aopt p) \<longrightarrow>
      tensors (snd (DecoupledAdamW_step None aopt)) p = tensors aopt p
      \<and> state (snd (DecoupledAdamW_step None aopt)) p = state aopt p)
   \<and> (run_closure sclosure sopt = (sloss, sopt1) \<and> grad (tensors sopt1 p) = None \<longrightarrow>
      tensors (snd (DecoupledSGDW_step sclosure sopt)) p = tensors sopt1 p
      \<and> state (snd (DecoupledSGDW_step sclosure sopt)) p = state sopt1 p)
   \<and> (run_closure aclosure aopt = (aloss, aopt1)
      \<and> (grad (tensors aopt1 p) = None \<or> \<not> requires_grad (tensors aopt1 p)) \<longrightarrow>
      tensors (snd (DecoupledAdamW_step aclosure aopt)) p = tensors aopt1 p
      \<and> state (snd (DecoupledAdamW_step aclosure aopt)) p = state aopt1 p)
   \<and> sgd_collect ts ps sst = sgd_collect ts (filter (\<lambda>p. grad (ts p) \<noteq> None) ps) sst
   \<and> adam_collect a ts ps ast
     = adam_collect a ts (filter (\<lambda>p. grad (ts p) \<noteq> None \<and> requires_grad (ts p)) ps) ast
   \<and> ((\<forall>g \<in> set (param_groups sopt).
          initial_lr g \<noteq> None \<and> (\<forall>p \<in> set (params g). grad (tensors sopt p) = None)) \<longrightarrow>
      DecoupledSGDW_step None sopt = (Inr None, sopt))
   \<and> ((\<forall>g \<in> set (param_groups aopt). \<forall>p \<in> set (params g).
          grad (tensors aopt p) = None \<or> \<not> requires_grad (tensors aopt p)) \<longrightarrow>
      fst (DecoupledAdamW_step None aopt) = Inr None)"
proof (intro conjI impI)
  assume "grad (tensors sopt p) = None"
  with DecoupledSGDW_step_frame [OF run_closure_None, of sopt p]
  show "tensors (snd (DecoupledSGDW_step None sopt)) p = tensors sopt p"
    and "state (snd (DecoupledSGDW_step None sopt)) p = state sopt p" by simp_all
next
  assume "grad (tensors aopt p) = None \<or> \<not> requires_grad (tensors aopt p)"
  with DecoupledAdamW_step_frame [OF run_closure_None, of aopt p]
  show "tensors (snd (DecoupledAdamW_step None aopt)) p = tensors aopt p"
    and "state (snd (DecoupledAdamW_step None aopt)) p = state aopt p" by simp_all
next
  assume "run_closure sclosure sopt = (sloss, sopt1) \<and> grad (tensors sopt1 p) = None"
  with DecoupledSGDW_step_frame [of sclosure sopt sloss sopt1 p]
  show "tensors (snd (DecoupledSGDW_step sclosure sopt)) p = tensors sopt1 p"
    and "state (snd (DecoupledSGDW_step sclosure sopt)) p = state sopt1 p" by simp_all
next
  assume "run_closure aclosure aopt = (aloss, aopt1)
      \<and> (grad (tensors aopt1 p) = None \<or> \<not> requires_grad (tensors aopt1 p))"
  with DecoupledAdamW_step_frame [of aclosure aopt aloss aopt1 p]
  show "tensors (snd (DecoupledAdamW_step aclosure aopt)) p = tensors aopt1 p"
    and "state (snd (DecoupledAdamW_step aclosure aopt)) p = state aopt1 p" by simp_all
next
  show "sgd_collect ts ps sst = sgd_collect ts (filter (\<lambda>p. grad (ts p) \<noteq> None) ps) sst"
    by (rule sgd_collect_skip)
next
  show "adam_collect a ts ps ast
     = adam_collect a ts (filter (\<lambda>p. grad (ts p) \<noteq> None \<and> requires_grad (ts p)) ps) ast"
    by (rule adam_collect_skip)
next
  assume "\<forall>g \<in> set (param_groups sopt).
          initial_lr g \<noteq> None \<and> (\<forall>p \<in> set (params g). grad (tensors sopt p) = None)"
  then show "DecoupledSGDW_step None sopt = (Inr None, sopt)"
    by (rule DecoupledSGDW_step_all_skipped)
next
  assume "\<forall>g \<in> set (param_groups aopt). \<forall>p \<in> set (params g).
          grad (tensors aopt p) = None \<or> \<not> requires_grad (tensors aopt p)"
  then show "fst (DecoupledAdamW_step None aopt) = Inr None"
    by (rule DecoupledAdamW_step_all_skipped)
qed

theorem parameters_without_gradient_are_skipped_witness:
  "(let sopt =
         \<lparr>param_groups =
            [\<lparr>params = [0, 1], lr = 1, weight_decay = 0, initial_lr = Some 1,
              momentum = 0, dampening = 0, nesterov = False\<rparr>],
          state = Map.empty,
          tensors = (\<lambda>_. \<lparr>data = [5], grad = None, requires_grad = True\<rparr>)
                      (0 := \<lparr>data = [2], grad = Some (Dense [1]), requires_grad = True\<rparr>)\<rparr>;
        aopt =
         \<lparr>param_groups =
            [\<lparr>params = [0, 1], lr = 1, weight_decay = 1 / 2, initial_lr = Some 1,
              betas = (1 / 2, 3 / 4), eps = 1, amsgrad = False\<rparr>],
          state = Map.empty,
          tensors = (\<lambda>_. \<lparr>data = [5], grad = Some (Sparse [1]), requires_grad = False\<rparr>)
                      (0 := \<lparr>data = [2], grad = Some (Dense [1]), requires_grad = True\<rparr>)\<rparr>
    in grad (tensors sopt 1) = None
     \<and> tensors (snd (DecoupledSGDW_step None sopt)) 1 = tensors sopt 1
     \<and> state (snd (DecoupledSGDW_step None sopt)) 1 = state sopt 1
     \<and> data (tensors (snd (DecoupledSGDW_step None sopt)) 0) = [1]
     \<and> fst (DecoupledSGDW_step None sopt) = Inr None
     \<and> \<not> requires_grad (tensors aopt 1)
     \<and> tensors (snd (DecoupledAdamW_step None aopt)) 1 = tensors aopt 1
     \<and> state (snd (DecoupledAdamW_step None aopt)) 1 = state aopt 1
     \<and> data (tensors (snd (DecoupledAdamW_step None aopt)) 0) = [1 / 2]
     \<and> fst (DecoupledAdamW_step None aopt) = Inr None)
   \<and> run_closure (Some gradient_closure) sgd_example
     = (Some 0, snd (gradient_closure sgd_example))
   \<and> grad (tensors (snd (gradient_closure sgd_example)) 2) = None
   \<and> tensors (snd (DecoupledSGDW_step (Some gradient_closure) sgd_example)) 2
     = tensors sgd_example 2
   \<and> state (snd (DecoupledSGDW_step (Some gradient_closure) sgd_example)) 2
     = state sgd_example 2"
proof -
  let ?sopt = "\<lparr>param_groups =
            [\<lparr>params = [0, 1], lr = 1, weight_decay = 0, initial_lr = Some 1,
              momentum = 0, dampening = 0, nesterov = False\<rparr>],
          state = Map.empty,
          tensors = (\<lambda>_. \<lparr>data = [5], grad = None, requires_grad = True\<rparr>)
                      (0 := \<lparr>data = [2], grad = Some (Dense [1]), requires_grad = True\<rparr>)\<rparr>"
  let ?aopt = "\<lparr>param_groups =
            [\<lparr>params = [0, 1], lr = 1, weight_decay = 1 / 2, initial_lr = Some 1,
              betas = (1 / 2, 3 / 4), eps = 1, amsgrad = False\<rparr>],
          state = Map.empty,
          tensors = (\<lambda>_. \<lparr>data = [5], grad = Some (Sparse [1]), requires_grad = False\<rparr>)
                      (0 := \<lparr>data = [2], grad = Some (Dense [1]), requires_grad = True\<rparr>)\<rparr>"
  have s: "grad (tensors ?sopt 1) = None"
    and a: "grad (tensors ?aopt 1) = None \<or> \<not> requires_grad (tensors ?aopt 1)"
    by simp_all
  note skipped = parameters_without_gradient_are_skipped
    [where sopt = ?sopt and aopt = ?aopt and p = 1]
  from skipped [THEN conjunct1, rule_format, OF s]
  have "tensors (snd (DecoupledSGDW_step None ?sopt)) 1 = tensors ?sopt 1"
    and "state (snd (DecoupledSGDW_step None ?sopt)) 1 = state ?sopt 1"
    by simp_all
  moreover from skipped [THEN conjunct2, THEN conjunct1, rule_format, OF a]
  have "tensors (snd (DecoupledAdamW_step None ?aopt)) 1 = tensors ?aopt 1"
    and "state (snd (DecoupledAdamW_step None ?aopt)) 1 = state ?aopt 1"
    by simp_all
  moreover have "data (tensors (snd (DecoupledSGDW_step None ?sopt)) 0) = [1]"
    and "fst (DecoupledSGDW_step None ?sopt) = Inr None"
    and "data (tensors (snd (DecoupledAdamW_step None ?aopt)) 0) = [1 / 2]"
    and "fst (DecoupledAdamW_step None ?aopt) = Inr None"
    by (simp_all only: sgd_step_example adam_step_skip_example)
      simp_all
  ultimately have first: "(let sopt = ?sopt; aopt = ?aopt
    in grad (tensors sopt 1) = None
     \<and> tensors (snd (DecoupledSGDW_step None sopt)) 1 = tensors sopt 1
     \<and> state (snd (DecoupledSGDW_step None sopt)) 1 = state sopt 1
     \<and> data (tensors (snd (DecoupledSGDW_step None sopt)) 0) = [1]
     \<and> fst (DecoupledSGDW_step None sopt) = Inr None
     \<and> \<not> requires_grad (tensors aopt 1)
     \<and> tensors (snd (DecoupledAdamW_step None aopt)) 1 = tensors aopt 1
     \<and> state (snd (DecoupledAdamW_step None aopt)) 1 = state aopt 1
     \<and> data (tensors (snd (DecoupledAdamW_step None aopt)) 0) = [1 / 2]
     \<and> fst (DecoupledAdamW_step None aopt) = Inr None)"
    unfolding Let_def using s by (intro conjI) simp_all
  have c: "run_closure (Some gradient_closure) sgd_example
      = (Some 0, snd (gradient_closure sgd_example))"
    and g: "grad (tensors (snd (gradient_closure sgd_example)) 2) = None"
    and same: "tensors (snd (gradient_closure sgd_example)) 2 = tensors sgd_example 2"
      "state (snd (gradient_closure sgd_example)) = state sgd_example"
    by (simp_all add: run_closure_def gradient_closure_def sgd_example_def)
  note closure = parameters_without_gradient_are_skipped
    [where sclosure = "Some gradient_closure" and sopt = sgd_example and sloss = "Some 0"
      and ?sopt1.0 = "snd (gradient_closure sgd_example)" and p = 2]
  from closure [THEN conjunct2, THEN conjunct2, THEN conjunct1, rule_format, OF conjI, OF c g]
  have "tensors (snd (DecoupledSGDW_step (Some gradient_closure) sgd_example)) 2
      = tensors sgd_example 2"
    and "state (snd (DecoupledSGDW_step (Some gradient_closure) sgd_example)) 2
      = state sgd_example 2"
    by (simp_all only: same)
  with first c g show ?thesis by (intro conjI)
qed

section \<open>The momentum buffer\<close>

lemma sgdw_loop_no_momentum:
  "snd (snd (sgdw_loop wd 0 l il damp nest ds ns (ps, bufs))) = bufs"
  by (induction ns arbitrary: ps) (auto simp: Let_def split: prod.splits)

lemma sgdw_no_momentum: "snd (snd (sgdw ps ds bufs wd 0 l il damp nest)) = bufs"
  by (simp add: sgdw_def sgdw_loop_no_momentum)

lemma sgd_state_of_no_buffer:
  assumes "\<forall>s. st p = Some s \<longrightarrow> momentum_buffer s = None \<or> momentum_buffer s = Some None"
  shows "momentum_buffer (sgd_state_of st p) = None
       \<or> momentum_buffer (sgd_state_of st p) = Some None"
proof (cases "st p")
  case None
  then show ?thesis by (simp add: sgd_state_of_def)
next
  case (Some s)
  with assms have "momentum_buffer s = None \<or> momentum_buffer s = Some None" by simp
  with Some show ?thesis by (simp add: sgd_state_of_def)
qed

lemma sgd_collect_Cons_grad:
  assumes "grad (ts q) = Some g"
    and "sgd_collect ts (q # ps) st = ((pw, ds, bs), st1)"
  shows "\<exists>pw' ds' bs'.
           sgd_collect ts ps (st(q \<mapsto> sgd_state_of st q)) = ((pw', ds', bs'), st1)
           \<and> pw = q # pw'
           \<and> bs = (case momentum_buffer (sgd_state_of st q) of None \<Rightarrow> None | Some b \<Rightarrow> b)
                  # bs'"
proof -
  obtain pw' ds' bs' st' where r:
    "sgd_collect ts ps (st(q \<mapsto> sgd_state_of st q)) = ((pw', ds', bs'), st')"
    by (cases "sgd_collect ts ps (st(q \<mapsto> sgd_state_of st q))") auto
  with assms show ?thesis by (simp add: Let_def)
qed

lemma sgd_collect_no_buffer_at:
  assumes "\<forall>s. st p = Some s \<longrightarrow> momentum_buffer s = None \<or> momentum_buffer s = Some None"
    and "sgd_collect ts ps st = ((pw, ds, bs), st1)"
  shows "(\<forall>s. st1 p = Some s \<longrightarrow> momentum_buffer s = None \<or> momentum_buffer s = Some None)
       \<and> length bs = length pw \<and> (\<forall>i < length pw. pw ! i = p \<longrightarrow> bs ! i = None)"
  using assms
proof (induction ps arbitrary: st pw ds bs st1)
  case Nil
  then show ?case by simp
next
  case (Cons q ps)
  show ?case
  proof (cases "grad (ts q)")
    case None
    with Cons.prems(2) have "sgd_collect ts ps st = ((pw, ds, bs), st1)" by simp
    with Cons.prems(1) show ?thesis by (rule Cons.IH [of st pw ds bs st1])
  next
    case (Some g)
    let ?s = "sgd_state_of st q"
    let ?slot = "case momentum_buffer ?s of None \<Rightarrow> None | Some b \<Rightarrow> b"
    let ?st = "st(q \<mapsto> ?s)"
    have slot: "?slot = None" if "q = p"
    proof -
      from sgd_state_of_no_buffer [of st p, OF Cons.prems(1)] that
      have "momentum_buffer ?s = None \<or> momentum_buffer ?s = Some None" by simp
      then show ?thesis by (elim disjE) simp_all
    qed
    have inv: "\<forall>s. ?st p = Some s \<longrightarrow> momentum_buffer s = None \<or> momentum_buffer s = Some None"
    proof (cases "q = p")
      case True
      from sgd_state_of_no_buffer [of st p, OF Cons.prems(1)] True
      show ?thesis by simp
    next
      case False
      then have "?st p = st p" by simp
      with Cons.prems(1) show ?thesis by (simp only:)
    qed
    from sgd_collect_Cons_grad [OF Some Cons.prems(2)]
    obtain pw' ds' bs' where rec: "sgd_collect ts ps ?st = ((pw', ds', bs'), st1)"
      and pw: "pw = q # pw'" and bs: "bs = ?slot # bs'"
      by blast
    from Cons.IH [of ?st pw' ds' bs' st1, OF inv rec]
    have ih1: "\<forall>s. st1 p = Some s \<longrightarrow> momentum_buffer s = None \<or> momentum_buffer s = Some None"
      and ih2: "length bs' = length pw'"
      and ih3: "\<forall>i < length pw'. pw' ! i = p \<longrightarrow> bs' ! i = None"
      by blast+
    have "\<forall>i < length pw. pw ! i = p \<longrightarrow> bs ! i = None"
    proof (intro allI impI)
      fix i assume i: "i < length pw" and p: "pw ! i = p"
      show "bs ! i = None"
      proof (cases i)
        case 0
        with p pw have "q = p" by simp
        from slot [OF this] 0 show ?thesis unfolding bs by simp
      next
        case (Suc j)
        with i p pw have "j < length pw'" "pw' ! j = p" by simp_all
        with ih3 have "bs' ! j = None" by blast
        with Suc show ?thesis unfolding bs by simp
      qed
    qed
    moreover from ih2 have "length bs = length pw" unfolding pw bs by simp
    ultimately show ?thesis using ih1 by blast
  qed
qed

lemma store_buffers_no_buffer_at:
  assumes "\<forall>s. st p = Some s \<longrightarrow> momentum_buffer s = None \<or> momentum_buffer s = Some None"
    and "\<forall>z \<in> set zs. fst z = p \<longrightarrow> snd z = None"
  shows "\<forall>s. store_buffers zs st p = Some s \<longrightarrow>
           momentum_buffer s = None \<or> momentum_buffer s = Some None"
  using assms
proof (induction zs arbitrary: st)
  case Nil
  then show ?case by simp
next
  case (Cons z zs)
  obtain q b where z: "z = (q, b)" by (cases z)
  let ?st = "st(q \<mapsto> (sgd_state_of st q)\<lparr>momentum_buffer := Some b\<rparr>)"
  have inv: "\<forall>s. ?st p = Some s \<longrightarrow> momentum_buffer s = None \<or> momentum_buffer s = Some None"
  proof (cases "q = p")
    case True
    with Cons.prems(2) z have "b = None" by simp
    with True show ?thesis by simp
  next
    case False
    then have "?st p = st p" by simp
    with Cons.prems(1) show ?thesis by (simp only:)
  qed
  from Cons.prems(2) have rest: "\<forall>z \<in> set zs. fst z = p \<longrightarrow> snd z = None" by simp
  have "\<forall>s. store_buffers zs ?st p = Some s \<longrightarrow>
           momentum_buffer s = None \<or> momentum_buffer s = Some None"
    using inv rest by (rule Cons.IH [of ?st])
  moreover have "store_buffers (z # zs) st = store_buffers zs ?st"
    unfolding z by (rule store_buffers.simps)
  ultimately show ?case by (simp only:)
qed

lemma zip_slots_at:
  assumes "length bs = length pw" and "\<forall>i < length pw. pw ! i = p \<longrightarrow> bs ! i = None"
  shows "\<forall>z \<in> set (zip pw bs). fst z = p \<longrightarrow> snd z = None"
proof (intro ballI impI)
  fix z assume z: "z \<in> set (zip pw bs)" and f: "fst z = p"
  from z obtain i where i: "i < length pw" "i < length bs" "z = (pw ! i, bs ! i)"
    by (auto simp: set_zip)
  with f assms(2) show "snd z = None" by simp
qed

lemma sgd_group_step_no_buffer_at:
  assumes "\<forall>s. state opt p = Some s \<longrightarrow> momentum_buffer s = None \<or> momentum_buffer s = Some None"
    and "p \<in> set (params g) \<and> grad (tensors opt p) \<noteq> None \<longrightarrow> momentum g = 0"
  shows "\<forall>s. state (snd (sgd_group_step g opt)) p = Some s \<longrightarrow>
           momentum_buffer s = None \<or> momentum_buffer s = Some None"
proof (cases "initial_lr g")
  case None
  then have "snd (sgd_group_step g opt) = opt" by (simp add: sgd_group_step_def)
  with assms(1) show ?thesis by (simp only:)
next
  case (Some i)
  obtain pw ds bs st1 where c:
    "sgd_collect (tensors opt) (params g) (state opt) = ((pw, ds, bs), st1)"
    by (cases "sgd_collect (tensors opt) (params g) (state opt)") auto
  obtain err ps1 bufs1 where s:
    "sgdw (map (\<lambda>p. data (tensors opt p)) pw) ds bs (weight_decay g) (momentum g) (lr g) i
           (dampening g) (nesterov g) = (err, ps1, bufs1)"
    by (rule prod_cases3)
  from sgd_collect_no_buffer_at [of "state opt" p "tensors opt" "params g" pw ds bs st1,
      OF assms(1) c]
  have st1: "\<forall>s. st1 p = Some s \<longrightarrow> momentum_buffer s = None \<or> momentum_buffer s = Some None"
    and len: "length bs = length pw"
    and slots: "\<forall>i < length pw. pw ! i = p \<longrightarrow> bs ! i = None"
    by blast+
  have z: "\<forall>z \<in> set (zip pw bufs1). fst z = p \<longrightarrow> snd z = None"
  proof (cases "p \<in> set pw")
    case False
    show ?thesis
    proof (intro ballI impI)
      fix z assume zin: "z \<in> set (zip pw bufs1)" and f: "fst z = p"
      obtain a b where ab: "z = (a, b)" by (cases z)
      from zin have "a \<in> set pw" unfolding ab by (rule set_zip_leftD)
      with f ab False show "snd z = None" by simp
    qed
  next
    case True
    with sgd_collect_frame [OF c] have "p \<in> set (params g)" "grad (tensors opt p) \<noteq> None"
      by blast+
    with assms(2) have "momentum g = 0" by simp
    with s sgdw_no_momentum [of "map (\<lambda>p. data (tensors opt p)) pw" ds bs
      "weight_decay g" "lr g" i "dampening g" "nesterov g"]
    have "bufs1 = bs" by simp
    with zip_slots_at [OF len slots] show ?thesis by (simp only:)
  qed
  have sb: "\<forall>s. store_buffers (zip pw bufs1) st1 p = Some s \<longrightarrow>
      momentum_buffer s = None \<or> momentum_buffer s = Some None"
    using st1 z by (rule store_buffers_no_buffer_at [of st1 p "zip pw bufs1"])
  show ?thesis
  proof (cases err)
    case None
    then have "state (snd (sgd_group_step g opt)) = store_buffers (zip pw bufs1) st1"
      by (simp add: sgd_group_step_unfold [OF Some c s])
    with sb show ?thesis by (simp only:)
  next
    case (Some e)
    then have "state (snd (sgd_group_step g opt)) = st1"
      by (simp add: sgd_group_step_unfold [OF \<open>initial_lr g = Some i\<close> c s])
    with st1 show ?thesis by (simp only:)
  qed
qed

lemma sgd_group_step_groups: "param_groups (snd (sgd_group_step g opt)) = param_groups opt"
proof (cases "initial_lr g")
  case None
  then show ?thesis by (simp add: sgd_group_step_def)
next
  case (Some i)
  obtain pw ds bs st1 where c:
    "sgd_collect (tensors opt) (params g) (state opt) = ((pw, ds, bs), st1)"
    by (cases "sgd_collect (tensors opt) (params g) (state opt)") auto
  obtain err ps1 bufs1 where s:
    "sgdw (map (\<lambda>p. data (tensors opt p)) pw) ds bs (weight_decay g) (momentum g) (lr g) i
           (dampening g) (nesterov g) = (err, ps1, bufs1)"
    by (rule prod_cases3)
  show ?thesis by (simp add: sgd_group_step_unfold [OF Some c s])
qed

lemma sgd_groups_step_groups:
  "param_groups (snd (sgd_groups_step gs opt)) = param_groups opt"
proof (induction gs arbitrary: opt)
  case Nil
  show ?case by simp
next
  case (Cons g gs)
  obtain e opt1 where s: "sgd_group_step g opt = (e, opt1)" by (cases "sgd_group_step g opt")
  from sgd_group_step_groups [of g opt] s have pg: "param_groups opt1 = param_groups opt" by simp
  show ?case
  proof (cases e)
    case None
    with Cons.IH [of opt1] s pg show ?thesis by simp
  next
    case (Some a)
    with s pg show ?thesis by simp
  qed
qed

lemma sgd_groups_step_no_buffer_at:
  assumes "\<forall>s. state opt p = Some s \<longrightarrow> momentum_buffer s = None \<or> momentum_buffer s = Some None"
    and "\<forall>g \<in> set gs. p \<in> set (params g) \<and> grad (tensors opt p) \<noteq> None \<longrightarrow> momentum g = 0"
  shows "\<forall>s. state (snd (sgd_groups_step gs opt)) p = Some s \<longrightarrow>
           momentum_buffer s = None \<or> momentum_buffer s = Some None"
  using assms
proof (induction gs arbitrary: opt)
  case Nil
  then show ?case by simp
next
  case (Cons g gs)
  obtain e opt1 where s: "sgd_group_step g opt = (e, opt1)" by (cases "sgd_group_step g opt")
  from Cons.prems(2)
  have g: "p \<in> set (params g) \<and> grad (tensors opt p) \<noteq> None \<longrightarrow> momentum g = 0" by simp
  from sgd_group_step_no_buffer_at [of opt p g, OF Cons.prems(1) g] s
  have inv: "\<forall>s. state opt1 p = Some s \<longrightarrow> momentum_buffer s = None \<or> momentum_buffer s = Some None"
    by simp
  from sgd_group_step_grad [of g opt p] s
  have "grad (tensors opt1 p) = grad (tensors opt p)" by simp
  with Cons.prems(2)
  have gs: "\<forall>g \<in> set gs. p \<in> set (params g) \<and> grad (tensors opt1 p) \<noteq> None \<longrightarrow> momentum g = 0"
    by simp
  show ?case
  proof (cases e)
    case None
    then have "snd (sgd_groups_step (g # gs) opt) = snd (sgd_groups_step gs opt1)"
      using s by simp
    with Cons.IH [of opt1, OF inv gs] show ?thesis by (simp only:)
  next
    case (Some a)
    then have "snd (sgd_groups_step (g # gs) opt) = opt1" using s by simp
    with inv show ?thesis by (simp only:)
  qed
qed

lemma DecoupledSGDW_step_snd:
  "run_closure closure opt = (loss, opt1) \<Longrightarrow>
   snd (DecoupledSGDW_step closure opt) = snd (sgd_groups_step (param_groups opt1) opt1)"
  by (cases "sgd_groups_step (param_groups opt1) opt1")
    (simp add: DecoupledSGDW_step_def split: option.splits)

lemma DecoupledSGDW_step_no_buffer_at:
  assumes "run_closure closure opt = (loss, opt1)"
    and "\<forall>s. state opt1 p = Some s \<longrightarrow> momentum_buffer s = None \<or> momentum_buffer s = Some None"
    and "\<forall>g \<in> set (param_groups opt1).
           p \<in> set (params g) \<and> grad (tensors opt1 p) \<noteq> None \<longrightarrow> momentum g = 0"
  shows "\<forall>s. state (snd (DecoupledSGDW_step closure opt)) p = Some s \<longrightarrow>
           momentum_buffer s = None \<or> momentum_buffer s = Some None"
  unfolding DecoupledSGDW_step_snd [OF assms(1)]
  using assms(2,3) by (rule sgd_groups_step_no_buffer_at [of opt1 p "param_groups opt1"])

lemma DecoupledSGDW_step_groups:
  "param_groups (snd (DecoupledSGDW_step None opt)) = param_groups opt"
proof -
  have "run_closure None opt = (None, opt)" by (simp add: run_closure_def)
  from DecoupledSGDW_step_snd [OF this] show ?thesis
    by (simp only: sgd_groups_step_groups)
qed

lemma sgd_run_no_buffer_at:
  assumes "\<forall>s. state opt p = Some s \<longrightarrow> momentum_buffer s = None \<or> momentum_buffer s = Some None"
    and "\<forall>g \<in> set (param_groups opt). p \<in> set (params g) \<longrightarrow> momentum g = 0"
  shows "\<forall>s. state (sgd_run backwards opt) p = Some s \<longrightarrow>
           momentum_buffer s = None \<or> momentum_buffer s = Some None"
  using assms
proof (induction backwards arbitrary: opt)
  case Nil
  then show ?case by simp
next
  case (Cons backward rest)
  let ?opt = "opt\<lparr>tensors := backward (tensors opt)\<rparr>"
  let ?opt1 = "snd (DecoupledSGDW_step None ?opt)"
  have c: "run_closure None ?opt = (None, ?opt)" by (simp add: run_closure_def)
  have st: "state ?opt = state opt" and pg: "param_groups ?opt = param_groups opt"
    by simp_all
  from Cons.prems(1)
  have a: "\<forall>s. state ?opt p = Some s \<longrightarrow>
      momentum_buffer s = None \<or> momentum_buffer s = Some None"
    unfolding st .
  from Cons.prems(2)
  have b: "\<forall>g \<in> set (param_groups ?opt).
           p \<in> set (params g) \<and> grad (tensors ?opt p) \<noteq> None \<longrightarrow> momentum g = 0"
    unfolding pg by blast
  from DecoupledSGDW_step_no_buffer_at [of None ?opt None ?opt p, OF c a b]
  have inv: "\<forall>s. state ?opt1 p = Some s \<longrightarrow>
      momentum_buffer s = None \<or> momentum_buffer s = Some None" .
  from Cons.prems(2)
  have "\<forall>g \<in> set (param_groups ?opt1). p \<in> set (params g) \<longrightarrow> momentum g = 0"
    unfolding DecoupledSGDW_step_groups pg .
  from Cons.IH [of ?opt1, OF inv this] show ?case by (simp only: sgd_run.simps)
qed

lemma sgd_example_step:
  "DecoupledSGDW_step None sgd_example
   = (Inr None,
      sgd_example
        \<lparr>state := [0 \<mapsto> \<lparr>momentum_buffer = Some None\<rparr>],
         tensors := (tensors sgd_example)
                      (0 := \<lparr>data = [1], grad = Some (Dense [1]), requires_grad = True\<rparr>)\<rparr>)"
  by (simp add: sgd_example_def DecoupledSGDW_step_def run_closure_def sgd_group_step_def
      sgd_state_of_def sgdw_def sgdw_entry_def tensor_add_def Let_def)

lemma sgd_mixed_example_step:
  "DecoupledSGDW_step None sgd_mixed_example
   = (Inr None,
      sgd_mixed_example
        \<lparr>state := [0 \<mapsto> \<lparr>momentum_buffer = Some None\<rparr>,
                   1 \<mapsto> \<lparr>momentum_buffer = Some (Some [1])\<rparr>],
         tensors := (tensors sgd_mixed_example)
                      (0 := \<lparr>data = [1], grad = Some (Dense [1]), requires_grad = True\<rparr>,
                       1 := \<lparr>data = [4], grad = Some (Dense [1]), requires_grad = True\<rparr>)\<rparr>)"
  by (simp add: sgd_mixed_example_def DecoupledSGDW_step_def run_closure_def sgd_group_step_def
      sgd_state_of_def sgdw_def sgdw_entry_def tensor_add_def Let_def)

lemma sgd_mixed_example_run:
  "sgd_run [\<lambda>ts. ts, \<lambda>ts. ts] sgd_mixed_example
   = sgd_mixed_example
        \<lparr>state := [0 \<mapsto> \<lparr>momentum_buffer = Some None\<rparr>,
                   1 \<mapsto> \<lparr>momentum_buffer = Some (Some [3 / 2])\<rparr>],
         tensors := (tensors sgd_mixed_example)
                      (0 := \<lparr>data = [0], grad = Some (Dense [1]), requires_grad = True\<rparr>,
                       1 := \<lparr>data = [5 / 2], grad = Some (Dense [1]), requires_grad = True\<rparr>)\<rparr>"
  by (simp add: sgd_mixed_example_def DecoupledSGDW_step_def run_closure_def sgd_group_step_def
      sgd_state_of_def sgdw_def sgdw_entry_def tensor_add_def tensor_mul_def Let_def)

text \<open>
  Claim C9, as it stands, fails. The step writes the slot of every parameter it has
  updated back to the state, also when the momentum is zero and the slot is still
  Python's \<open>None\<close>: after one step of \<open>sgd_example\<close>, whose momentum is \<open>0\<close>, the state of
  parameter \<open>0\<close> has the key \<open>momentum_buffer\<close>, and the key holds \<open>None\<close>.
\<close>

theorem momentum_buffer_key_after_step_without_momentum:
  "map momentum (param_groups sgd_example) = [0]
   \<and> state sgd_example 0 = None
   \<and> fst (DecoupledSGDW_step None sgd_example) = Inr None
   \<and> map_option momentum_buffer (state (snd (DecoupledSGDW_step None sgd_example)) 0)
     = Some (Some None)"
  by (simp add: sgd_example_step) (simp add: sgd_example_def)

text \<open>
  Claim C9, amended. The state of a parameter holds no momentum buffer tensor (its key
  \<open>momentum_buffer\<close> is absent or holds \<open>None\<close>) until the first update of that parameter
  performed with nonzero momentum. A step call keeps this for a parameter whenever every
  group that updates it (the group lists the parameter, and the parameter has a gradient
  once the closure has run) has zero momentum, whatever the momentum of the other groups;
  so does a run of any number of steps when every group that lists the parameter has zero
  momentum. An update with nonzero momentum of a parameter whose slot is \<open>None\<close> creates the
  buffer: a copy of the gradient.
\<close>

theorem no_momentum_buffer_tensor_without_momentum:
  "(run_closure closure opt = (loss, opt1)
      \<and> (\<forall>s. state opt1 p = Some s \<longrightarrow>
             momentum_buffer s = None \<or> momentum_buffer s = Some None)
      \<and> (\<forall>g \<in> set (param_groups opt1).
             p \<in> set (params g) \<and> grad (tensors opt1 p) \<noteq> None \<longrightarrow> momentum g = 0) \<longrightarrow>
      (\<forall>s. state (snd (DecoupledSGDW_step closure opt)) p = Some s \<longrightarrow>
             momentum_buffer s = None \<or> momentum_buffer s = Some None))
   \<and> ((\<forall>s. state opt p = Some s \<longrightarrow>
             momentum_buffer s = None \<or> momentum_buffer s = Some None)
      \<and> (\<forall>g \<in> set (param_groups opt). p \<in> set (params g) \<longrightarrow> momentum g = 0) \<longrightarrow>
      (\<forall>s. state (sgd_run backwards opt) p = Some s \<longrightarrow>
             momentum_buffer s = None \<or> momentum_buffer s = Some None))
   \<and> (momentum' \<noteq> 0 \<longrightarrow>
      snd (sgdw_entry weight_decay' momentum' lr' initial_lr' dampening' nesterov' param' d_p
             None) = Some d_p)"
proof (intro conjI impI)
  assume h: "run_closure closure opt = (loss, opt1)
      \<and> (\<forall>s. state opt1 p = Some s \<longrightarrow>
             momentum_buffer s = None \<or> momentum_buffer s = Some None)
      \<and> (\<forall>g \<in> set (param_groups opt1).
             p \<in> set (params g) \<and> grad (tensors opt1 p) \<noteq> None \<longrightarrow> momentum g = 0)"
  show "\<forall>s. state (snd (DecoupledSGDW_step closure opt)) p = Some s \<longrightarrow>
             momentum_buffer s = None \<or> momentum_buffer s = Some None"
    by (rule DecoupledSGDW_step_no_buffer_at [of closure opt loss opt1 p,
          OF h [THEN conjunct1] h [THEN conjunct2, THEN conjunct1]
             h [THEN conjunct2, THEN conjunct2]])
next
  assume h: "(\<forall>s. state opt p = Some s \<longrightarrow>
             momentum_buffer s = None \<or> momentum_buffer s = Some None)
      \<and> (\<forall>g \<in> set (param_groups opt). p \<in> set (params g) \<longrightarrow> momentum g = 0)"
  show "\<forall>s. state (sgd_run backwards opt) p = Some s \<longrightarrow>
             momentum_buffer s = None \<or> momentum_buffer s = Some None"
    by (rule sgd_run_no_buffer_at [of opt p backwards, OF h [THEN conjunct1]
          h [THEN conjunct2]])
next
  assume "momentum' \<noteq> 0"
  then show "snd (sgdw_entry weight_decay' momentum' lr' initial_lr' dampening' nesterov'
      param' d_p None) = Some d_p"
    by (simp add: sgdw_entry_def Let_def)
qed

theorem no_momentum_buffer_tensor_without_momentum_witness:
  "state sgd_mixed_example = Map.empty
   \<and> map momentum (param_groups sgd_mixed_example) = [0, 1 / 2]
   \<and> map params (param_groups sgd_mixed_example) = [[0], [1]]
   \<and> state (snd (DecoupledSGDW_step None sgd_mixed_example)) 0
     = Some \<lparr>momentum_buffer = Some None\<rparr>
   \<and> state (snd (DecoupledSGDW_step None sgd_mixed_example)) 1
     = Some \<lparr>momentum_buffer = Some (Some [1])\<rparr>
   \<and> state (sgd_run [\<lambda>ts. ts, \<lambda>ts. ts] sgd_mixed_example) 0
     = Some \<lparr>momentum_buffer = Some None\<rparr>
   \<and> state (sgd_run [\<lambda>ts. ts, \<lambda>ts. ts] sgd_mixed_example) 1
     = Some \<lparr>momentum_buffer = Some (Some [3 / 2])\<rparr>
   \<and> snd (sgdw_entry 0 (1 / 2) 1 1 0 False [5] [1] None) = Some [1]"
proof -
  note T = no_momentum_buffer_tensor_without_momentum
    [where closure = None and opt = sgd_mixed_example and loss = None
      and ?opt1.0 = sgd_mixed_example and p = 0 and backwards = "[\<lambda>ts. ts, \<lambda>ts. ts]"
      and momentum' = "1 / 2" and weight_decay' = 0 and lr' = 1 and initial_lr' = 1
      and dampening' = 0 and nesterov' = False and param' = "[5]" and d_p = "[1]"]
  have groups: "map momentum (param_groups sgd_mixed_example) = [0, 1 / 2]"
    "map params (param_groups sgd_mixed_example) = [[0], [1]]"
    and empty: "state sgd_mixed_example = Map.empty"
    by (simp_all add: sgd_mixed_example_def)
  have h1: "run_closure None sgd_mixed_example = (None, sgd_mixed_example)
      \<and> (\<forall>s. state sgd_mixed_example 0 = Some s \<longrightarrow>
             momentum_buffer s = None \<or> momentum_buffer s = Some None)
      \<and> (\<forall>g \<in> set (param_groups sgd_mixed_example).
             0 \<in> set (params g) \<and> grad (tensors sgd_mixed_example 0) \<noteq> None \<longrightarrow>
             momentum g = 0)"
    by (simp add: run_closure_def sgd_mixed_example_def)
  have h2: "(\<forall>s. state sgd_mixed_example 0 = Some s \<longrightarrow>
             momentum_buffer s = None \<or> momentum_buffer s = Some None)
      \<and> (\<forall>g \<in> set (param_groups sgd_mixed_example). 0 \<in> set (params g) \<longrightarrow> momentum g = 0)"
    by (simp add: sgd_mixed_example_def)
  have h3: "(1 / 2 :: real) \<noteq> 0" by simp
  have s0: "state (snd (DecoupledSGDW_step None sgd_mixed_example)) 0
      = Some \<lparr>momentum_buffer = Some None\<rparr>"
    and s1: "state (snd (DecoupledSGDW_step None sgd_mixed_example)) 1
      = Some \<lparr>momentum_buffer = Some (Some [1])\<rparr>"
    by (simp_all add: sgd_mixed_example_step)
  have r0: "state (sgd_run [\<lambda>ts. ts, \<lambda>ts. ts] sgd_mixed_example) 0
      = Some \<lparr>momentum_buffer = Some None\<rparr>"
    and r1: "state (sgd_run [\<lambda>ts. ts, \<lambda>ts. ts] sgd_mixed_example) 1
      = Some \<lparr>momentum_buffer = Some (Some [3 / 2])\<rparr>"
    by (simp_all only: sgd_mixed_example_run) simp_all
  from T [THEN conjunct1, rule_format, OF h1 s0]
  have "momentum_buffer \<lparr>momentum_buffer = Some None\<rparr> = None
      \<or> momentum_buffer \<lparr>momentum_buffer = Some None\<rparr> = Some None" .
  moreover from T [THEN conjunct2, THEN conjunct1, rule_format, OF h2 r0]
  have "momentum_buffer \<lparr>momentum_buffer = Some None\<rparr> = None
      \<or> momentum_buffer \<lparr>momentum_buffer = Some None\<rparr> = Some None" .
  moreover from T [THEN conjunct2, THEN conjunct2, rule_format, OF h3]
  have "snd (sgdw_entry 0 (1 / 2) 1 1 0 False [5] [1] None) = Some [1]" .
  ultimately show ?thesis using groups empty s0 s1 r0 r1 by simp
qed


section \<open>Sparse gradients\<close>

lemma adam_collect_reaches_sparse:
  assumes "adam_collect a ts pre st = (Inr collected, st1)"
    and "grad (ts q) = Some g" and "is_sparse g" and "requires_grad (ts q)"
  shows "adam_collect a ts (pre @ q # post) st = (Inl RuntimeError, st1)"
  using assms(1)
proof (induction pre arbitrary: st collected)
  case Nil
  with assms(2-4) show ?case by simp
next
  case (Cons p pre)
  show ?case
  proof (cases "grad (ts p) = None \<or> \<not> requires_grad (ts p)")
    case True
    with Cons.prems have "adam_collect a ts pre st = (Inr collected, st1)"
      by (auto split: option.splits)
    from Cons.IH [OF this] True show ?thesis by (auto split: option.splits)
  next
    case False
    then obtain h where h: "grad (ts p) = Some h" and r: "requires_grad (ts p)" by auto
    let ?s = "adam_state_of a st (data (ts p)) p"
    let ?st = "st(p \<mapsto> ?s\<lparr>step := step ?s + 1\<rparr>)"
    from Cons.prems h r have ok: "\<not> is_sparse h" "\<not> (a \<and> max_exp_avg_sq ?s = None)"
      by (auto simp: Let_def split: if_splits)
    with Cons.prems h r obtain collected' where
      rec: "adam_collect a ts pre ?st = (Inr collected', st1)"
      by (auto simp: Let_def split: if_splits prod.splits sum.splits)
    from Cons.IH [OF rec] have "adam_collect a ts (pre @ q # post) ?st = (Inl RuntimeError, st1)" .
    with h r ok show ?thesis by (simp add: Let_def)
  qed
qed

lemma upt_split: "n < m \<Longrightarrow> [0..<m] = [0..<n] @ n # [Suc n..<m]"
proof -
  assume n: "n < m"
  then have "[0..<m] = [0..<n + (m - n)]" by simp
  also have "\<dots> = [0..<n] @ [n..<n + (m - n)]" by (rule upt_add_eq_append) simp
  also from n have "[n..<n + (m - n)] = n # [Suc n..<m]" by (simp add: upt_conv_Cons)
  finally show ?thesis .
qed

lemma adam_groups_step_append:
  "adam_groups_step (ms @ ns) opt
   = (case adam_groups_step ms opt of
        (Some e, opt1) \<Rightarrow> (Some e, opt1)
      | (None, opt1) \<Rightarrow> adam_groups_step ns opt1)"
  by (induction ms arbitrary: opt) (auto split: prod.splits option.splits)

lemma adam_group_step_sparse:
  assumes "params (param_groups opt ! n) = pre @ q # post"
    and "adam_collect (amsgrad (param_groups opt ! n)) (tensors opt) pre (state opt)
         = (Inr collected, st1)"
    and "grad (tensors opt q) = Some g" and "is_sparse g" and "requires_grad (tensors opt q)"
  shows "fst (adam_group_step n opt) = Some RuntimeError
       \<and> tensors (snd (adam_group_step n opt)) = tensors opt
       \<and> state (snd (adam_group_step n opt)) = st1"
proof -
  from adam_collect_reaches_sparse [OF assms(2-5), of post] assms(1)
  have "adam_collect (amsgrad (param_groups opt ! n)) (tensors opt)
          (params (param_groups opt ! n)) (state opt) = (Inl RuntimeError, st1)"
    by simp
  then show ?thesis by (rule adam_group_step_raise)
qed

lemma adam_group_step_groups:
  "\<exists>x. param_groups (snd (adam_group_step n opt))
       = (param_groups opt)[n := (param_groups opt ! n)\<lparr>initial_lr := Some x\<rparr>]"
  by (auto simp: adam_group_step_def Let_def split: prod.splits sum.splits)

lemma adam_group_step_group_other:
  "m \<noteq> n \<Longrightarrow> param_groups (snd (adam_group_step n opt)) ! m = param_groups opt ! m"
  using adam_group_step_groups [of n opt] by auto

lemma adam_group_step_length:
  "length (param_groups (snd (adam_group_step n opt))) = length (param_groups opt)"
  using adam_group_step_groups [of n opt] by auto

lemma adam_group_step_params:
  "params (param_groups (snd (adam_group_step n opt)) ! m) = params (param_groups opt ! m)"
proof -
  from adam_group_step_groups [of n opt] obtain x where
    x: "param_groups (snd (adam_group_step n opt))
       = (param_groups opt)[n := (param_groups opt ! n)\<lparr>initial_lr := Some x\<rparr>]" ..
  show ?thesis
  proof (cases "m = n \<and> n < length (param_groups opt)")
    case True
    then show ?thesis unfolding x by simp
  next
    case False
    then have "(param_groups opt)[n := (param_groups opt ! n)\<lparr>initial_lr := Some x\<rparr>] ! m
        = param_groups opt ! m"
      by (cases "m = n") (simp_all add: list_update_beyond)
    then show ?thesis unfolding x by simp
  qed
qed

lemma adam_group_step_other:
  assumes "p \<notin> set (params (param_groups opt ! n))"
  shows "tensors (snd (adam_group_step n opt)) p = tensors opt p
       \<and> state (snd (adam_group_step n opt)) p = state opt p"
proof -
  let ?g = "param_groups opt ! n"
  let ?c = "adam_collect (amsgrad ?g) (tensors opt) (params ?g) (state opt)"
  obtain res st1 where c: "?c = (res, st1)" by (cases ?c)
  have "snd ?c p = state opt p"
    using assms by (intro adam_collect_state_frame) simp
  with c have st1: "st1 p = state opt p" by simp
  show ?thesis
  proof (cases res)
    case (Inl e)
    with c adam_group_step_raise [of opt n e st1] st1 show ?thesis by simp
  next
    case (Inr lists)
    obtain pw gs eas eass ms steps where l: "lists = (pw, gs, eas, eass, ms, steps)"
      by (cases lists)
    from c Inr l have c': "?c = (Inr (pw, gs, eas, eass, ms, steps), st1)" by simp
    from adam_collect_list_frame [OF c'] assms have p: "p \<notin> set pw" by auto
    from adam_group_step_update [OF c'] p st1 show ?thesis
      by (auto simp: store_moments_other store_data_zip_other)
  qed
qed

lemma adam_groups_step_other:
  assumes "\<forall>m \<in> set ns. p \<notin> set (params (param_groups opt ! m))"
  shows "tensors (snd (adam_groups_step ns opt)) p = tensors opt p
       \<and> state (snd (adam_groups_step ns opt)) p = state opt p"
  using assms
proof (induction ns arbitrary: opt)
  case Nil
  then show ?case by simp
next
  case (Cons n ns)
  obtain e opt1 where s: "adam_group_step n opt = (e, opt1)" by (cases "adam_group_step n opt")
  from Cons.prems have "p \<notin> set (params (param_groups opt ! n))" by simp
  from adam_group_step_other [OF this] s
  have f: "tensors opt1 p = tensors opt p" "state opt1 p = state opt p" by simp_all
  show ?case
  proof (cases e)
    case None
    have "\<forall>m \<in> set ns. p \<notin> set (params (param_groups opt1 ! m))"
    proof
      fix m assume "m \<in> set ns"
      with Cons.prems have "p \<notin> set (params (param_groups opt ! m))" by simp
      moreover from adam_group_step_params [of n opt m] s
      have "params (param_groups opt1 ! m) = params (param_groups opt ! m)" by simp
      ultimately show "p \<notin> set (params (param_groups opt1 ! m))" by simp
    qed
    from Cons.IH [OF this] f s None show ?thesis by simp
  next
    case (Some a)
    with s f show ?thesis by simp
  qed
qed

lemma adam_groups_step_group_other:
  "n \<notin> set ns \<Longrightarrow> param_groups (snd (adam_groups_step ns opt)) ! n = param_groups opt ! n"
proof (induction ns arbitrary: opt)
  case Nil
  then show ?case by simp
next
  case (Cons m ns)
  obtain e opt1 where s: "adam_group_step m opt = (e, opt1)" by (cases "adam_group_step m opt")
  from Cons.prems have "n \<noteq> m" and ns: "n \<notin> set ns" by auto
  from adam_group_step_group_other [OF this(1), of opt] s
  have g: "param_groups opt1 ! n = param_groups opt ! n" by simp
  show ?case
  proof (cases e)
    case None
    with Cons.IH [OF ns, of opt1] s g show ?thesis by simp
  next
    case (Some a)
    with s g show ?thesis by simp
  qed
qed

lemma adam_groups_step_length:
  "length (param_groups (snd (adam_groups_step ns opt))) = length (param_groups opt)"
proof (induction ns arbitrary: opt)
  case Nil
  then show ?case by simp
next
  case (Cons m ns)
  obtain e opt1 where s: "adam_group_step m opt = (e, opt1)" by (cases "adam_group_step m opt")
  from adam_group_step_length [of m opt] s
  have l: "length (param_groups opt1) = length (param_groups opt)" by simp
  show ?case
  proof (cases e)
    case None
    with Cons.IH [of opt1] s l show ?thesis by simp
  next
    case (Some a)
    with s l show ?thesis by simp
  qed
qed

lemma adam_groups_step_flags:
  "grad (tensors (snd (adam_groups_step ns opt)) q) = grad (tensors opt q)
   \<and> requires_grad (tensors (snd (adam_groups_step ns opt)) q) = requires_grad (tensors opt q)"
proof (induction ns arbitrary: opt)
  case Nil
  then show ?case by simp
next
  case (Cons m ns)
  obtain e opt1 where s: "adam_group_step m opt = (e, opt1)" by (cases "adam_group_step m opt")
  from adam_group_step_flags [of m opt q] s
  have f: "grad (tensors opt1 q) = grad (tensors opt q)"
    "requires_grad (tensors opt1 q) = requires_grad (tensors opt q)" by simp_all
  show ?case
  proof (cases e)
    case None
    with Cons.IH [of opt1] s f show ?thesis by simp
  next
    case (Some a)
    with s f show ?thesis by simp
  qed
qed

lemma adam_state_of_cong: "st' p = st p \<Longrightarrow> adam_state_of a st' v p = adam_state_of a st v p"
  by (simp add: adam_state_of_def)

lemma adam_collect_Cons_eligible:
  assumes "adam_collect a ts (h # ps) st = (Inr c, st1)"
    and "grad (ts h) = Some g" and "requires_grad (ts h)"
  shows "\<exists>c'. adam_collect a ts ps
                (st(h \<mapsto> (adam_state_of a st (data (ts h)) h)
                          \<lparr>step := step (adam_state_of a st (data (ts h)) h) + 1\<rparr>))
              = (Inr c', st1)"
  using assms
  by (auto simp: Let_def split: if_splits prod.splits sum.splits)

lemma adam_collect_updated_state:
  assumes "adam_collect a ts ps st = (Inr c, st1)" and "distinct ps" and "p \<in> set ps"
    and "grad (ts p) \<noteq> None" and "requires_grad (ts p)"
  shows "st1 p = Some ((adam_state_of a st (data (ts p)) p)
                        \<lparr>step := step (adam_state_of a st (data (ts p)) p) + 1\<rparr>)"
  using assms(1-3)
proof (induction ps arbitrary: st c)
  case Nil
  then show ?case by simp
next
  case (Cons h ps)
  show ?case
  proof (cases "grad (ts h) = None \<or> \<not> requires_grad (ts h)")
    case True
    with assms(4,5) have "h \<noteq> p" by auto
    with Cons.prems have p: "p \<in> set ps" and d: "distinct ps" by simp_all
    from True Cons.prems(1) have "adam_collect a ts ps st = (Inr c, st1)"
      by (auto split: option.splits)
    from Cons.IH [OF this d p] show ?thesis .
  next
    case False
    then obtain g where g: "grad (ts h) = Some g" and r: "requires_grad (ts h)" by auto
    let ?s = "adam_state_of a st (data (ts h)) h"
    let ?st = "st(h \<mapsto> ?s\<lparr>step := step ?s + 1\<rparr>)"
    from adam_collect_Cons_eligible [OF Cons.prems(1) g r]
    obtain c' where rec: "adam_collect a ts ps ?st = (Inr c', st1)" ..
    from Cons.prems(2) have d: "distinct ps" and hn: "h \<notin> set ps" by simp_all
    show ?thesis
    proof (cases "h = p")
      case True
      with hn have "p \<notin> set ps" by simp
      then have "snd (adam_collect a ts ps ?st) p = ?st p"
        by (intro adam_collect_state_frame) simp
      then have "st1 p = ?st p" unfolding rec snd_conv .
      with True show ?thesis by simp
    next
      case False
      with Cons.prems(3) have p: "p \<in> set ps" by simp
      from False have "?st p = st p" by simp
      then have same: "adam_state_of a ?st (data (ts p)) p = adam_state_of a st (data (ts p)) p"
        by (rule adam_state_of_cong)
      from Cons.IH [OF rec d p] show ?thesis unfolding same .
    qed
  qed
qed

lemma DecoupledAdamW_step_unfold:
  "run_closure closure opt = (loss, opt0) \<Longrightarrow>
   DecoupledAdamW_step closure opt
   = (case adam_groups_step [0..<length (param_groups opt0)] opt0 of
        (Some e, opt2) \<Rightarrow> (Inl e, opt2)
      | (None, opt2) \<Rightarrow> (Inr loss, opt2))"
  by (simp add: DecoupledAdamW_step_def)

lemma DecoupledAdamW_step_sparse_closure:
  assumes "run_closure closure opt = (loss, opt0)"
    and "n < length (param_groups opt0)"
    and "adam_groups_step [0..<n] opt0 = (None, optA)"
    and "params (param_groups optA ! n) = pre @ q # post"
    and "adam_collect (amsgrad (param_groups optA ! n)) (tensors optA) pre (state optA)
         = (Inr collected, st1)"
    and "grad (tensors optA q) = Some g" and "is_sparse g" and "requires_grad (tensors optA q)"
  shows "fst (DecoupledAdamW_step closure opt) = Inl RuntimeError
       \<and> tensors (snd (DecoupledAdamW_step closure opt)) = tensors optA
       \<and> state (snd (DecoupledAdamW_step closure opt)) = st1"
proof -
  obtain e opt1 where s: "adam_group_step n optA = (e, opt1)" by (cases "adam_group_step n optA")
  from adam_group_step_sparse [OF assms(4-8)] s
  have e: "e = Some RuntimeError" and t: "tensors opt1 = tensors optA" and st: "state opt1 = st1"
    by simp_all
  from assms(2) have "[0..<length (param_groups opt0)]
      = [0..<n] @ n # [Suc n..<length (param_groups opt0)]"
    by (rule upt_split)
  then have "adam_groups_step [0..<length (param_groups opt0)] opt0 = (Some RuntimeError, opt1)"
    using assms(3) s e by (simp add: adam_groups_step_append)
  with t st show ?thesis
    by (simp add: DecoupledAdamW_step_unfold [OF assms(1)])
qed

lemma adam_sparse_example_first_group:
  "adam_groups_step [0..<1] adam_sparse_example
   = (None,
      adam_sparse_example
        \<lparr>state := [0 \<mapsto> \<lparr>step = 1, exp_avg = [1 / 2], exp_avg_sq = [1 / 4],
                           max_exp_avg_sq = None\<rparr>],
         tensors := (tensors adam_sparse_example)
                      (0 := \<lparr>data = [1 / 2], grad = Some (Dense [1]), requires_grad = True\<rparr>)\<rparr>)"
  by (simp add: adam_sparse_example_def adam_group_step_def adam_state_of_def
      zeros_like_def adamw_def adamw_entry_def adamw_finish_def math_sqrt_def decay_factor_def
      tensor_mul_def tensor_add_def tensor_addcmul_def tensor_sqrt_def tensor_div_scalar_def
      tensor_add_scalar_def tensor_addcdiv_def real_sqrt_divide Let_def)

lemma adam_sparse_example_step:
  "DecoupledAdamW_step None adam_sparse_example
   = (Inl RuntimeError,
      adam_sparse_example
        \<lparr>state := [0 \<mapsto> \<lparr>step = 1, exp_avg = [1 / 2], exp_avg_sq = [1 / 4],
                           max_exp_avg_sq = None\<rparr>,
                    1 \<mapsto> \<lparr>step = 1, exp_avg = [0], exp_avg_sq = [0], max_exp_avg_sq = None\<rparr>],
         tensors := (tensors adam_sparse_example)
                      (0 := \<lparr>data = [1 / 2], grad = Some (Dense [1]), requires_grad = True\<rparr>)\<rparr>)"
  by (simp add: DecoupledAdamW_step_def run_closure_def adam_sparse_example_def
      adam_group_step_def adam_state_of_def
      zeros_like_def adamw_def adamw_entry_def adamw_finish_def math_sqrt_def decay_factor_def
      tensor_mul_def tensor_add_def tensor_addcmul_def tensor_sqrt_def tensor_div_scalar_def
      tensor_add_scalar_def tensor_addcdiv_def real_sqrt_divide Let_def)

text \<open>
  Claim C3, as it stands, fails. In \<open>adam_sparse_example\<close> the sparse gradient belongs to the
  second parameter of the second group: the step raises the error after it has updated
  parameter \<open>0\<close> of the first group and has created the state of parameter \<open>1\<close>, with its
  step counter at \<open>1\<close>.
\<close>

theorem sparse_gradient_after_mutation:
  "fst (DecoupledAdamW_step None adam_sparse_example) = Inl RuntimeError
   \<and> data (tensors adam_sparse_example 0) = [2]
   \<and> data (tensors (snd (DecoupledAdamW_step None adam_sparse_example)) 0) = [1 / 2]
   \<and> state adam_sparse_example 1 = None
   \<and> state (snd (DecoupledAdamW_step None adam_sparse_example)) 1
     = Some \<lparr>step = 1, exp_avg = [0], exp_avg_sq = [0], max_exp_avg_sq = None\<rparr>"
  by (simp add: adam_sparse_example_step) (simp add: adam_sparse_example_def)

text \<open>
  Claim C3, amended. A step call runs its closure, if any, which leaves the optimizer
  \<open>opt0\<close>. When the update loop then reaches a parameter \<open>q\<close> that has a gradient, requires
  gradients and whose gradient is sparse (the groups before its group \<open>n\<close> are updated
  without an error and leave the optimizer \<open>optA\<close>, and the parameters \<open>pre\<close> before it in
  its group are collected without an error), the call fails with \<open>RuntimeError\<close>. At that
  point the parameter values are as the earlier groups left them: a parameter that is in
  no earlier group, hence every parameter of the failing group when no parameter is in
  two groups, has the value that the closure left. The state of a parameter that is in no
  earlier group and not before \<open>q\<close> in its group, hence that of \<open>q\<close> and of the parameters
  after it, is the state that the closure left; so are value and state of every parameter
  without a gradient or not requiring gradients. A parameter before \<open>q\<close> in its group that
  has a gradient and requires gradients (with \<open>pre\<close> listing no parameter twice) has had
  its state initialised, when it had none, and its step counter incremented. When \<open>q\<close> is
  in the first group and no parameter before it is trainable with a gradient, nothing has
  changed.
\<close>

theorem sparse_gradient_aborts_step:
  assumes closure: "run_closure closure opt = (loss, opt0)"
    and n: "n < length (param_groups opt0)"
    and earlier: "adam_groups_step [0..<n] opt0 = (None, optA)"
    and ps: "params (param_groups opt0 ! n) = pre @ q # post"
    and coll: "adam_collect (amsgrad (param_groups opt0 ! n)) (tensors optA) pre (state optA)
         = (Inr collected, st1)"
    and g: "grad (tensors opt0 q) = Some g" and sp: "is_sparse g"
    and rq: "requires_grad (tensors opt0 q)"
  shows "fst (DecoupledAdamW_step closure opt) = Inl RuntimeError
       \<and> tensors (snd (DecoupledAdamW_step closure opt)) = tensors optA
       \<and> (\<forall>p. p \<notin> set pre \<longrightarrow> state (snd (DecoupledAdamW_step closure opt)) p = state optA p)
       \<and> (\<forall>p. (\<forall>m < n. p \<notin> set (params (param_groups opt0 ! m))) \<longrightarrow>
              tensors (snd (DecoupledAdamW_step closure opt)) p = tensors opt0 p)
       \<and> (\<forall>p. (\<forall>m < n. p \<notin> set (params (param_groups opt0 ! m))) \<and> p \<notin> set pre \<longrightarrow>
              state (snd (DecoupledAdamW_step closure opt)) p = state opt0 p)
       \<and> (\<forall>p. grad (tensors opt0 p) = None \<or> \<not> requires_grad (tensors opt0 p) \<longrightarrow>
              tensors (snd (DecoupledAdamW_step closure opt)) p = tensors opt0 p
              \<and> state (snd (DecoupledAdamW_step closure opt)) p = state opt0 p)
       \<and> (distinct pre \<longrightarrow>
            (\<forall>p \<in> set pre.
               (\<forall>m < n. p \<notin> set (params (param_groups opt0 ! m)))
               \<and> grad (tensors opt0 p) \<noteq> None \<and> requires_grad (tensors opt0 p) \<longrightarrow>
               state (snd (DecoupledAdamW_step closure opt)) p
               = Some ((adam_state_of (amsgrad (param_groups opt0 ! n)) (state opt0)
                          (data (tensors opt0 p)) p)
                       \<lparr>step := step (adam_state_of (amsgrad (param_groups opt0 ! n))
                                        (state opt0) (data (tensors opt0 p)) p) + 1\<rparr>)))
       \<and> (n = 0 \<and> (\<forall>p \<in> set pre. grad (tensors opt0 p) = None
                                   \<or> \<not> requires_grad (tensors opt0 p)) \<longrightarrow>
            tensors (snd (DecoupledAdamW_step closure opt)) = tensors opt0
            \<and> state (snd (DecoupledAdamW_step closure opt)) = state opt0)"
proof -
  let ?R = "DecoupledAdamW_step closure opt"
  let ?a = "amsgrad (param_groups opt0 ! n)"
  from earlier have optA: "snd (adam_groups_step [0..<n] opt0) = optA" by simp
  have gA: "param_groups optA ! n = param_groups opt0 ! n"
    using adam_groups_step_group_other [of n "[0..<n]" opt0] optA by simp
  have flags: "grad (tensors optA p) = grad (tensors opt0 p)"
    "requires_grad (tensors optA p) = requires_grad (tensors opt0 p)" for p
    using adam_groups_step_flags [of "[0..<n]" opt0 p] optA by simp_all
  have other: "tensors optA p = tensors opt0 p \<and> state optA p = state opt0 p"
    if "\<forall>m < n. p \<notin> set (params (param_groups opt0 ! m))" for p
    using adam_groups_step_other [of "[0..<n]" p opt0] that optA by simp
  from ps gA have psA: "params (param_groups optA ! n) = pre @ q # post" by simp
  from coll gA have collA: "adam_collect (amsgrad (param_groups optA ! n)) (tensors optA) pre
      (state optA) = (Inr collected, st1)" by simp
  from g flags have gq: "grad (tensors optA q) = Some g" by simp
  from rq flags have rqA: "requires_grad (tensors optA q)" by simp
  from DecoupledAdamW_step_sparse_closure [OF closure n earlier psA collA gq sp rqA]
  have err: "fst ?R = Inl RuntimeError" and t: "tensors (snd ?R) = tensors optA"
    and st: "state (snd ?R) = st1"
    by simp_all
  have frame: "st1 p = state optA p" if "p \<notin> set pre" for p
  proof -
    from that have "snd (adam_collect ?a (tensors optA) pre (state optA)) p = state optA p"
      by (intro adam_collect_state_frame) simp
    with coll show ?thesis by simp
  qed
  have c3: "\<forall>p. p \<notin> set pre \<longrightarrow> state (snd ?R) p = state optA p"
    using frame st by simp
  have c4: "\<forall>p. (\<forall>m < n. p \<notin> set (params (param_groups opt0 ! m))) \<longrightarrow>
              tensors (snd ?R) p = tensors opt0 p"
    using other t by simp
  have c5: "\<forall>p. (\<forall>m < n. p \<notin> set (params (param_groups opt0 ! m))) \<and> p \<notin> set pre \<longrightarrow>
              state (snd ?R) p = state opt0 p"
    using other frame st by simp
  have c6: "\<forall>p. grad (tensors opt0 p) = None \<or> \<not> requires_grad (tensors opt0 p) \<longrightarrow>
              tensors (snd ?R) p = tensors opt0 p \<and> state (snd ?R) p = state opt0 p"
    using DecoupledAdamW_step_frame [OF closure] by blast
  have c7: "state (snd ?R) p
               = Some ((adam_state_of ?a (state opt0) (data (tensors opt0 p)) p)
                       \<lparr>step := step (adam_state_of ?a (state opt0) (data (tensors opt0 p)) p)
                                 + 1\<rparr>)"
    if d: "distinct pre" and p: "p \<in> set pre"
      and o: "\<forall>m < n. p \<notin> set (params (param_groups opt0 ! m))"
      and gp: "grad (tensors opt0 p) \<noteq> None" and rp: "requires_grad (tensors opt0 p)" for p
  proof -
    from gp flags have gA': "grad (tensors optA p) \<noteq> None" by simp
    from rp flags have rA': "requires_grad (tensors optA p)" by simp
    from other [OF o] have same: "tensors optA p = tensors opt0 p" "state optA p = state opt0 p"
      by simp_all
    from same(2) have s: "adam_state_of ?a (state optA) v p = adam_state_of ?a (state opt0) v p"
      for v by (rule adam_state_of_cong)
    from adam_collect_updated_state [OF coll d p gA' rA']
    have "st1 p = Some ((adam_state_of ?a (state optA) (data (tensors optA p)) p)
                        \<lparr>step := step (adam_state_of ?a (state optA) (data (tensors optA p)) p)
                                  + 1\<rparr>)" .
    then show ?thesis unfolding st s same(1) .
  qed
  have c8: "tensors (snd ?R) = tensors opt0 \<and> state (snd ?R) = state opt0"
    if "n = 0"
      and "\<forall>p \<in> set pre. grad (tensors opt0 p) = None \<or> \<not> requires_grad (tensors opt0 p)"
  proof -
    from that(1) earlier have "optA = opt0" by simp
    with that(2) coll t st show ?thesis by (simp add: adam_collect_all_skipped)
  qed
  from err t c3 c4 c5 c6 c7 c8 show ?thesis by blast
qed

theorem sparse_gradient_aborts_step_witness:
  "fst (DecoupledAdamW_step None adam_sparse_example) = Inl RuntimeError
   \<and> tensors (snd (DecoupledAdamW_step None adam_sparse_example)) 1 = tensors adam_sparse_example 1
   \<and> tensors (snd (DecoupledAdamW_step None adam_sparse_example)) 2 = tensors adam_sparse_example 2
   \<and> state (snd (DecoupledAdamW_step None adam_sparse_example)) 2 = state adam_sparse_example 2
   \<and> state adam_sparse_example 1 = None
   \<and> state (snd (DecoupledAdamW_step None adam_sparse_example)) 1
     = Some \<lparr>step = 1, exp_avg = [0], exp_avg_sq = [0], max_exp_avg_sq = None\<rparr>"
proof -
  let ?ex = adam_sparse_example
  let ?R = "DecoupledAdamW_step None adam_sparse_example"
  let ?optA = "adam_sparse_example
        \<lparr>state := [0 \<mapsto> \<lparr>step = 1, exp_avg = [1 / 2], exp_avg_sq = [1 / 4],
                           max_exp_avg_sq = None\<rparr>],
         tensors := (tensors adam_sparse_example)
                      (0 := \<lparr>data = [1 / 2], grad = Some (Dense [1]), requires_grad = True\<rparr>)\<rparr>"
  let ?st1 = "(state ?optA)(1 \<mapsto> \<lparr>step = 1, exp_avg = [0], exp_avg_sq = [0],
                                   max_exp_avg_sq = None\<rparr>)"
  have c: "run_closure None ?ex = (None, ?ex)" by (simp add: run_closure_def)
  have n: "1 < length (param_groups ?ex)"
    and ps: "params (param_groups ?ex ! 1) = [1] @ 2 # []"
    and coll: "adam_collect (amsgrad (param_groups ?ex ! 1)) (tensors ?optA) [1] (state ?optA)
            = (Inr ([1], [[1]], [[0]], [[0]], [], [1]), ?st1)"
    and g: "grad (tensors ?ex 2) = Some (Sparse [1])" "is_sparse (Sparse [1])"
      "requires_grad (tensors ?ex 2)"
    by (simp_all add: adam_sparse_example_def adam_state_of_def zeros_like_def)
  note T = sparse_gradient_aborts_step [OF c n adam_sparse_example_first_group ps coll g]
  have o1: "\<forall>m < 1. 1 \<notin> set (params (param_groups ?ex ! m))"
    and o2: "\<forall>m < 1. 2 \<notin> set (params (param_groups ?ex ! m))"
    and np: "(2::nat) \<notin> set [1]" and d: "distinct [1::nat]" and p1: "(1::nat) \<in> set [1]"
    and e1: "grad (tensors ?ex 1) \<noteq> None" "requires_grad (tensors ?ex 1)"
    and s1: "state ?ex 1 = None"
    and v: "Some ((adam_state_of (amsgrad (param_groups ?ex ! 1)) (state ?ex)
                          (data (tensors ?ex 1)) 1)
                       \<lparr>step := step (adam_state_of (amsgrad (param_groups ?ex ! 1))
                                        (state ?ex) (data (tensors ?ex 1)) 1) + 1\<rparr>)
            = Some \<lparr>step = 1, exp_avg = [0], exp_avg_sq = [0], max_exp_avg_sq = None\<rparr>"
    by (simp_all add: adam_sparse_example_def adam_state_of_def zeros_like_def)
  from T [THEN conjunct1]
  have r1: "fst ?R = Inl RuntimeError" .
  from T [THEN conjunct2, THEN conjunct2, THEN conjunct2, THEN conjunct1] o1 o2
  have r2: "tensors (snd ?R) 1 = tensors ?ex 1" "tensors (snd ?R) 2 = tensors ?ex 2"
    by blast+
  from T [THEN conjunct2, THEN conjunct2, THEN conjunct2, THEN conjunct2, THEN conjunct1]
    o2 np
  have r3: "state (snd ?R) 2 = state ?ex 2" by blast
  from T [THEN conjunct2, THEN conjunct2, THEN conjunct2, THEN conjunct2, THEN conjunct2,
      THEN conjunct2, THEN conjunct1, rule_format, OF d p1] o1 e1
  have "state (snd ?R) 1
      = Some ((adam_state_of (amsgrad (param_groups ?ex ! 1)) (state ?ex)
                          (data (tensors ?ex 1)) 1)
                       \<lparr>step := step (adam_state_of (amsgrad (param_groups ?ex ! 1))
                                        (state ?ex) (data (tensors ?ex 1)) 1) + 1\<rparr>)"
    by blast
  then have r4: "state (snd ?R) 1
      = Some \<lparr>step = 1, exp_avg = [0], exp_avg_sq = [0], max_exp_avg_sq = None\<rparr>"
    unfolding v .
  from r1 r2 r3 s1 r4 show ?thesis by (intro conjI)
qed
end
